theory Spec2Isabelle
  imports Complex_Main "HOL-Library.Multiset"
begin

section \<open>Python values, errors and formatting\<close>

text \<open>
  Every \<^verbatim>\<open>raise\<close> of \<^verbatim>\<open>plotting.py\<close> is a value: the exception class with its
  message. Errors raised by Python itself (indexing, unpacking, \<^verbatim>\<open>max\<close> of an empty
  sequence, a missing key) carry the interpreter's message.
\<close>

datatype error =
    ImportError string
  | TypeError string
  | ValueError string
  | KeyError string
  | IndexError string

text \<open>A value handed to \<^verbatim>\<open>_float2str\<close>: a number or a string.\<close>

datatype pyval = Num real | Str string

text \<open>
  The two conversions of the Python runtime that \<^verbatim>\<open>_float2str\<close> calls on a number:
  \<^verbatim>\<open>"{0:.{1}f}".format(value, precision)\<close> and \<^verbatim>\<open>str(value)\<close>. They are
  built-ins, taken as parameters. The first is given a precision that is not negative:
  for a negative one the format call raises before it formats anything.
\<close>

record pyfmt =
  format_f :: "real \<Rightarrow> int \<Rightarrow> string"
  str_f :: "real \<Rightarrow> string"

definition float2str :: "pyfmt \<Rightarrow> pyval \<Rightarrow> int option \<Rightarrow> error + string" where
  "float2str F v precision =
     (case v of
        Str s \<Rightarrow> Inr s
      | Num x \<Rightarrow>
          (case precision of
             Some p \<Rightarrow>
               if p < 0 then Inl (ValueError ''Format specifier missing precision'')
               else Inr (format_f F x p)
           | None \<Rightarrow> Inr (str_f F x)))"

text \<open>\<^verbatim>\<open>str\<close> of a Python integer: decimal digits, a minus sign when negative.\<close>

definition digit :: "nat \<Rightarrow> char" where
  "digit d = char_of (48 + d)"

function str_nat :: "nat \<Rightarrow> string" where
  "str_nat n = (if n < 10 then [digit n] else str_nat (n div 10) @ [digit (n mod 10)])"
  by pat_completeness auto
termination
  by (relation "measure (\<lambda>n. n)") auto

declare str_nat.simps [simp del]

definition str_int :: "int \<Rightarrow> string" where
  "str_int i = (if i < 0 then CHR ''-'' # str_nat (nat (- i)) else str_nat (nat i))"

text \<open>\<^verbatim>\<open>xs[i]\<close> on a list: an index below zero is taken from the end.\<close>

definition py_index :: "'a list \<Rightarrow> int \<Rightarrow> error + 'a" where
  "py_index xs i =
     (if 0 \<le> i \<and> i < int (length xs) then Inr (xs ! nat i)
      else if i < 0 \<and> - i \<le> int (length xs) then Inr (xs ! nat (int (length xs) + i))
      else Inl (IndexError ''list index out of range''))"

section \<open>The tree description and the graph\<close>

text \<open>
  A node of the dumped tree is a dict. The walker tells an internal node from a leaf by
  the key \<^verbatim>\<open>split_index\<close> and reads the keys below. The keys that are read only on
  request through \<^verbatim>\<open>show_info\<close> may be absent: reading an absent one is a
  \<^verbatim>\<open>KeyError\<close>.
\<close>

datatype tree =
    Leaf (leaf_index: int) (leaf_value: pyval) (leaf_count: "int option")
  | Split (split_index: int) (split_feature: int) (threshold: pyval)
      (decision_type: string)
      (split_gain: "pyval option") (internal_value: "pyval option")
      (internal_count: "int option")
      (left_child: tree) (right_child: tree)

text \<open>
  The graph object: the calls \<^verbatim>\<open>graph.node(name, label=label)\<close> and
  \<^verbatim>\<open>graph.edge(parent, name, decision)\<close> each append one statement to the body.
\<close>

datatype stmt =
    Node string string
  | Edge string string "string option"

fun is_node :: "stmt \<Rightarrow> bool" where
  "is_node (Node _ _) = True"
| "is_node (Edge _ _ _) = False"

fun is_edge :: "stmt \<Rightarrow> bool" where
  "is_edge (Node _ _) = False"
| "is_edge (Edge _ _ _) = True"

definition nodes :: "stmt list \<Rightarrow> stmt list" where
  "nodes g = filter is_node g"

definition edges :: "stmt list \<Rightarrow> stmt list" where
  "edges g = filter is_edge g"

section \<open>The tree walker\<close>

definition nl :: string where
  "nl = [CHR 0x5C, CHR ''n'']"

text \<open>The loop over \<^verbatim>\<open>show_info\<close> at an internal node.\<close>

fun split_info :: "pyfmt \<Rightarrow> int option \<Rightarrow> pyval option \<Rightarrow> pyval option \<Rightarrow> int option
    \<Rightarrow> string list \<Rightarrow> string \<Rightarrow> error + string" where
  "split_info F precision gain ival icount [] label = Inr label"
| "split_info F precision gain ival icount (info # rest) label =
     (if info = ''split_gain'' \<or> info = ''internal_value'' then
        (case (if info = ''split_gain'' then gain else ival) of
           None \<Rightarrow> Inl (KeyError info)
         | Some v \<Rightarrow>
             (case float2str F v precision of
                Inl e \<Rightarrow> Inl e
              | Inr s \<Rightarrow>
                  split_info F precision gain ival icount rest (label @ nl @ info @ '': '' @ s)))
      else if info = ''internal_count'' then
        (case icount of
           None \<Rightarrow> Inl (KeyError info)
         | Some c \<Rightarrow>
             split_info F precision gain ival icount rest
               (label @ nl @ info @ '': '' @ str_int c))
      else split_info F precision gain ival icount rest label)"

text \<open>The label of an internal node (lines 387 to 396).\<close>

definition split_label :: "pyfmt \<Rightarrow> string list \<Rightarrow> string list option \<Rightarrow> int option
    \<Rightarrow> int \<Rightarrow> pyval \<Rightarrow> pyval option \<Rightarrow> pyval option \<Rightarrow> int option \<Rightarrow> error + string" where
  "split_label F show_info feature_names precision feat thr gain ival icount =
     (case (case feature_names of
              Some names \<Rightarrow>
                (case py_index names feat of
                   Inl e \<Rightarrow> Inl e
                 | Inr nm \<Rightarrow> Inr (''split_feature_name: '' @ nm))
            | None \<Rightarrow> Inr (''split_feature_index: '' @ str_int feat)) of
        Inl e \<Rightarrow> Inl e
      | Inr label \<Rightarrow>
          (case float2str F thr precision of
             Inl e \<Rightarrow> Inl e
           | Inr s \<Rightarrow>
               split_info F precision gain ival icount show_info
                 (label @ nl @ ''threshold: '' @ s)))"

text \<open>The label of a leaf (lines 408 to 411).\<close>

definition leaf_label :: "pyfmt \<Rightarrow> string list \<Rightarrow> int option
    \<Rightarrow> int \<Rightarrow> pyval \<Rightarrow> int option \<Rightarrow> error + string" where
  "leaf_label F show_info precision idx v cnt =
     (case float2str F v precision of
        Inl e \<Rightarrow> Inl e
      | Inr s \<Rightarrow>
          (let label = ''leaf_index: '' @ str_int idx @ nl @ ''leaf_value: '' @ s
           in if ''leaf_count'' \<in> set show_info then
                (case cnt of
                   None \<Rightarrow> Inl (KeyError ''leaf_count'')
                 | Some c \<Rightarrow> Inr (label @ nl @ ''leaf_count: '' @ str_int c))
              else Inr label))"

text \<open>The branch labels of the two children (lines 398 to 403).\<close>

definition decision_labels :: "string \<Rightarrow> error + (string \<times> string)" where
  "decision_labels dt =
     (if dt = ''<='' then Inr (''<='', ''>'')
      else if dt = ''=='' then Inr (''is'', ''isn'' @ [CHR 0x27] @ ''t'')
      else Inl (ValueError ''Invalid decision type in tree model.''))"

text \<open>The synthetic name of a node.\<close>

fun node_name :: "tree \<Rightarrow> string" where
  "node_name (Leaf idx v cnt) = ''leaf'' @ str_int idx"
| "node_name (Split sidx feat thr dt gain ival icount l r) = ''split'' @ str_int sidx"

text \<open>
  The closure \<^verbatim>\<open>add(root, parent, decision)\<close>. It captures \<^verbatim>\<open>show_info\<close>,
  \<^verbatim>\<open>feature_names\<close>, \<^verbatim>\<open>precision\<close> and the graph; the graph's body is passed
  and returned. An exception leaves the walker without a graph.
\<close>

fun add :: "pyfmt \<Rightarrow> string list \<Rightarrow> string list option \<Rightarrow> int option
    \<Rightarrow> tree \<Rightarrow> string option \<Rightarrow> string option \<Rightarrow> stmt list \<Rightarrow> error + stmt list" where
  "add F show_info feature_names precision
       (Split sidx feat thr dt gain ival icount l r) parent decision g =
     (let name = ''split'' @ str_int sidx in
      case split_label F show_info feature_names precision feat thr gain ival icount of
        Inl e \<Rightarrow> Inl e
      | Inr label \<Rightarrow>
          (let g1 = g @ [Node name label] in
           case decision_labels dt of
             Inl e \<Rightarrow> Inl e
           | Inr (l_dec, r_dec) \<Rightarrow>
               (case add F show_info feature_names precision l (Some name) (Some l_dec) g1 of
                  Inl e \<Rightarrow> Inl e
                | Inr g2 \<Rightarrow>
                    (case add F show_info feature_names precision r (Some name) (Some r_dec) g2 of
                       Inl e \<Rightarrow> Inl e
                     | Inr g3 \<Rightarrow>
                         Inr (case parent of
                                None \<Rightarrow> g3
                              | Some p \<Rightarrow> g3 @ [Edge p name decision])))))"
| "add F show_info feature_names precision (Leaf idx v cnt) parent decision g =
     (let name = ''leaf'' @ str_int idx in
      case leaf_label F show_info precision idx v cnt of
        Inl e \<Rightarrow> Inl e
      | Inr label \<Rightarrow>
          (let g1 = g @ [Node name label] in
           Inr (case parent of
                  None \<Rightarrow> g1
                | Some p \<Rightarrow> g1 @ [Edge p name decision])))"

section \<open>Model handles, options and effects\<close>

text \<open>
  A keyword-argument value: a string, a boolean, a dict of strings, a list of strings, or
  any other object. A \<^verbatim>\<open>**kwargs\<close> dict is an association list in insertion
  order.
\<close>

datatype kwval =
    KStr string
  | KBool bool
  | KDict "(string \<times> string) list"
  | KList "string list"
  | KObj

type_synonym kwargs = "(string \<times> kwval) list"

definition kw_in :: "string \<Rightarrow> kwargs \<Rightarrow> bool" where
  "kw_in k kw = (k \<in> set (map fst kw))"

text \<open>Python truthiness of the result of \<^verbatim>\<open>dict.get\<close>.\<close>

fun truthy :: "kwval option \<Rightarrow> bool" where
  "truthy None = False"
| "truthy (Some (KStr s)) = (s \<noteq> [])"
| "truthy (Some (KBool b)) = b"
| "truthy (Some (KDict d)) = (d \<noteq> [])"
| "truthy (Some (KList l)) = (l \<noteq> [])"
| "truthy (Some KObj) = True"

text \<open>
  An argument that must be a tuple of 2 elements: a tuple (of any length) or
  another object, such as a list.
\<close>

datatype range_arg = Tuple "real list" | NonTuple

definition check_not_tuple_of_2_elements :: "range_arg \<Rightarrow> string \<Rightarrow> error + unit" where
  "check_not_tuple_of_2_elements obj obj_name =
     (case obj of
        NonTuple \<Rightarrow> Inl (TypeError (obj_name @ '' must be a tuple of 2 elements.''))
      | Tuple xs \<Rightarrow>
          if length xs \<noteq> 2 then Inl (TypeError (obj_name @ '' must be a tuple of 2 elements.''))
          else Inr ())"

fun tuple_items :: "range_arg \<Rightarrow> real list" where
  "tuple_items (Tuple xs) = xs"
| "tuple_items NonTuple = []"

text \<open>
  What the model object exposes (the accessors of \<^verbatim>\<open>basic.py\<close> and
  \<^verbatim>\<open>sklearn.py\<close>, which this module only calls): the importance vector by
  importance type, the feature names, the split value histogram, and the dumped model
  with its list of trees and, when the key is present, its feature names.
\<close>

datatype feature = FeatureIndex int | FeatureName string

datatype bins_arg = BinsNone | BinsInt int | BinsStr string

record tree_info =
  tree_structure :: tree

record model_dump =
  model_tree_info :: "tree_info list"
  model_feature_names :: "string list option"

record booster =
  feature_importance :: "string \<Rightarrow> real list"
  feature_name :: "string list"
  get_split_value_histogram :: "feature \<Rightarrow> bins_arg \<Rightarrow> int list \<times> real list"
  dump_model :: model_dump

type_synonym evals = "(string \<times> (string \<times> real list) list) list"

text \<open>
  The object passed as \<^verbatim>\<open>booster\<close>: an \<^verbatim>\<open>LGBMModel\<close> (with its
  \<^verbatim>\<open>booster_\<close> and \<^verbatim>\<open>evals_result_\<close>), a \<^verbatim>\<open>Booster\<close>, a dict of
  evaluation results, or anything else.
\<close>

datatype handle =
    LGBMModel booster evals
  | Booster booster
  | Dict evals
  | Other

text \<open>The isinstance chain that opens the three booster-based entry points.\<close>

definition as_booster :: "handle \<Rightarrow> error + booster" where
  "as_booster h =
     (case h of
        LGBMModel b ev \<Rightarrow> Inr b
      | Booster b \<Rightarrow> Inr b
      | _ \<Rightarrow> Inl (TypeError ''booster must be Booster or LGBMModel.''))"

datatype axes = UserAxes | NewAxes

record digraph =
  options :: kwargs
  body :: "stmt list"

text \<open>
  The calls that reach outside the module, in the order they are made: warnings,
  \<^verbatim>\<open>plt.subplots\<close>, the methods of the axes and the rasterisation of a graph.
  They stay done when a later statement raises.
\<close>

datatype effect =
    Warn string string
  | Subplots "range_arg option"
  | Barh "nat list" "real list" real kwargs
  | Text real nat pyval
  | Set_yticks "nat list"
  | Set_yticklabels "string list"
  | Bar "real list" "int list" real kwargs
  | Set_major_locator
  | Plot "nat list" "real list" string
  | Legend
  | Set_xlim "real list"
  | Set_ylim "real list"
  | Set_title string
  | Set_xlabel string
  | Set_ylabel string
  | Grid bool
  | Pipe digraph
  | Imshow
  | Axis_off

text \<open>The display options shared by the three chart functions.\<close>

record plot_opts =
  ax :: "axes option"
  xlim :: "range_arg option"
  ylim :: "range_arg option"
  title :: "string option"
  xlabel :: "string option"
  ylabel :: "string option"
  figsize :: "range_arg option"
  grid :: bool

text \<open>
  \<^verbatim>\<open>if ax is None: ...; _, ax = plt.subplots(1, 1, figsize=figsize)\<close>, the same
  four lines in every chart function.
\<close>

definition get_axes :: "axes option \<Rightarrow> range_arg option \<Rightarrow> effect list \<times> (error + axes)" where
  "get_axes a fs =
     (case a of
        Some x \<Rightarrow> ([], Inr x)
      | None \<Rightarrow>
          (case (case fs of None \<Rightarrow> Inr () | Some f \<Rightarrow> check_not_tuple_of_2_elements f ''figsize'') of
             Inl e \<Rightarrow> ([], Inl e)
           | Inr _ \<Rightarrow> ([Subplots fs], Inr NewAxes)))"

text \<open>The title and label setters and the grid call that close every chart function.\<close>

definition set_labels :: "string option \<Rightarrow> string option \<Rightarrow> string option \<Rightarrow> bool \<Rightarrow> effect list" where
  "set_labels t xl yl g =
     (case t of None \<Rightarrow> [] | Some s \<Rightarrow> [Set_title s]) @
     (case xl of None \<Rightarrow> [] | Some s \<Rightarrow> [Set_xlabel s]) @
     (case yl of None \<Rightarrow> [] | Some s \<Rightarrow> [Set_ylabel s]) @
     [Grid g]"

section \<open>Tree graphs\<close>

definition to_graphviz :: "bool \<Rightarrow> pyfmt \<Rightarrow> tree_info \<Rightarrow> string list \<Rightarrow> string list option
    \<Rightarrow> int option \<Rightarrow> kwargs \<Rightarrow> error + digraph" where
  "to_graphviz GRAPHVIZ_INSTALLED F ti si fnames prec kw =
     (if \<not> GRAPHVIZ_INSTALLED then Inl (ImportError ''You must install graphviz to plot tree.'')
      else
        (case add F si fnames prec (tree_structure ti) None None [] of
           Inl e \<Rightarrow> Inl e
         | Inr b \<Rightarrow> Inr \<lparr>options = kw, body = b\<rparr>))"

text \<open>The arguments of \<^verbatim>\<open>create_tree_digraph\<close>.\<close>

record digraph_args =
  booster :: handle
  tree_index :: int
  show_info :: "string list option"
  precision :: "int option"
  old_name :: "kwval option"
  old_comment :: "kwval option"
  old_filename :: "kwval option"
  old_directory :: "kwval option"
  old_format :: "kwval option"
  old_engine :: "kwval option"
  old_encoding :: "kwval option"
  old_graph_attr :: "kwval option"
  old_node_attr :: "kwval option"
  old_edge_attr :: "kwval option"
  old_body :: "kwval option"
  old_strict :: bool
  kwargs :: kwargs

text \<open>
  \<^verbatim>\<open>locals().get(name)\<close> inside \<^verbatim>\<open>create_tree_digraph\<close>: the local names are
  the parameters, \<^verbatim>\<open>kwargs\<close> and the loop variables. A name that is not a local, and
  a local that is \<^verbatim>\<open>None\<close>, both give \<^verbatim>\<open>None\<close>.
\<close>

definition digraph_locals :: "digraph_args \<Rightarrow> (string \<times> kwval option) list" where
  "digraph_locals a =
     [(''booster'', Some KObj), (''tree_index'', Some KObj),
      (''show_info'', map_option KList (show_info a)),
      (''precision'', map_option (\<lambda>_. KObj) (precision a)),
      (''old_name'', old_name a), (''old_comment'', old_comment a),
      (''old_filename'', old_filename a), (''old_directory'', old_directory a),
      (''old_format'', old_format a), (''old_engine'', old_engine a),
      (''old_encoding'', old_encoding a), (''old_graph_attr'', old_graph_attr a),
      (''old_node_attr'', old_node_attr a), (''old_edge_attr'', old_edge_attr a),
      (''old_body'', old_body a), (''old_strict'', Some (KBool (old_strict a))),
      (''kwargs'', Some KObj), (''param_name'', Some KObj), (''param'', Some KObj)]"

definition locals_get :: "(string \<times> kwval option) list \<Rightarrow> string \<Rightarrow> kwval option" where
  "locals_get ls name = (case map_of ls name of None \<Rightarrow> None | Some v \<Rightarrow> v)"

definition deprecation_message :: "string \<Rightarrow> string" where
  "deprecation_message param_name =
     param_name @ '' parameter is deprecated and will be removed in 2.4 version.'' @ [CHR 0x0A] @
     ''Please use **kwargs to pass '' @ drop 4 param_name @ '' parameter.''"

text \<open>
  The loop over the deprecated parameter names (lines 458 to 467 and 536 to 543): the
  warnings emitted so far and the options bag are the loop's state.
\<close>

fun fold_deprecated :: "(string \<times> kwval option) list \<Rightarrow> string list \<Rightarrow> effect list \<times> kwargs
    \<Rightarrow> effect list \<times> kwargs" where
  "fold_deprecated ls [] st = st"
| "fold_deprecated ls (param_name # rest) (eff, kw) =
     (case locals_get ls param_name of
        None \<Rightarrow> fold_deprecated ls rest (eff, kw)
      | Some param \<Rightarrow>
          fold_deprecated ls rest
            (eff @ [Warn ''LGBMDeprecationWarning'' (deprecation_message param_name)],
             if kw_in (drop 4 param_name) kw then kw else kw @ [(drop 4 param_name, param)]))"

definition digraph_old_names :: "string list" where
  "digraph_old_names =
     [''old_name'', ''old_comment'', ''old_filename'', ''old_directory'',
      ''old_format'', ''old_engine'', ''old_encoding'', ''old_graph_attr'',
      ''old_node_attr'', ''old_edge_attr'', ''old_body'']"

text \<open>Lines 468 to 473: the lookup is of the name \<^verbatim>\<open>strict\<close>.\<close>

definition fold_strict :: "(string \<times> kwval option) list \<Rightarrow> effect list \<times> kwargs \<Rightarrow> effect list \<times> kwargs" where
  "fold_strict ls st =
     (case st of (eff, kw) \<Rightarrow>
        if truthy (locals_get ls ''strict'') then
          (eff @ [Warn ''LGBMDeprecationWarning'' (deprecation_message ''old_strict'')],
           if kw_in ''strict'' kw then kw else kw @ [(''strict'', KBool True)])
        else (eff, kw))"

definition create_tree_digraph :: "bool \<Rightarrow> pyfmt \<Rightarrow> digraph_args \<Rightarrow> effect list \<times> (error + digraph)" where
  "create_tree_digraph GRAPHVIZ_INSTALLED F a =
     (case as_booster (booster a) of
        Inl e \<Rightarrow> ([], Inl e)
      | Inr b \<Rightarrow>
          (case fold_strict (digraph_locals a)
                  (fold_deprecated (digraph_locals a) digraph_old_names ([], kwargs a)) of
             (eff, kw) \<Rightarrow>
               (let model = dump_model b;
                    tree_infos = model_tree_info model;
                    fnames = model_feature_names model
                in if tree_index a < int (length tree_infos) then
                     (case py_index tree_infos (tree_index a) of
                        Inl e \<Rightarrow> (eff, Inl e)
                      | Inr ti \<Rightarrow>
                          (eff, to_graphviz GRAPHVIZ_INSTALLED F ti
                                  (case show_info a of None \<Rightarrow> [] | Some si \<Rightarrow> si)
                                  fnames (precision a) kw))
                   else (eff, Inl (IndexError ''tree_index is out of range.'')))))"

text \<open>The arguments of a call \<^verbatim>\<open>create_tree_digraph(booster=..., tree_index=...,
  show_info=..., precision=..., **kwargs)\<close> in which no key of \<^verbatim>\<open>kwargs\<close> names a
  parameter: every \<^verbatim>\<open>old_\<close> parameter is at its default.\<close>

definition digraph_call :: "handle \<Rightarrow> int \<Rightarrow> string list option \<Rightarrow> int option \<Rightarrow> kwargs \<Rightarrow> digraph_args" where
  "digraph_call h ti si prec kw =
     \<lparr>booster = h, tree_index = ti, show_info = si, precision = prec,
      old_name = None, old_comment = None, old_filename = None, old_directory = None,
      old_format = None, old_engine = None, old_encoding = None, old_graph_attr = None,
      old_node_attr = None, old_edge_attr = None, old_body = None, old_strict = False,
      kwargs = kw\<rparr>"

text \<open>
  The same call as \<^verbatim>\<open>plot_tree\<close> makes it at lines 550 and 551, for any
  \<^verbatim>\<open>kwargs\<close>: a key that names one of the four parameters passed by keyword is a
  second value for it, a \<^verbatim>\<open>TypeError\<close>; a key that names a deprecated parameter
  binds that parameter (of \<^verbatim>\<open>old_strict\<close> the record keeps the truth value); the
  other keys are the \<^verbatim>\<open>kwargs\<close> of \<^verbatim>\<open>create_tree_digraph\<close>.
\<close>

definition multiple_values :: "string \<Rightarrow> error" where
  "multiple_values param_name =
     TypeError (''create_tree_digraph() got multiple values for keyword argument '' @
                [CHR 0x27] @ param_name @ [CHR 0x27])"

definition forward_kwargs :: "handle \<Rightarrow> int \<Rightarrow> string list option \<Rightarrow> int option \<Rightarrow> kwargs
    \<Rightarrow> error + digraph_args" where
  "forward_kwargs h ti si prec kw =
     (if kw_in ''booster'' kw then Inl (multiple_values ''booster'')
      else if kw_in ''tree_index'' kw then Inl (multiple_values ''tree_index'')
      else if kw_in ''show_info'' kw then Inl (multiple_values ''show_info'')
      else if kw_in ''precision'' kw then Inl (multiple_values ''precision'')
      else
        Inr \<lparr>booster = h, tree_index = ti, show_info = si, precision = prec,
             old_name = map_of kw ''old_name'', old_comment = map_of kw ''old_comment'',
             old_filename = map_of kw ''old_filename'', old_directory = map_of kw ''old_directory'',
             old_format = map_of kw ''old_format'', old_engine = map_of kw ''old_engine'',
             old_encoding = map_of kw ''old_encoding'', old_graph_attr = map_of kw ''old_graph_attr'',
             old_node_attr = map_of kw ''old_node_attr'', old_edge_attr = map_of kw ''old_edge_attr'',
             old_body = map_of kw ''old_body'', old_strict = truthy (map_of kw ''old_strict''),
             kwargs = filter (\<lambda>(k, v). k \<notin> set (''old_strict'' # digraph_old_names)) kw\<rparr>)"

definition tree_locals :: "kwval option \<Rightarrow> kwval option \<Rightarrow> kwval option \<Rightarrow> (string \<times> kwval option) list" where
  "tree_locals oga ona oea =
     [(''booster'', Some KObj), (''ax'', Some KObj), (''tree_index'', Some KObj),
      (''figsize'', Some KObj),
      (''old_graph_attr'', oga), (''old_node_attr'', ona), (''old_edge_attr'', oea),
      (''show_info'', Some KObj), (''precision'', Some KObj), (''kwargs'', Some KObj),
      (''plt'', Some KObj), (''image'', Some KObj),
      (''param_name'', Some KObj), (''param'', Some KObj)]"

definition plot_tree :: "bool \<Rightarrow> bool \<Rightarrow> pyfmt \<Rightarrow> handle \<Rightarrow> axes option \<Rightarrow> int \<Rightarrow> range_arg option
    \<Rightarrow> kwval option \<Rightarrow> kwval option \<Rightarrow> kwval option
    \<Rightarrow> string list option \<Rightarrow> int option \<Rightarrow> kwargs \<Rightarrow> effect list \<times> (error + axes)" where
  "plot_tree MATPLOTLIB_INSTALLED GRAPHVIZ_INSTALLED F h a ti fs oga ona oea si prec kw0 =
     (if \<not> MATPLOTLIB_INSTALLED then ([], Inl (ImportError ''You must install matplotlib to plot tree.''))
      else
        (case fold_deprecated (tree_locals oga ona oea)
                [''old_graph_attr'', ''old_node_attr'', ''old_edge_attr''] ([], kw0) of
           (eff1, kw) \<Rightarrow>
             (case get_axes a fs of
                (eff2, Inl e) \<Rightarrow> (eff1 @ eff2, Inl e)
              | (eff2, Inr x) \<Rightarrow>
                  (case forward_kwargs h ti si prec kw of
                     Inl e \<Rightarrow> (eff1 @ eff2, Inl e)
                   | Inr args \<Rightarrow>
                       (case create_tree_digraph GRAPHVIZ_INSTALLED F args of
                          (eff3, Inl e) \<Rightarrow> (eff1 @ eff2 @ eff3, Inl e)
                        | (eff3, Inr graph) \<Rightarrow>
                            (eff1 @ eff2 @ eff3 @ [Pipe graph, Imshow, Axis_off], Inr x))))))"

section \<open>Feature importance\<close>

text \<open>
  Lines 99 to 103: the pairs sorted by score (Python's \<^verbatim>\<open>sorted\<close> is stable, as
  \<^const>\<open>sort_key\<close> is), the filter on positive scores, the slice
  \<^verbatim>\<open>tuples[-max_num_features:]\<close>.
\<close>

definition importance_tuples :: "string list \<Rightarrow> real list \<Rightarrow> bool \<Rightarrow> int option
    \<Rightarrow> (string \<times> real) list" where
  "importance_tuples fname importance ignore_zero max_num_features =
     (let tuples = sort_key snd (zip fname importance);
          tuples = (if ignore_zero then filter (\<lambda>x. snd x > 0) tuples else tuples);
          tuples = (case max_num_features of
                      None \<Rightarrow> tuples
                    | Some n \<Rightarrow>
                        if n > 0 then drop (nat (int (length tuples) - n)) tuples else tuples)
      in tuples)"

text \<open>Line 104, \<^verbatim>\<open>labels, values = zip_(*tuples)\<close>: no pair, nothing to unpack.\<close>

definition unzip_pairs :: "(string \<times> real) list \<Rightarrow> error + (string list \<times> real list)" where
  "unzip_pairs tuples =
     (if tuples = [] then Inl (ValueError ''not enough values to unpack (expected 2, got 0)'')
      else Inr (map fst tuples, map snd tuples))"

text \<open>
  \<^verbatim>\<open>if lim is not None: _check_not_tuple_of_2_elements(lim, name) else: lim = default\<close>.
\<close>

definition range_or_default :: "range_arg option \<Rightarrow> string \<Rightarrow> real list \<Rightarrow> error + real list" where
  "range_or_default given given_name dflt =
     (case given of
        None \<Rightarrow> Inr dflt
      | Some r \<Rightarrow>
          (case check_not_tuple_of_2_elements r given_name of
             Inl e \<Rightarrow> Inl e
           | Inr _ \<Rightarrow> Inr (tuple_items r)))"

text \<open>
  The loop of lines 114 to 117: one text per bar, the formatted value for gains, the
  value itself otherwise. A failing format call ends the loop with the texts made so far.
\<close>

fun importance_texts :: "pyfmt \<Rightarrow> string \<Rightarrow> int option \<Rightarrow> (real \<times> nat) list
    \<Rightarrow> effect list \<times> (error + unit)" where
  "importance_texts F importance_type prec [] = ([], Inr ())"
| "importance_texts F importance_type prec ((v, y) # rest) =
     (case (if importance_type = ''gain''
            then (case float2str F (Num v) prec of Inl e \<Rightarrow> Inl e | Inr s \<Rightarrow> Inr (Str s))
            else Inr (Num v)) of
        Inl e \<Rightarrow> ([], Inl e)
      | Inr s \<Rightarrow>
          (case importance_texts F importance_type prec rest of
             (eff, r) \<Rightarrow> (Text (v + 1) y s # eff, r)))"

definition plot_importance :: "bool \<Rightarrow> pyfmt \<Rightarrow> handle \<Rightarrow> plot_opts \<Rightarrow> real \<Rightarrow> string
    \<Rightarrow> int option \<Rightarrow> bool \<Rightarrow> int option \<Rightarrow> kwargs \<Rightarrow> effect list \<times> (error + axes)" where
  "plot_importance MATPLOTLIB_INSTALLED F h opts height importance_type max_num_features
       ignore_zero prec kw =
     (if \<not> MATPLOTLIB_INSTALLED then
        ([], Inl (ImportError ''You must install matplotlib to plot importance.''))
      else
        (case as_booster h of
           Inl e \<Rightarrow> ([], Inl e)
         | Inr b \<Rightarrow>
             (let importance = feature_importance b importance_type;
                  fname = feature_name b
              in if importance = [] then
                   ([], Inl (ValueError (''Booster'' @ [CHR 0x27] @ ''s feature_importance is empty.'')))
                 else
                   (case unzip_pairs (importance_tuples fname importance ignore_zero max_num_features) of
                      Inl e \<Rightarrow> ([], Inl e)
                    | Inr (labels, vals) \<Rightarrow>
                        (case get_axes (ax opts) (figsize opts) of
                           (eff1, Inl e) \<Rightarrow> (eff1, Inl e)
                         | (eff1, Inr x) \<Rightarrow>
                             (let ylocs = [0 ..< length vals];
                                  eff_bars = eff1 @ [Barh ylocs vals height kw]
                              in case importance_texts F importance_type prec (zip vals ylocs) of
                                   (eff_texts, Inl e) \<Rightarrow> (eff_bars @ eff_texts, Inl e)
                                 | (eff_texts, Inr _) \<Rightarrow>
                                     (let eff2 = eff_bars @ eff_texts @
                                            [Set_yticks ylocs, Set_yticklabels labels]
                                      in case range_or_default (xlim opts) ''xlim''
                                                [0, Max (set vals) * 1.1] of
                                           Inl e \<Rightarrow> (eff2, Inl e)
                                         | Inr xl \<Rightarrow>
                                             (case range_or_default (ylim opts) ''ylim''
                                                     [- 1, real (length vals)] of
                                                Inl e \<Rightarrow> (eff2 @ [Set_xlim xl], Inl e)
                                              | Inr yl \<Rightarrow>
                                                  (eff2 @ [Set_xlim xl, Set_ylim yl] @
                                                     set_labels (title opts) (xlabel opts)
                                                       (ylabel opts) (grid opts),
                                                   Inr x)))))))))"

section \<open>Split value histogram\<close>

text \<open>Indexing a numpy array.\<close>

definition np_index :: "'a list \<Rightarrow> int \<Rightarrow> error + 'a" where
  "np_index xs i =
     (if 0 \<le> i \<and> i < int (length xs) then Inr (xs ! nat i)
      else if i < 0 \<and> - i \<le> int (length xs) then Inr (xs ! nat (int (length xs) + i))
      else Inl (IndexError (''index '' @ str_int i @ '' is out of bounds for axis 0 with size ''
                             @ str_int (int (length xs)))))"

text \<open>\<^verbatim>\<open>(bins[:-1] + bins[1:]) / 2\<close>, element by element.\<close>

definition centred_bins :: "real list \<Rightarrow> real list" where
  "centred_bins bins = map (\<lambda>(a, b). (a + b) / 2) (zip (butlast bins) (tl bins))"

text \<open>\<^verbatim>\<open>str.replace(old, new)\<close> for a non-empty \<^verbatim>\<open>old\<close>: left to right, no overlap.\<close>

function replace :: "string \<Rightarrow> string \<Rightarrow> string \<Rightarrow> string" where
  "replace old new s =
     (if s = [] then []
      else if old \<noteq> [] \<and> take (length old) s = old
        then new @ replace old new (drop (length old) s)
        else hd s # replace old new (tl s))"
  by pat_completeness auto
termination
  by (relation "measure (\<lambda>(old, new, s). length s)") auto

declare replace.simps [simp del]

fun str_feature :: "feature \<Rightarrow> string" where
  "str_feature (FeatureIndex i) = str_int i"
| "str_feature (FeatureName s) = s"

fun feature_kind :: "feature \<Rightarrow> string" where
  "feature_kind (FeatureIndex i) = ''index''"
| "feature_kind (FeatureName s) = ''name''"

definition plot_split_value_histogram :: "bool \<Rightarrow> handle \<Rightarrow> feature \<Rightarrow> bins_arg \<Rightarrow> plot_opts
    \<Rightarrow> real \<Rightarrow> kwargs \<Rightarrow> effect list \<times> (error + axes)" where
  "plot_split_value_histogram MATPLOTLIB_INSTALLED h feature bins0 opts width_coef kw =
     (if \<not> MATPLOTLIB_INSTALLED then
        ([], Inl (ImportError ''You must install matplotlib to plot split value histogram.''))
      else
        (case as_booster h of
           Inl e \<Rightarrow> ([], Inl e)
         | Inr b \<Rightarrow>
             (case get_split_value_histogram b feature bins0 of
                (hist, bins) \<Rightarrow>
                  if length (filter (\<lambda>c. c \<noteq> 0) hist) = 0 then
                    ([], Inl (ValueError (''Cannot plot split value histogram, because feature '' @
                                 str_feature feature @ '' was not used in splitting'')))
                  else
                    (case np_index bins 1 of
                       Inl e \<Rightarrow> ([], Inl e)
                     | Inr b1 \<Rightarrow>
                         (case np_index bins 0 of
                            Inl e \<Rightarrow> ([], Inl e)
                          | Inr b0 \<Rightarrow>
                              (let width = width_coef * (b1 - b0);
                                   centred = centred_bins bins
                               in case get_axes (ax opts) (figsize opts) of
                                    (eff1, Inl e) \<Rightarrow> (eff1, Inl e)
                                  | (eff1, Inr x) \<Rightarrow>
                                      (let eff2 = eff1 @ [Bar centred hist width kw];
                                           range_result = last bins - b0
                                       in case range_or_default (xlim opts) ''xlim''
                                                 [b0 - range_result * 0.2, last bins + range_result * 0.2] of
                                            Inl e \<Rightarrow> (eff2, Inl e)
                                          | Inr xl \<Rightarrow>
                                              (case range_or_default (ylim opts) ''ylim''
                                                      [0, real_of_int (Max (set hist)) * 1.1] of
                                                 Inl e \<Rightarrow> (eff2 @ [Set_xlim xl, Set_major_locator], Inl e)
                                               | Inr yl \<Rightarrow>
                                                   (eff2 @ [Set_xlim xl, Set_major_locator, Set_ylim yl] @
                                                      set_labels
                                                        (map_option
                                                           (\<lambda>t. replace ''@index/name@'' (feature_kind feature)
                                                                  (replace ''@feature@'' (str_feature feature) t))
                                                           (title opts))
                                                        (xlabel opts) (ylabel opts) (grid opts),
                                                    Inr x)))))))))"

section \<open>Metric trajectories\<close>

text \<open>
  The \<^verbatim>\<open>dataset_names\<close> argument when it is not \<^verbatim>\<open>None\<close>: a list, tuple or
  set (its names in iteration order), or another object.
\<close>

datatype names_arg = Names "string list" | NotNames

text \<open>
  The evaluation record is a dict of dicts, each an association list in insertion
  order; \<^verbatim>\<open>popitem\<close> takes the last item out of the deep copy.
\<close>

definition pop_metric :: "evals \<Rightarrow> string \<Rightarrow> evals" where
  "pop_metric ev name = map (\<lambda>(k, m). if k = name then (k, butlast m) else (k, m)) ev"

text \<open>Lines 325 to 333: the metric, its values on the first dataset, and the record
  after the choice.\<close>

definition choose_metric :: "evals \<Rightarrow> string \<Rightarrow> (string \<times> real list) list \<Rightarrow> string option
    \<Rightarrow> effect list \<times> (error + (string \<times> real list \<times> evals))" where
  "choose_metric ev name metrics_for_one metric =
     (case metric of
        None \<Rightarrow>
          (let eff = (if length metrics_for_one > 1
                      then [Warn ''UserWarning'' ''more than one metric available, picking one to plot.'']
                      else [])
           in if metrics_for_one = [] then
                (eff, Inl (KeyError ''popitem(): dictionary is empty''))
              else (eff, Inr (fst (last metrics_for_one), snd (last metrics_for_one),
                              pop_metric ev name)))
      | Some m \<Rightarrow>
          (case map_of metrics_for_one m of
             None \<Rightarrow> ([], Inl (KeyError ''No given metric in eval results.''))
           | Some results \<Rightarrow> ([], Inr (m, results, ev))))"

text \<open>The loop over the remaining dataset names (lines 338 to 342).\<close>

fun plot_rest :: "evals \<Rightarrow> string \<Rightarrow> nat list \<Rightarrow> string list \<Rightarrow> effect list \<times> real \<times> real
    \<Rightarrow> effect list \<times> (error + real \<times> real)" where
  "plot_rest ev metric xrange [] (eff, max_result, min_result) = (eff, Inr (max_result, min_result))"
| "plot_rest ev metric xrange (name # rest) (eff, max_result, min_result) =
     (case map_of ev name of
        None \<Rightarrow> (eff, Inl (KeyError name))
      | Some metrics_for_one \<Rightarrow>
          (case map_of metrics_for_one metric of
             None \<Rightarrow> (eff, Inl (KeyError metric))
           | Some results \<Rightarrow>
               if results = [] then (eff, Inl (ValueError ''max() arg is an empty sequence''))
               else plot_rest ev metric xrange rest
                      (eff @ [Plot xrange results name],
                       max (Max (set results)) max_result,
                       min (Min (set results)) min_result)))"

definition plot_metric :: "bool \<Rightarrow> handle \<Rightarrow> string option \<Rightarrow> names_arg option \<Rightarrow> plot_opts
    \<Rightarrow> effect list \<times> (error + axes)" where
  "plot_metric MATPLOTLIB_INSTALLED h metric0 dataset_names opts =
     (if \<not> MATPLOTLIB_INSTALLED then
        ([], Inl (ImportError ''You must install matplotlib to plot metric.''))
      else
        (case (case h of
                 LGBMModel b ev \<Rightarrow> Inr ev
               | Dict ev \<Rightarrow> Inr ev
               | _ \<Rightarrow> Inl (TypeError ''booster must be dict or LGBMModel.'')) of
           Inl e \<Rightarrow> ([], Inl e)
         | Inr eval_results \<Rightarrow>
             if length eval_results = 0 then ([], Inl (ValueError ''eval results cannot be empty.''))
             else
               (case get_axes (ax opts) (figsize opts) of
                  (eff1, Inl e) \<Rightarrow> (eff1, Inl e)
                | (eff1, Inr x) \<Rightarrow>
                    (case (case dataset_names of
                             None \<Rightarrow> Inr (map fst eval_results)
                           | Some NotNames \<Rightarrow>
                               Inl (ValueError ''dataset_names should be iterable and cannot be empty'')
                           | Some (Names ns) \<Rightarrow>
                               if ns = [] then
                                 Inl (ValueError ''dataset_names should be iterable and cannot be empty'')
                               else Inr ns) of
                       Inl e \<Rightarrow> (eff1, Inl e)
                     | Inr names \<Rightarrow>
                         (let name = hd names in
                          case map_of eval_results name of
                            None \<Rightarrow> (eff1, Inl (KeyError name))
                          | Some metrics_for_one \<Rightarrow>
                              (case choose_metric eval_results name metrics_for_one metric0 of
                                 (eff2, Inl e) \<Rightarrow> (eff1 @ eff2, Inl e)
                               | (eff2, Inr (metric, results, ev)) \<Rightarrow>
                                   if results = [] then
                                     (eff1 @ eff2, Inl (ValueError ''max() arg is an empty sequence''))
                                   else
                                     (let num_iteration = length results;
                                          xrange = [0 ..< num_iteration]
                                      in case plot_rest ev metric xrange (tl names)
                                                (eff1 @ eff2 @ [Plot xrange results name],
                                                 Max (set results), Min (set results)) of
                                           (eff3, Inl e) \<Rightarrow> (eff3, Inl e)
                                         | (eff3, Inr (max_result, min_result)) \<Rightarrow>
                                             (let eff4 = eff3 @ [Legend] in
                                              case range_or_default (xlim opts) ''xlim''
                                                     [0, real num_iteration] of
                                                Inl e \<Rightarrow> (eff4, Inl e)
                                              | Inr xl \<Rightarrow>
                                                  (let range_result = max_result - min_result in
                                                   case range_or_default (ylim opts) ''ylim''
                                                          [min_result - range_result * 0.2,
                                                           max_result + range_result * 0.2] of
                                                     Inl e \<Rightarrow> (eff4 @ [Set_xlim xl], Inl e)
                                                   | Inr yl \<Rightarrow>
                                                       (eff4 @ [Set_xlim xl, Set_ylim yl] @
                                                          set_labels (title opts) (xlabel opts)
                                                            (if ylabel opts = Some ''auto'' then Some metric
                                                             else ylabel opts)
                                                            (grid opts),
                                                        Inr x))))))))))"

section \<open>Measures of a tree description and of a graph\<close>

fun num_internal :: "tree \<Rightarrow> nat" where
  "num_internal (Leaf idx v cnt) = 0"
| "num_internal (Split sidx feat thr dt gain ival icount l r) = 1 + num_internal l + num_internal r"

fun num_leaves :: "tree \<Rightarrow> nat" where
  "num_leaves (Leaf idx v cnt) = 1"
| "num_leaves (Split sidx feat thr dt gain ival icount l r) = num_leaves l + num_leaves r"

text \<open>Every node of a tree description, parent before children, left before right.\<close>

fun subtrees :: "tree \<Rightarrow> tree list" where
  "subtrees (Leaf idx v cnt) = [Leaf idx v cnt]"
| "subtrees (Split sidx feat thr dt gain ival icount l r) =
     Split sidx feat thr dt gain ival icount l r # subtrees l @ subtrees r"

fun is_split :: "tree \<Rightarrow> bool" where
  "is_split (Leaf idx v cnt) = False"
| "is_split (Split sidx feat thr dt gain ival icount l r) = True"

fun edge_from :: "string \<Rightarrow> stmt \<Rightarrow> bool" where
  "edge_from n (Node name label) = False"
| "edge_from n (Edge p c d) = (p = n)"

text \<open>The number of edges that leave the node named \<open>n\<close>.\<close>

definition out_degree :: "string \<Rightarrow> stmt list \<Rightarrow> nat" where
  "out_degree n g = length (filter (edge_from n) g)"

text \<open>The number of internal nodes of a tree description that are named \<open>n\<close>.\<close>

definition splits_named :: "string \<Rightarrow> tree \<Rightarrow> nat" where
  "splits_named n t = length (filter (\<lambda>s. is_split s \<and> node_name s = n) (subtrees t))"

section \<open>Sample inputs\<close>

definition fmt0 :: pyfmt where
  "fmt0 = \<lparr>format_f = (\<lambda>x p. ''f''), str_f = (\<lambda>x. ''s'')\<rparr>"

text \<open>The tree of one split and two leaves.\<close>

definition stump :: tree where
  "stump = Split 0 0 (Num 1.5) ''<='' None None None (Leaf 0 (Num (- 1)) None) (Leaf 1 (Num 1) None)"

definition stump_digraph :: digraph where
  "stump_digraph =
     \<lparr>options = [], body =
        [Node ''split0'' (''split_feature_index: 0'' @ nl @ ''threshold: s''),
         Node ''leaf0'' (''leaf_index: 0'' @ nl @ ''leaf_value: s''),
         Edge ''split0'' ''leaf0'' (Some ''<=''),
         Node ''leaf1'' (''leaf_index: 1'' @ nl @ ''leaf_value: s''),
         Edge ''split0'' ''leaf1'' (Some ''>'')]\<rparr>"

text \<open>The same tree with a categorical split, and with a decision type that is neither.\<close>

definition stump_eq :: tree where
  "stump_eq = Split 0 0 (Str ''0||1'') ''=='' None None None (Leaf 0 (Num (- 1)) None) (Leaf 1 (Num 1) None)"

definition stump_bad :: tree where
  "stump_bad = Split 0 0 (Num 1.5) ''>='' None None None (Leaf 0 (Num (- 1)) None) (Leaf 1 (Num 1) None)"

section \<open>The importance chart as the specification words it\<close>

text \<open>
  The pairs sorted ascending by score, without the zero scores when zeros are ignored,
  cut to the last \<open>n\<close> when a positive maximum \<open>n\<close> is given.
\<close>

definition spec_bars :: "string list \<Rightarrow> real list \<Rightarrow> bool \<Rightarrow> int option \<Rightarrow> (string \<times> real) list" where
  "spec_bars names scores ignore_zero max_num_features =
     (let ascending = sort_key snd (zip names scores);
          nonzero = (if ignore_zero then filter (\<lambda>x. snd x \<noteq> 0) ascending else ascending)
      in case max_num_features of
           None \<Rightarrow> nonzero
         | Some n \<Rightarrow> if 0 < n then drop (length nonzero - nat n) nonzero else nonzero)"

text \<open>The features retained before the cut: all of them, or those with a non-zero score.\<close>

definition retained :: "string list \<Rightarrow> real list \<Rightarrow> bool \<Rightarrow> (string \<times> real) list" where
  "retained names scores ignore_zero =
     (if ignore_zero then filter (\<lambda>x. snd x \<noteq> 0) (zip names scores) else zip names scores)"

text \<open>The defaults of \<^verbatim>\<open>plot_importance\<close>, and a model with three features.\<close>

definition importance_defaults :: plot_opts where
  "importance_defaults =
     \<lparr>ax = None, xlim = None, ylim = None, title = Some ''Feature importance'',
      xlabel = Some ''Feature importance'', ylabel = Some ''Features'',
      figsize = None, grid = True\<rparr>"

definition booster_abc :: booster where
  "booster_abc =
     \<lparr>feature_importance = (\<lambda>t. [5, 0, 10]), feature_name = [''A'', ''B'', ''C''],
      get_split_value_histogram = (\<lambda>f b. ([1, 0, 2], [0, 1, 2, 3])),
      dump_model = \<lparr>model_tree_info = [\<lparr>tree_structure = stump\<rparr>], model_feature_names = None\<rparr>\<rparr>"

definition booster_zero :: booster where
  "booster_zero = booster_abc\<lparr>feature_importance := (\<lambda>t. [0, 0, 0])\<rparr>"

definition abc_top1_effects :: "effect list" where
  "abc_top1_effects =
     [Subplots None, Barh [0] [10] 0.2 [], Text 11 0 (Num 10), Set_yticks [0],
      Set_yticklabels [''C''], Set_xlim [0, 11], Set_ylim [- 1, 1],
      Set_title ''Feature importance'', Set_xlabel ''Feature importance'',
      Set_ylabel ''Features'', Grid True]"

section \<open>Errors of the walker, and sample calls of the graph constructor\<close>

text \<open>The errors that the walker itself can raise.\<close>

definition walker_error :: "error \<Rightarrow> bool" where
  "walker_error e =
     (case e of
        KeyError k \<Rightarrow> True
      | IndexError m \<Rightarrow> m = ''list index out of range''
      | ValueError m \<Rightarrow>
          m = ''Invalid decision type in tree model.'' \<or> m = ''Format specifier missing precision''
      | _ \<Rightarrow> False)"

text \<open>\<^verbatim>\<open>create_tree_digraph(booster, old_strict=True)\<close>.\<close>

definition digraph_strict_args :: digraph_args where
  "digraph_strict_args = (digraph_call (Booster booster_abc) 0 None None [])\<lparr>old_strict := True\<rparr>"

text \<open>A model of two trees.\<close>

definition booster_two :: booster where
  "booster_two =
     booster_abc\<lparr>dump_model :=
       \<lparr>model_tree_info = [\<lparr>tree_structure = stump_eq\<rparr>, \<lparr>tree_structure = stump\<rparr>],
        model_feature_names = None\<rparr>\<rparr>"

section \<open>What a chart shows\<close>

text \<open>The values of a plotted line, and the lines and values of a whole log.\<close>

fun plot_values :: "effect \<Rightarrow> real list" where
  "plot_values (Plot xs ys name) = ys"
| "plot_values e = []"

definition series :: "effect list \<Rightarrow> real list list" where
  "series eff = map plot_values (filter (\<lambda>e. case e of Plot xs ys name \<Rightarrow> True | _ \<Rightarrow> False) eff)"

definition plotted :: "effect list \<Rightarrow> real list" where
  "plotted eff = concat (map plot_values eff)"

text \<open>The defaults of the histogram and of the metric chart, and two evaluation records.\<close>

definition histogram_defaults :: plot_opts where
  "histogram_defaults =
     \<lparr>ax = None, xlim = None, ylim = None,
      title = Some ''Split value histogram for feature with @index/name@ @feature@'',
      xlabel = Some ''Feature split value'', ylabel = Some ''Count'',
      figsize = None, grid = True\<rparr>"

definition metric_defaults :: plot_opts where
  "metric_defaults =
     \<lparr>ax = None, xlim = None, ylim = None, title = Some ''Metric during training'',
      xlabel = Some ''Iterations'', ylabel = Some ''auto'',
      figsize = None, grid = True\<rparr>"

definition evals_train :: evals where
  "evals_train = [(''train'', [(''l2'', [0.5, 0.3, 0.2])])]"

definition evals_two :: evals where
  "evals_two = [(''train'', [(''l2'', [0.5, 0.3, 0.2])]), (''valid'', [(''l2'', [0.9, 0.6, 0.4])])]"

definition abc_histogram_effects :: "effect list" where
  "abc_histogram_effects =
     [Subplots None, Bar [1 / 2, 3 / 2, 5 / 2] [1, 0, 2] 0.8 [],
      Set_xlim [- 0.6, 3.6], Set_major_locator, Set_ylim [0, 2.2],
      Set_title ''Split value histogram for feature with index 0'',
      Set_xlabel ''Feature split value'', Set_ylabel ''Count'', Grid True]"

definition two_metric_effects :: "effect list" where
  "two_metric_effects =
     [Subplots None, Plot [0, 1, 2] [0.5, 0.3, 0.2] ''train'',
      Plot [0, 1, 2] [0.9, 0.6, 0.4] ''valid'', Legend,
      Set_xlim [0, 3], Set_ylim [0.06, 1.04],
      Set_title ''Metric during training'', Set_xlabel ''Iterations'', Set_ylabel ''l2'',
      Grid True]"

section \<open>Names of nodes\<close>

text \<open>Reading a decimal string back, to tell the names of two nodes apart.\<close>

definition digit_val :: "char \<Rightarrow> nat" where
  "digit_val c = of_char c - 48"

definition nat_of_str :: "string \<Rightarrow> nat" where
  "nat_of_str s = foldl (\<lambda>a c. 10 * a + digit_val c) 0 s"

text \<open>The name a statement gives to the node it adds or points to.\<close>

fun stmt_name :: "stmt \<Rightarrow> string" where
  "stmt_name (Node name label) = name"
| "stmt_name (Edge p c d) = c"

text \<open>What the source model keeps unique: the index of a split, the index of a leaf.\<close>

fun node_key :: "tree \<Rightarrow> bool \<times> int" where
  "node_key (Leaf idx v cnt) = (False, idx)"
| "node_key (Split sidx feat thr dt gain ival icount l r) = (True, sidx)"

text \<open>
  The tree descriptions the walker accepts: every label can be built and every decision
  type is one of the two.
\<close>

fun walkable :: "pyfmt \<Rightarrow> string list \<Rightarrow> string list option \<Rightarrow> int option \<Rightarrow> tree \<Rightarrow> bool" where
  "walkable F si fn p (Leaf idx v cnt) =
     (case leaf_label F si p idx v cnt of Inl e \<Rightarrow> False | Inr label \<Rightarrow> True)"
| "walkable F si fn p (Split sidx feat thr dt gain ival icount l r) =
     ((case split_label F si fn p feat thr gain ival icount of Inl e \<Rightarrow> False | Inr label \<Rightarrow> True)
      \<and> (dt = ''<='' \<or> dt = ''=='')
      \<and> walkable F si fn p l \<and> walkable F si fn p r)"

text \<open>The legend label of a plotted line, and the labels of a whole log.\<close>

fun plot_label :: "effect \<Rightarrow> string list" where
  "plot_label (Plot xs ys name) = [name]"
| "plot_label e = []"

definition plot_labels :: "effect list \<Rightarrow> string list" where
  "plot_labels eff = concat (map plot_label eff)"

text \<open>
  The datasets asked for: the names given, or every dataset of the evaluation record in
  the record's order.
\<close>

definition dataset_selection :: "handle \<Rightarrow> names_arg option \<Rightarrow> string list" where
  "dataset_selection h dataset_names =
     (case dataset_names of
        Some (Names ns) \<Rightarrow> ns
      | _ \<Rightarrow> (case h of LGBMModel b ev \<Rightarrow> map fst ev | Dict ev \<Rightarrow> map fst ev | _ \<Rightarrow> []))"

section \<open>The error of a walk\<close>

text \<open>
  What processing one node can raise by itself: the error of its label, or for an
  internal node whose label is built the error of its decision type.
\<close>

fun node_error :: "pyfmt \<Rightarrow> string list \<Rightarrow> string list option \<Rightarrow> int option \<Rightarrow> tree
    \<Rightarrow> error option" where
  "node_error F si fn p (Leaf idx v cnt) =
     (case leaf_label F si p idx v cnt of Inl e \<Rightarrow> Some e | Inr label \<Rightarrow> None)"
| "node_error F si fn p (Split sidx feat thr dt gain ival icount l r) =
     (case split_label F si fn p feat thr gain ival icount of
        Inl e \<Rightarrow> Some e
      | Inr label \<Rightarrow> (case decision_labels dt of Inl e \<Rightarrow> Some e | Inr ds \<Rightarrow> None))"

text \<open>
  The first error in the order the walker visits the nodes, parent first and left
  before right.
\<close>

fun first_some :: "'a option list \<Rightarrow> 'a option" where
  "first_some [] = None"
| "first_some (Some x # xs) = Some x"
| "first_some (None # xs) = first_some xs"

definition walk_error :: "pyfmt \<Rightarrow> string list \<Rightarrow> string list option \<Rightarrow> int option \<Rightarrow> tree
    \<Rightarrow> error option" where
  "walk_error F si fn p t = first_some (map (node_error F si fn p) (subtrees t))"

text \<open>A tree whose root and first leaf are sound and whose right child has a decision
  type that is neither \<open><=\<close> nor \<open>==\<close>.\<close>

definition deep_bad :: tree where
  "deep_bad =
     Split 0 0 (Num 1.5) ''<='' None None None
       (Leaf 0 (Num (- 1)) None)
       (Split 1 0 (Num 2.5) ''>='' None None None (Leaf 1 (Num 1) None) (Leaf 2 (Num 2) None))"

section \<open>The lines of a metric chart and the evaluation record\<close>

text \<open>The calls of \<^verbatim>\<open>ax.plot\<close> in a log, in order.\<close>

fun is_plot :: "effect \<Rightarrow> bool" where
  "is_plot (Plot xs ys name) = True"
| "is_plot e = False"

definition lines :: "effect list \<Rightarrow> effect list" where
  "lines eff = filter is_plot eff"

text \<open>The evaluation record that \<^verbatim>\<open>plot_metric\<close> reads from its first argument.\<close>

definition evals_of :: "handle \<Rightarrow> evals" where
  "evals_of h = (case h of LGBMModel b ev \<Rightarrow> ev | Dict ev \<Rightarrow> ev | _ \<Rightarrow> [])"

text \<open>
  The metric that is plotted, with its values on the first dataset: the metric asked
  for, or with no metric asked for the last one recorded for that dataset.
\<close>

fun chosen :: "(string \<times> real list) list \<Rightarrow> string option \<Rightarrow> (string \<times> real list) option" where
  "chosen ms (Some m) = map_option (Pair m) (map_of ms m)"
| "chosen ms None = (if ms = [] then None else Some (last ms))"

text \<open>The values the record holds for a metric on a dataset.\<close>

definition metric_values :: "evals \<Rightarrow> string \<Rightarrow> string \<Rightarrow> real list option" where
  "metric_values ev name m = (case map_of ev name of None \<Rightarrow> None | Some ms \<Rightarrow> map_of ms m)"

section \<open>The closing statements of a chart function\<close>

text \<open>
  A log in which no range has been set.
\<close>

abbreviation no_ranges :: "effect list \<Rightarrow> bool" where
  "no_ranges eff \<equiv> (\<forall>v. Set_xlim v \<notin> set eff \<and> Set_ylim v \<notin> set eff)"

text \<open>
  The statements that close \<^verbatim>\<open>plot_importance\<close> (lines 122 to 141),
  \<^verbatim>\<open>plot_split_value_histogram\<close> (lines 222 to 245) and \<^verbatim>\<open>plot_metric\<close>
  (lines 345 to 369), as one function of the log at that point: the x range is validated
  and set, then come the calls between the two ranges (the tick locator of the
  histogram), then the y range is validated and set, then the labels and the grid.
\<close>

definition set_ranges :: "effect list \<Rightarrow> effect list \<Rightarrow> effect list \<Rightarrow> axes
    \<Rightarrow> range_arg option \<Rightarrow> real list \<Rightarrow> range_arg option \<Rightarrow> real list
    \<Rightarrow> effect list \<times> (error + axes)" where
  "set_ranges drawn mid labels x xl d1 yl d2 =
     (case range_or_default xl ''xlim'' d1 of
        Inl e \<Rightarrow> (drawn, Inl e)
      | Inr xr \<Rightarrow>
          (case range_or_default yl ''ylim'' d2 of
             Inl e \<Rightarrow> (drawn @ Set_xlim xr # mid, Inl e)
           | Inr yr \<Rightarrow> (drawn @ Set_xlim xr # mid @ Set_ylim yr # labels, Inr x)))"

section \<open>Properties of the tree walker\<close>

lemma str_int_0: "str_int 0 = ''0''"
  by code_simp

lemma str_int_1: "str_int 1 = ''1''"
  by code_simp

lemma add_nodes:
  "add F si fn p t parent dec g = Inr g' \<Longrightarrow>
     length (nodes g') = length (nodes g) + num_internal t + num_leaves t"
proof (induction t arbitrary: parent dec g g')
  case (Leaf idx v cnt)
  then show ?case
    by (auto simp: nodes_def Let_def split: sum.splits option.splits)
next
  case (Split sidx feat thr dt gain ival icount l r)
  then show ?case
    by (fastforce simp: nodes_def Let_def split: sum.splits option.splits prod.splits)
qed

lemma add_edges:
  "add F si fn p t parent dec g = Inr g' \<Longrightarrow>
     length (edges g') =
       length (edges g) + 2 * num_internal t + (case parent of None \<Rightarrow> 0 | Some q \<Rightarrow> 1)"
proof (induction t arbitrary: parent dec g g')
  case (Leaf idx v cnt)
  then show ?case
    by (auto simp: edges_def Let_def split: sum.splits option.splits)
next
  case (Split sidx feat thr dt gain ival icount l r)
  then show ?case
    by (fastforce simp: edges_def Let_def split: sum.splits option.splits prod.splits)
qed

lemma add_out_degree:
  "add F si fn p t parent dec g = Inr g' \<Longrightarrow>
     out_degree n g' =
       out_degree n g + 2 * splits_named n t + (if parent = Some n then 1 else 0)"
proof (induction t arbitrary: parent dec g g')
  case (Leaf idx v cnt)
  then show ?case
    by (auto simp: out_degree_def splits_named_def Let_def split: sum.splits option.splits)
next
  case (Split sidx feat thr dt gain ival icount l r)
  then show ?case
    by (fastforce simp: out_degree_def splits_named_def Let_def
        split: sum.splits option.splits prod.splits)
qed

lemma stump_graph:
  "to_graphviz True fmt0 \<lparr>tree_structure = stump\<rparr> [] None None [] = Inr stump_digraph"
  by (simp add: to_graphviz_def stump_def stump_digraph_def fmt0_def split_label_def
      leaf_label_def decision_labels_def float2str_def str_int_0 str_int_1 Let_def)

lemma add_keeps:
  "add F si fn p t parent dec g = Inr g' \<Longrightarrow> set g \<subseteq> set g'"
proof (induction t arbitrary: parent dec g g')
  case (Leaf idx v cnt)
  then show ?case
    by (auto simp: Let_def split: sum.splits option.splits)
next
  case (Split sidx feat thr dt gain ival icount l r)
  then show ?case
    by (fastforce simp: Let_def split: sum.splits option.splits prod.splits)
qed

lemma add_parent_edge:
  "add F si fn p t (Some q) dec g = Inr g' \<Longrightarrow> Edge q (node_name t) dec \<in> set g'"
  by (cases t) (auto simp: Let_def split: sum.splits prod.splits)

lemma add_Split_Inr:
  "add F si fn p (Split sidx feat thr dt gain ival icount l r) parent dec g = Inr g' \<Longrightarrow>
   \<exists>label a b g2 g3.
      split_label F si fn p feat thr gain ival icount = Inr label
    \<and> decision_labels dt = Inr (a, b)
    \<and> add F si fn p l (Some (''split'' @ str_int sidx)) (Some a)
          (g @ [Node (''split'' @ str_int sidx) label]) = Inr g2
    \<and> add F si fn p r (Some (''split'' @ str_int sidx)) (Some b) g2 = Inr g3
    \<and> g' = (case parent of None \<Rightarrow> g3 | Some q \<Rightarrow> g3 @ [Edge q (''split'' @ str_int sidx) dec])"
  by (cases parent) (auto simp: Let_def split: sum.splits prod.splits)

lemma add_root_edges:
  assumes "add F si fn p (Split sidx feat thr dt gain ival icount l r) parent dec g = Inr g'"
  shows "\<exists>a b. decision_labels dt = Inr (a, b)
           \<and> Edge (''split'' @ str_int sidx) (node_name l) (Some a) \<in> set g'
           \<and> Edge (''split'' @ str_int sidx) (node_name r) (Some b) \<in> set g'"
proof -
  let ?name = "''split'' @ str_int sidx"
  from add_Split_Inr [OF assms] obtain label a b g2 g3 where
    lab: "decision_labels dt = Inr (a, b)"
    and l: "add F si fn p l (Some ?name) (Some a) (g @ [Node ?name label]) = Inr g2"
    and r: "add F si fn p r (Some ?name) (Some b) g2 = Inr g3"
    and g': "g' = (case parent of None \<Rightarrow> g3 | Some q \<Rightarrow> g3 @ [Edge q ?name dec])"
    by blast
  have "Edge ?name (node_name l) (Some a) \<in> set g2"
    using add_parent_edge [OF l] .
  then have "Edge ?name (node_name l) (Some a) \<in> set g3"
    using add_keeps [OF r] by blast
  moreover have "Edge ?name (node_name r) (Some b) \<in> set g3"
    using add_parent_edge [OF r] .
  moreover have "set g3 \<subseteq> set g'"
    using g' by (auto split: option.splits)
  ultimately show ?thesis using lab by blast
qed

lemma add_subtree_edges:
  "add F si fn p t parent dec g = Inr g' \<Longrightarrow>
   Split sidx feat thr dt gain ival icount l r \<in> set (subtrees t) \<Longrightarrow>
   \<exists>a b. decision_labels dt = Inr (a, b)
      \<and> Edge (''split'' @ str_int sidx) (node_name l) (Some a) \<in> set g'
      \<and> Edge (''split'' @ str_int sidx) (node_name r) (Some b) \<in> set g'"
proof (induction t arbitrary: parent dec g g')
  case (Leaf idx v cnt)
  then show ?case by simp
next
  case (Split sidx' feat' thr' dt' gain' ival' icount' l' r')
  let ?s = "Split sidx feat thr dt gain ival icount l r"
  let ?name = "''split'' @ str_int sidx'"
  from add_Split_Inr [OF Split.prems(1)] obtain label a b g2 g3 where
    l: "add F si fn p l' (Some ?name) (Some a) (g @ [Node ?name label]) = Inr g2"
    and r: "add F si fn p r' (Some ?name) (Some b) g2 = Inr g3"
    and g': "g' = (case parent of None \<Rightarrow> g3 | Some q \<Rightarrow> g3 @ [Edge q ?name dec])"
    by blast
  have sub: "set g2 \<subseteq> set g'" "set g3 \<subseteq> set g'"
    using add_keeps [OF r] g' by (auto split: option.splits)
  from Split.prems(2) consider
      "?s = Split sidx' feat' thr' dt' gain' ival' icount' l' r'"
    | "?s \<in> set (subtrees l')" | "?s \<in> set (subtrees r')"
    by auto
  then show ?case
  proof cases
    case 1
    then show ?thesis using add_root_edges [OF Split.prems(1)] by simp
  next
    case 2
    from Split.IH(1) [OF l 2] sub show ?thesis by blast
  next
    case 3
    from Split.IH(2) [OF r 3] sub show ?thesis by blast
  qed
qed

lemma digit_val_digit: "d < 10 \<Longrightarrow> digit_val (digit d) = d"
  by (simp add: digit_val_def digit_def)

lemma nat_of_str_nat: "nat_of_str (str_nat n) = n"
proof (induction n rule: str_nat.induct)
  case (1 n)
  show ?case
  proof (cases "n < 10")
    case True
    then show ?thesis
      by (subst str_nat.simps) (simp add: nat_of_str_def digit_val_digit)
  next
    case False
    with 1 have "nat_of_str (str_nat (n div 10)) = n div 10" by simp
    with False show ?thesis
      by (subst str_nat.simps) (simp add: nat_of_str_def digit_val_digit)
  qed
qed

lemma str_nat_inj: "str_nat a = str_nat b \<Longrightarrow> a = b"
  by (metis nat_of_str_nat)

lemma str_nat_digits: "c \<in> set (str_nat n) \<Longrightarrow> c \<noteq> CHR ''-''"
proof (induction n rule: str_nat.induct)
  case (1 n)
  have d: "digit k \<noteq> CHR ''-''" if "k < 10" for k
  proof
    assume "digit k = CHR ''-''"
    then have "of_char (digit k) = (of_char (CHR ''-'') :: nat)" by simp
    with that show False by (simp add: digit_def)
  qed
  show ?case
  proof (cases "n < 10")
    case True
    with "1.prems" d show ?thesis
      by (subst (asm) str_nat.simps) simp
  next
    case False
    with "1.prems" have "c \<in> set (str_nat (n div 10)) \<or> c = digit (n mod 10)"
      by (subst (asm) str_nat.simps) auto
    with 1 False d [of "n mod 10"] show ?thesis by auto
  qed
qed

lemma str_nat_nonempty: "str_nat n \<noteq> []"
  by (subst str_nat.simps) simp

lemma str_nat_no_minus: "str_nat n \<noteq> CHR ''-'' # s"
proof
  assume "str_nat n = CHR ''-'' # s"
  then have "CHR ''-'' \<in> set (str_nat n)" by simp
  then show False using str_nat_digits by blast
qed

lemma str_int_inj: "str_int a = str_int b \<Longrightarrow> a = b"
proof -
  assume eq: "str_int a = str_int b"
  consider "a < 0" "b < 0" | "a < 0" "\<not> b < 0" | "\<not> a < 0" "b < 0" | "\<not> a < 0" "\<not> b < 0"
    by blast
  then show ?thesis
  proof cases
    case 1
    with eq have "nat (- a) = nat (- b)" by (simp add: str_int_def str_nat_inj)
    with 1 show ?thesis by simp
  next
    case 2
    with eq have "str_nat (nat b) = CHR ''-'' # str_nat (nat (- a))" by (simp add: str_int_def)
    with str_nat_no_minus show ?thesis by blast
  next
    case 3
    with eq have "str_nat (nat a) = CHR ''-'' # str_nat (nat (- b))" by (simp add: str_int_def)
    with str_nat_no_minus show ?thesis by blast
  next
    case 4
    with eq have "nat a = nat b" by (simp add: str_int_def str_nat_inj)
    with 4 show ?thesis by simp
  qed
qed

lemma node_name_inj: "node_name s = node_name t \<Longrightarrow> node_key s = node_key t"
  by (cases s; cases t) (auto dest: str_int_inj)

lemma node_names_distinct:
  "distinct (map node_key ts) \<Longrightarrow> distinct (map node_name ts)"
  by (induction ts) (auto dest: node_name_inj)

lemma add_node_names:
  "add F si fn p t parent dec g = Inr g' \<Longrightarrow>
   map stmt_name (nodes g') = map stmt_name (nodes g) @ map node_name (subtrees t)"
proof (induction t arbitrary: parent dec g g')
  case (Leaf idx v cnt)
  then show ?case
    by (auto simp: nodes_def Let_def split: sum.splits option.splits)
next
  case (Split sidx feat thr dt gain ival icount l r)
  from add_Split_Inr [OF Split.prems] obtain label a b g2 g3 where
    l: "add F si fn p l (Some (''split'' @ str_int sidx)) (Some a)
          (g @ [Node (''split'' @ str_int sidx) label]) = Inr g2"
    and r: "add F si fn p r (Some (''split'' @ str_int sidx)) (Some b) g2 = Inr g3"
    and g': "g' = (case parent of None \<Rightarrow> g3 | Some q \<Rightarrow> g3 @ [Edge q (''split'' @ str_int sidx) dec])"
    by blast
  have "nodes g' = nodes g3"
    using g' by (simp add: nodes_def split: option.splits)
  with Split.IH(1) [OF l] Split.IH(2) [OF r] show ?case
    by (simp add: nodes_def)
qed

lemma add_walkable:
  "walkable F si fn p t \<Longrightarrow> \<exists>g'. add F si fn p t parent dec g = Inr g'"
proof (induction t arbitrary: parent dec g)
  case (Leaf idx v cnt)
  then show ?case
    by (auto simp: Let_def split: sum.splits)
next
  case (Split sidx feat thr dt gain ival icount l r)
  from Split.prems obtain label a b where
    lab: "split_label F si fn p feat thr gain ival icount = Inr label"
    and dl: "decision_labels dt = Inr (a, b)"
    and wl: "walkable F si fn p l" and wr: "walkable F si fn p r"
    by (auto simp: decision_labels_def split: sum.splits)
  from Split.IH(1) [OF wl] obtain g2 where
    g2: "add F si fn p l (Some (''split'' @ str_int sidx)) (Some a)
           (g @ [Node (''split'' @ str_int sidx) label]) = Inr g2"
    by blast
  from Split.IH(2) [OF wr] obtain g3 where
    g3: "add F si fn p r (Some (''split'' @ str_int sidx)) (Some b) g2 = Inr g3"
    by blast
  from lab dl g2 g3 show ?case
    by (simp add: Let_def)
qed

lemma walkable_add:
  "add F si fn p t parent dec g = Inr g' \<Longrightarrow> walkable F si fn p t"
proof (induction t arbitrary: parent dec g g')
  case (Leaf idx v cnt)
  then show ?case
    by (auto simp: Let_def split: sum.splits)
next
  case (Split sidx feat thr dt gain ival icount l r)
  from add_Split_Inr [OF Split.prems] obtain label a b g2 g3 where
    "split_label F si fn p feat thr gain ival icount = Inr label"
    "decision_labels dt = Inr (a, b)"
    "add F si fn p l (Some (''split'' @ str_int sidx)) (Some a)
          (g @ [Node (''split'' @ str_int sidx) label]) = Inr g2"
    "add F si fn p r (Some (''split'' @ str_int sidx)) (Some b) g2 = Inr g3"
    by blast
  with Split.IH show ?case
    by (auto simp: decision_labels_def split: if_splits)
qed

text \<open>
  C1. When the walker returns a graph for a tree description with \<open>I\<close> internal nodes
  and \<open>L\<close> leaves, the graph has \<open>I + L\<close> node statements and \<open>I * 2\<close> edges, and
  the edges that leave a name are two for each internal node of that name: an internal
  node contributes its two edges, a leaf none. The nodes are named after the nodes of
  the description, parent first, and the names differ when the split indices differ and
  the leaf indices differ.
\<close>

theorem walker_counts:
  assumes "to_graphviz gv F ti si fnames prec kw = Inr G"
  shows "length (nodes (body G)) = num_internal (tree_structure ti) + num_leaves (tree_structure ti)
       \<and> length (edges (body G)) = num_internal (tree_structure ti) * 2
       \<and> (\<forall>n. out_degree n (body G) = 2 * splits_named n (tree_structure ti))
       \<and> map stmt_name (nodes (body G)) = map node_name (subtrees (tree_structure ti))
       \<and> (distinct (map node_key (subtrees (tree_structure ti)))
            \<longrightarrow> distinct (map stmt_name (nodes (body G))))"
proof -
  from assms obtain b where b: "add F si fnames prec (tree_structure ti) None None [] = Inr b"
    and G: "G = \<lparr>options = kw, body = b\<rparr>"
    by (auto simp: to_graphviz_def split: if_splits sum.splits)
  have "length (nodes b) = num_internal (tree_structure ti) + num_leaves (tree_structure ti)"
    using add_nodes [OF b] by (simp add: nodes_def)
  moreover have "length (edges b) = num_internal (tree_structure ti) * 2"
    using add_edges [OF b] by (simp add: edges_def)
  moreover have "\<forall>n. out_degree n b = 2 * splits_named n (tree_structure ti)"
    using add_out_degree [OF b] by (simp add: out_degree_def)
  moreover have names: "map stmt_name (nodes b) = map node_name (subtrees (tree_structure ti))"
    using add_node_names [OF b] by (simp add: nodes_def)
  moreover have "distinct (map stmt_name (nodes b))"
    if "distinct (map node_key (subtrees (tree_structure ti)))"
    using node_names_distinct [OF that] names by simp
  ultimately show ?thesis using G by simp
qed

theorem walker_counts_witness:
  "to_graphviz True fmt0 \<lparr>tree_structure = stump\<rparr> [] None None [] = Inr stump_digraph
     \<and> length (nodes (body stump_digraph)) = 3 \<and> length (edges (body stump_digraph)) = 2
     \<and> out_degree ''split0'' (body stump_digraph) = 2
     \<and> out_degree ''leaf0'' (body stump_digraph) = 0
     \<and> map stmt_name (nodes (body stump_digraph)) = [''split0'', ''leaf0'', ''leaf1'']
     \<and> distinct (map node_key (subtrees stump))
     \<and> distinct (map stmt_name (nodes (body stump_digraph)))"
proof -
  have d: "distinct (map node_key (subtrees stump))"
    by (simp add: stump_def)
  from walker_counts [OF stump_graph] d stump_graph show ?thesis
    by (simp add: stump_def splits_named_def str_int_0 str_int_1)
qed

lemma first_some_append:
  "first_some (xs @ ys) = (case first_some xs of Some x \<Rightarrow> Some x | None \<Rightarrow> first_some ys)"
  by (induction xs rule: first_some.induct) simp_all

lemma walk_error_Split:
  "walk_error F si fn p (Split sidx feat thr dt gain ival icount l r) =
     (case node_error F si fn p (Split sidx feat thr dt gain ival icount l r) of
        Some e \<Rightarrow> Some e
      | None \<Rightarrow> (case walk_error F si fn p l of Some e \<Rightarrow> Some e | None \<Rightarrow> walk_error F si fn p r))"
  by (cases "node_error F si fn p (Split sidx feat thr dt gain ival icount l r)")
    (simp_all add: walk_error_def first_some_append del: node_error.simps split: option.splits)

lemma walk_error_Leaf:
  "walk_error F si fn p (Leaf idx v cnt) = node_error F si fn p (Leaf idx v cnt)"
  by (cases "node_error F si fn p (Leaf idx v cnt)") (simp_all add: walk_error_def del: node_error.simps)


lemma add_result:
  "(case walk_error F si fn p t of
      Some e \<Rightarrow> add F si fn p t parent dec g = Inl e
    | None \<Rightarrow> (\<exists>g'. add F si fn p t parent dec g = Inr g'))"
proof (induction t arbitrary: parent dec g)
  case (Leaf idx v cnt)
  show ?case
    by (cases "leaf_label F si p idx v cnt") (simp_all add: walk_error_Leaf Let_def)
next
  case (Split sidx feat thr dt gain ival icount l r)
  let ?name = "''split'' @ str_int sidx"
  show ?case
  proof (cases "split_label F si fn p feat thr gain ival icount")
    case (Inl e)
    then show ?thesis by (simp add: walk_error_Split Let_def)
  next
    case lab: (Inr label)
    show ?thesis
    proof (cases "decision_labels dt")
      case (Inl e)
      with lab show ?thesis by (simp add: walk_error_Split Let_def)
    next
      case (Inr ds)
      obtain a b where ds: "ds = (a, b)" by (cases ds)
      have ne: "node_error F si fn p (Split sidx feat thr dt gain ival icount l r) = None"
        using lab Inr by simp
      show ?thesis
      proof (cases "walk_error F si fn p l")
        case (Some e)
        with Split.IH(1) [of "Some ?name" "Some a" "g @ [Node ?name label]"]
        have "add F si fn p l (Some ?name) (Some a) (g @ [Node ?name label]) = Inl e" by simp
        with lab Inr ds Some ne show ?thesis
          by (simp add: walk_error_Split Let_def del: node_error.simps)
      next
        case None
        with Split.IH(1) [of "Some ?name" "Some a" "g @ [Node ?name label]"]
        obtain g2 where g2: "add F si fn p l (Some ?name) (Some a) (g @ [Node ?name label]) = Inr g2"
          by auto
        show ?thesis
        proof (cases "walk_error F si fn p r")
          case (Some e)
          with Split.IH(2) [of "Some ?name" "Some b" g2]
          have "add F si fn p r (Some ?name) (Some b) g2 = Inl e" by simp
          with lab Inr ds None Some ne g2 show ?thesis
            by (simp add: walk_error_Split Let_def del: node_error.simps)
        next
          case r: None
          with Split.IH(2) [of "Some ?name" "Some b" g2]
          obtain g3 where "add F si fn p r (Some ?name) (Some b) g2 = Inr g3"
            by auto
          with lab Inr ds None r ne g2 show ?thesis
            by (simp add: walk_error_Split Let_def del: node_error.simps)
        qed
      qed
    qed
  qed
qed



lemma add_Inl_walk_error:
  "add F si fn p t parent dec g = Inl e \<longleftrightarrow> walk_error F si fn p t = Some e"
proof (cases "walk_error F si fn p t")
  case None
  with add_result [of F si fn p t parent dec g] obtain g' where
    "add F si fn p t parent dec g = Inr g'" by auto
  with None show ?thesis by simp
next
  case (Some e')
  with add_result [of F si fn p t parent dec g]
  have "add F si fn p t parent dec g = Inl e'" by simp
  with Some show ?thesis by auto
qed

lemma first_some_skip:
  "\<forall>u\<in>set us. f u = None \<Longrightarrow> first_some (map f (us @ s # post)) = first_some (f s # map f post)"
  by (induction us) simp_all

lemma walk_error_first:
  assumes "subtrees t = pre @ s # post"
      and "\<forall>u\<in>set pre. node_error F si fn p u = None"
      and "node_error F si fn p s = Some e"
  shows "walk_error F si fn p t = Some e"
  unfolding walk_error_def assms(1)
  using first_some_skip [of pre "node_error F si fn p" s post, OF assms(2)] assms(3)
  by simp

text \<open>
  C2, as amended. Take any internal node of the tree description the walker is run on.
  If its decision type is \<open><=\<close>, a returned graph has the edge to its left child
  labelled \<open><=\<close> and the edge to its right child labelled \<open>>\<close>; if it is \<open>==\<close>, the
  labels are \<open>is\<close> and \<open>isn't\<close>. With any other decision type the walk returns no
  graph: it raises the error of the first node, in the order of the walk, that fails.
  That is the value error for the decision type when the label of the node is built and
  no node walked before it fails, whether the node is the root or lies below it.
\<close>

theorem walker_decision_labels:
  assumes "Split sidx feat thr dt gain ival icount l r \<in> set (subtrees t)"
  shows "(dt = ''<='' \<longrightarrow> (\<forall>g'. add F si fn p t parent dec g = Inr g' \<longrightarrow>
             Edge (''split'' @ str_int sidx) (node_name l) (Some ''<='') \<in> set g'
           \<and> Edge (''split'' @ str_int sidx) (node_name r) (Some ''>'') \<in> set g'))
       \<and> (dt = ''=='' \<longrightarrow> (\<forall>g'. add F si fn p t parent dec g = Inr g' \<longrightarrow>
             Edge (''split'' @ str_int sidx) (node_name l) (Some ''is'') \<in> set g'
           \<and> Edge (''split'' @ str_int sidx) (node_name r)
                (Some (''isn'' @ [CHR 0x27] @ ''t'')) \<in> set g'))
       \<and> (dt \<noteq> ''<='' \<and> dt \<noteq> ''=='' \<longrightarrow>
             (\<exists>e. add F si fn p t parent dec g = Inl e \<and> walk_error F si fn p t = Some e)
           \<and> (\<forall>label q d g0. split_label F si fn p feat thr gain ival icount = Inr label \<longrightarrow>
                 add F si fn p (Split sidx feat thr dt gain ival icount l r) q d g0 =
                   Inl (ValueError ''Invalid decision type in tree model.''))
           \<and> (\<forall>pre post label.
                 subtrees t = pre @ Split sidx feat thr dt gain ival icount l r # post
               \<and> (\<forall>u\<in>set pre. node_error F si fn p u = None)
               \<and> split_label F si fn p feat thr gain ival icount = Inr label \<longrightarrow>
                 add F si fn p t parent dec g =
                   Inl (ValueError ''Invalid decision type in tree model.'')))"
proof (intro conjI impI allI)
  fix g' assume "dt = ''<=''" "add F si fn p t parent dec g = Inr g'"
  with add_subtree_edges [OF this(2) assms]
  show "Edge (''split'' @ str_int sidx) (node_name l) (Some ''<='') \<in> set g'"
    and "Edge (''split'' @ str_int sidx) (node_name r) (Some ''>'') \<in> set g'"
    by (auto simp: decision_labels_def)
next
  fix g' assume "dt = ''==''" "add F si fn p t parent dec g = Inr g'"
  with add_subtree_edges [OF this(2) assms]
  show "Edge (''split'' @ str_int sidx) (node_name l) (Some ''is'') \<in> set g'"
    and "Edge (''split'' @ str_int sidx) (node_name r)
           (Some (''isn'' @ [CHR 0x27] @ ''t'')) \<in> set g'"
    by (auto simp: decision_labels_def)
next
  assume bad: "dt \<noteq> ''<='' \<and> dt \<noteq> ''==''"
  show "\<exists>e. add F si fn p t parent dec g = Inl e \<and> walk_error F si fn p t = Some e"
  proof (cases "add F si fn p t parent dec g")
    case (Inl e)
    then show ?thesis using add_Inl_walk_error [of F si fn p t parent dec g e] by blast
  next
    case (Inr g')
    from add_subtree_edges [OF Inr assms] bad show ?thesis
      by (auto simp: decision_labels_def)
  qed
next
  fix label q d g0
  assume "dt \<noteq> ''<='' \<and> dt \<noteq> ''==''"
    and "split_label F si fn p feat thr gain ival icount = Inr label"
  then show "add F si fn p (Split sidx feat thr dt gain ival icount l r) q d g0 =
      Inl (ValueError ''Invalid decision type in tree model.'')"
    by (simp add: decision_labels_def Let_def)
next
  fix pre post label
  assume bad: "dt \<noteq> ''<='' \<and> dt \<noteq> ''==''"
    and h: "subtrees t = pre @ Split sidx feat thr dt gain ival icount l r # post
        \<and> (\<forall>u\<in>set pre. node_error F si fn p u = None)
        \<and> split_label F si fn p feat thr gain ival icount = Inr label"
  have "node_error F si fn p (Split sidx feat thr dt gain ival icount l r) =
      Some (ValueError ''Invalid decision type in tree model.'')"
    using bad h by (simp add: decision_labels_def)
  with h have "walk_error F si fn p t = Some (ValueError ''Invalid decision type in tree model.'')"
    by (intro walk_error_first [of t pre _ post]) auto
  then show "add F si fn p t parent dec g = Inl (ValueError ''Invalid decision type in tree model.'')"
    by (simp add: add_Inl_walk_error)
qed

text \<open>
  C2, as stated, fails: on a node with another decision type the walker raises the key
  error when a requested annotation is missing, and the index error when the feature
  index is outside the feature names, before it looks at the decision type.
\<close>

theorem walker_decision_labels_counterexample:
  "add fmt0 [''split_gain''] None None stump_bad None None [] = Inl (KeyError ''split_gain'')
   \<and> add fmt0 [] (Some []) None stump_bad None None [] = Inl (IndexError ''list index out of range'')"
  by (simp add: stump_bad_def split_label_def float2str_def fmt0_def py_index_def Let_def)

lemma stump_walk:
  "add fmt0 [] None None stump None None [] = Inr (body stump_digraph)"
  by (simp add: stump_def stump_digraph_def fmt0_def split_label_def
      leaf_label_def decision_labels_def float2str_def str_int_0 str_int_1 Let_def)

lemma stump_eq_walk:
  "add fmt0 [] None None stump_eq None None [] =
     Inr [Node ''split0'' (''split_feature_index: 0'' @ nl @ ''threshold: 0||1''),
          Node ''leaf0'' (''leaf_index: 0'' @ nl @ ''leaf_value: s''),
          Edge ''split0'' ''leaf0'' (Some ''is''),
          Node ''leaf1'' (''leaf_index: 1'' @ nl @ ''leaf_value: s''),
          Edge ''split0'' ''leaf1'' (Some (''isn'' @ [CHR 0x27] @ ''t''))]"
  by (simp add: stump_eq_def fmt0_def split_label_def
      leaf_label_def decision_labels_def float2str_def str_int_0 str_int_1 Let_def)

lemma deep_bad_subtrees:
  "subtrees deep_bad =
     [deep_bad, Leaf 0 (Num (- 1)) None] @
     Split 1 0 (Num 2.5) ''>='' None None None (Leaf 1 (Num 1) None) (Leaf 2 (Num 2) None) #
     [Leaf 1 (Num 1) None, Leaf 2 (Num 2) None]"
  by (simp add: deep_bad_def)

lemma deep_bad_before:
  "node_error fmt0 [] None None deep_bad = None"
  "node_error fmt0 [] None None (Leaf 0 (Num (- 1)) None) = None"
  by (simp_all add: deep_bad_def split_label_def leaf_label_def decision_labels_def float2str_def
      fmt0_def Let_def)

theorem walker_decision_labels_witness:
  "stump \<in> set (subtrees stump)
   \<and> add fmt0 [] None None stump None None [] = Inr (body stump_digraph)
   \<and> Edge ''split0'' ''leaf0'' (Some ''<='') \<in> set (body stump_digraph)
   \<and> Edge ''split0'' ''leaf1'' (Some ''>'') \<in> set (body stump_digraph)
   \<and> stump_eq \<in> set (subtrees stump_eq)
   \<and> (\<exists>g'. add fmt0 [] None None stump_eq None None [] = Inr g'
        \<and> Edge ''split0'' ''leaf0'' (Some ''is'') \<in> set g'
        \<and> Edge ''split0'' ''leaf1'' (Some (''isn'' @ [CHR 0x27] @ ''t'')) \<in> set g')
   \<and> subtrees deep_bad =
        [deep_bad, Leaf 0 (Num (- 1)) None] @
        Split 1 0 (Num 2.5) ''>='' None None None (Leaf 1 (Num 1) None) (Leaf 2 (Num 2) None) #
        [Leaf 1 (Num 1) None, Leaf 2 (Num 2) None]
   \<and> node_error fmt0 [] None None deep_bad = None
   \<and> node_error fmt0 [] None None (Leaf 0 (Num (- 1)) None) = None
   \<and> split_label fmt0 [] None None 0 (Num 2.5) None None None =
        Inr (''split_feature_index: 0'' @ nl @ ''threshold: s'')
   \<and> add fmt0 [] None None deep_bad None None [] =
        Inl (ValueError ''Invalid decision type in tree model.'')
   \<and> walk_error fmt0 [] None None deep_bad =
        Some (ValueError ''Invalid decision type in tree model.'')"
proof -
  have 1: "Split 0 0 (Num 1.5) ''<='' None None None (Leaf 0 (Num (- 1)) None) (Leaf 1 (Num 1) None)
             \<in> set (subtrees stump)"
    by (simp add: stump_def)
  have 2: "Split 0 0 (Str ''0||1'') ''=='' None None None (Leaf 0 (Num (- 1)) None) (Leaf 1 (Num 1) None)
             \<in> set (subtrees stump_eq)"
    by (simp add: stump_eq_def)
  have 3: "Split 1 0 (Num 2.5) ''>='' None None None (Leaf 1 (Num 1) None) (Leaf 2 (Num 2) None)
             \<in> set (subtrees deep_bad)"
    by (simp add: deep_bad_def)
  have lab: "split_label fmt0 [] None None 0 (Num 2.5) None None None =
      Inr (''split_feature_index: 0'' @ nl @ ''threshold: s'')"
    by (simp add: split_label_def fmt0_def float2str_def str_int_0)
  have a: "Edge ''split0'' ''leaf0'' (Some ''<='') \<in> set (body stump_digraph)
         \<and> Edge ''split0'' ''leaf1'' (Some ''>'') \<in> set (body stump_digraph)"
    using walker_decision_labels [OF 1, of fmt0 "[]" None None None None "[]"] stump_walk
    by (simp add: str_int_0 str_int_1)
  have b: "\<exists>g'. add fmt0 [] None None stump_eq None None [] = Inr g'
        \<and> Edge ''split0'' ''leaf0'' (Some ''is'') \<in> set g'
        \<and> Edge ''split0'' ''leaf1'' (Some (''isn'' @ [CHR 0x27] @ ''t'')) \<in> set g'"
    using walker_decision_labels [OF 2, of fmt0 "[]" None None None None "[]"] stump_eq_walk
    by (simp add: str_int_0 str_int_1)
  have bad: "''>='' \<noteq> ''<='' \<and> ''>='' \<noteq> ''==''"
    by simp
  have before: "\<forall>u\<in>set [deep_bad, Leaf 0 (Num (- 1)) None]. node_error fmt0 [] None None u = None"
    using deep_bad_before by simp
  from walker_decision_labels [OF 3, of fmt0 "[]" None None None None "[]"] bad
    deep_bad_subtrees before lab
  have c: "add fmt0 [] None None deep_bad None None [] =
        Inl (ValueError ''Invalid decision type in tree model.'')"
    by blast
  from walker_decision_labels [OF 3, of fmt0 "[]" None None None None "[]"] bad c
  have d: "walk_error fmt0 [] None None deep_bad =
        Some (ValueError ''Invalid decision type in tree model.'')"
    by auto
  from a b c d 1 2 lab stump_walk deep_bad_subtrees deep_bad_before show ?thesis
    by (simp add: stump_def stump_eq_def)
qed

section \<open>Properties of the importance chart\<close>

lemma importance_tuples_spec:
  assumes "\<forall>v\<in>set scores. 0 \<le> v"
  shows "importance_tuples names scores iz mnf = spec_bars names scores iz mnf"
proof -
  have "\<forall>x\<in>set (sort_key snd (zip names scores)). 0 \<le> snd x"
    using assms by (auto dest: set_zip_rightD)
  then have "filter (\<lambda>x. snd x > 0) (sort_key snd (zip names scores)) =
             filter (\<lambda>x. snd x \<noteq> 0) (sort_key snd (zip names scores))"
    by (intro filter_cong) auto
  moreover have "nat (int k - n) = k - nat n" if "0 < n" for k n
    using that by linarith
  ultimately show ?thesis
    by (simp add: importance_tuples_def spec_bars_def Let_def split: option.splits)
qed

lemma spec_bars_sorted: "sorted (map snd (spec_bars names scores iz mnf))"
proof -
  have s: "sorted (map snd (sort_key snd (zip names scores)))"
    by simp
  then have f: "sorted (map snd (filter (\<lambda>x. snd x \<noteq> 0) (sort_key snd (zip names scores))))"
    by (simp add: filter_sort)
  have "sorted (map snd (drop k xs))" if "sorted (map snd xs)" for k and xs :: "(string \<times> real) list"
    using that sorted_wrt_drop [of "(\<le>)" "map snd xs" k] by (simp add: drop_map)
  with s f show ?thesis
    by (auto simp: spec_bars_def Let_def split: option.splits)
qed

lemma spec_bars_top:
  assumes "0 < n"
  shows "\<exists>dropped.
       mset (retained names scores iz) = mset dropped + mset (spec_bars names scores iz (Some n))
     \<and> (\<forall>d\<in>set dropped. \<forall>k\<in>set (spec_bars names scores iz (Some n)). snd d \<le> snd k)
     \<and> length (spec_bars names scores iz (Some n)) = min (nat n) (length (retained names scores iz))"
proof -
  define nz where "nz = (if iz then filter (\<lambda>x. snd x \<noteq> 0) (sort_key snd (zip names scores))
      else sort_key snd (zip names scores))"
  define k where "k = length nz - nat n"
  have bars: "spec_bars names scores iz (Some n) = drop k nz"
    using assms by (simp add: spec_bars_def nz_def k_def Let_def)
  have nz_sort: "nz = sort_key snd (retained names scores iz)"
    by (simp add: nz_def retained_def filter_sort)
  have "sorted (map snd nz)"
    by (simp add: nz_sort)
  then have "sorted (map snd (take k nz) @ map snd (drop k nz))"
    by (simp add: map_append [symmetric] del: map_append)
  then have ord: "\<forall>d\<in>set (take k nz). \<forall>e\<in>set (drop k nz). snd d \<le> snd e"
    by (auto simp: sorted_append)
  have "mset (retained names scores iz) = mset nz"
    by (simp add: nz_sort)
  also have "\<dots> = mset (take k nz) + mset (drop k nz)"
    by (metis append_take_drop_id mset_append)
  finally have ms: "mset (retained names scores iz) = mset (take k nz) + mset (drop k nz)" .
  have "length nz = length (retained names scores iz)"
    by (simp add: nz_sort)
  then have len: "length (drop k nz) = min (nat n) (length (retained names scores iz))"
    by (simp add: k_def)
  from ms ord len bars show ?thesis by auto
qed

lemma plot_importance_Inr:
  assumes "plot_importance mpl F h opts height it mnf iz prec kw = (eff, Inr a)"
  shows "\<exists>b. as_booster h = Inr b
     \<and> Barh [0 ..< length (importance_tuples (feature_name b) (feature_importance b it) iz mnf)]
           (map snd (importance_tuples (feature_name b) (feature_importance b it) iz mnf)) height kw
         \<in> set eff
     \<and> Set_yticklabels (map fst (importance_tuples (feature_name b) (feature_importance b it) iz mnf))
         \<in> set eff"
  using assms
  by (auto simp: plot_importance_def Let_def unzip_pairs_def split: if_splits sum.splits prod.splits)

lemma abc_plot:
  "plot_importance True fmt0 (Booster booster_abc) importance_defaults 0.2 ''split'' (Some 1) True None [] =
     (abc_top1_effects, Inr NewAxes)"
  by (simp add: plot_importance_def as_booster_def booster_abc_def importance_defaults_def
      importance_tuples_def unzip_pairs_def get_axes_def range_or_default_def set_labels_def Let_def
      abc_top1_effects_def)

lemma abc_bars: "spec_bars [''A'', ''B'', ''C''] [5, 0, 10] True (Some 1) = [(''C'', 10)]"
  by (simp add: spec_bars_def)

lemma abc_retained: "retained [''A'', ''B'', ''C''] [5, 0, 10] True = [(''A'', 5), (''C'', 10)]"
  by (simp add: retained_def)

text \<open>
  C3. When \<open>plot_importance\<close> returns its axes for a model whose scores are not negative,
  the bars drawn and their tick labels are the pairs sorted ascending by score, without
  the zero scores when \<open>ignore_zero\<close> is set, cut to the last \<open>n\<close> for a positive
  \<open>max_num_features = n\<close>. The bars are in ascending order, and for such an \<open>n\<close> their
  number is the minimum of \<open>n\<close> and the number of retained features, and every retained
  feature that is dropped scores no more than any feature that is drawn.
\<close>

theorem importance_truncation:
  assumes "plot_importance mpl F h opts height it mnf iz prec kw = (eff, Inr a)"
      and "as_booster h = Inr b"
      and "\<forall>v\<in>set (feature_importance b it). 0 \<le> v"
  shows "Barh [0 ..< length (spec_bars (feature_name b) (feature_importance b it) iz mnf)]
              (map snd (spec_bars (feature_name b) (feature_importance b it) iz mnf)) height kw \<in> set eff
     \<and> Set_yticklabels (map fst (spec_bars (feature_name b) (feature_importance b it) iz mnf)) \<in> set eff
     \<and> sorted (map snd (spec_bars (feature_name b) (feature_importance b it) iz mnf))
     \<and> (\<forall>n. mnf = Some n \<and> 0 < n \<longrightarrow>
           length (spec_bars (feature_name b) (feature_importance b it) iz mnf) =
             min (nat n) (length (retained (feature_name b) (feature_importance b it) iz))
         \<and> (\<exists>dropped.
               mset (retained (feature_name b) (feature_importance b it) iz) =
                 mset dropped + mset (spec_bars (feature_name b) (feature_importance b it) iz mnf)
             \<and> (\<forall>d\<in>set dropped.
                   \<forall>k\<in>set (spec_bars (feature_name b) (feature_importance b it) iz mnf).
                     snd d \<le> snd k)))"
proof -
  let ?bars = "spec_bars (feature_name b) (feature_importance b it) iz mnf"
  have eq: "importance_tuples (feature_name b) (feature_importance b it) iz mnf = ?bars"
    using assms(3) by (rule importance_tuples_spec)
  from plot_importance_Inr [OF assms(1)] assms(2) eq
  have "Barh [0 ..< length ?bars] (map snd ?bars) height kw \<in> set eff"
    and "Set_yticklabels (map fst ?bars) \<in> set eff"
    by auto
  moreover have "sorted (map snd ?bars)"
    by (rule spec_bars_sorted)
  moreover have "length ?bars = min (nat n) (length (retained (feature_name b) (feature_importance b it) iz))
         \<and> (\<exists>dropped.
               mset (retained (feature_name b) (feature_importance b it) iz) = mset dropped + mset ?bars
             \<and> (\<forall>d\<in>set dropped. \<forall>k\<in>set ?bars. snd d \<le> snd k))"
    if "mnf = Some n \<and> 0 < n" for n
    using spec_bars_top [of n "feature_name b" "feature_importance b it" iz] that by blast
  ultimately show ?thesis by blast
qed

theorem importance_truncation_witness:
  "plot_importance True fmt0 (Booster booster_abc) importance_defaults 0.2 ''split'' (Some 1) True None [] =
     (abc_top1_effects, Inr NewAxes)
   \<and> as_booster (Booster booster_abc) = Inr booster_abc
   \<and> feature_importance booster_abc ''split'' = [5, 0, 10]
   \<and> Barh [0] [10] 0.2 [] \<in> set abc_top1_effects
   \<and> Set_yticklabels [''C''] \<in> set abc_top1_effects
   \<and> length [(''C'', 10 :: real)] = min (nat 1) (length [(''A'', 5 :: real), (''C'', 10)])"
proof -
  have b: "as_booster (Booster booster_abc) = Inr booster_abc"
    by (simp add: as_booster_def)
  have names: "feature_name booster_abc = [''A'', ''B'', ''C'']"
    and scores: "feature_importance booster_abc ''split'' = [5, 0, 10]"
    by (simp_all add: booster_abc_def)
  have nn: "\<forall>v\<in>set (feature_importance booster_abc ''split''). 0 \<le> v"
    by (simp add: scores)
  from importance_truncation [OF abc_plot b nn]
  have "Barh [0] [10] 0.2 [] \<in> set abc_top1_effects
      \<and> Set_yticklabels [''C''] \<in> set abc_top1_effects
      \<and> length [(''C'', 10 :: real)] = min (nat 1) (length [(''A'', 5 :: real), (''C'', 10)])"
    unfolding names scores abc_bars abc_retained by simp
  with abc_plot b scores show ?thesis by blast
qed

text \<open>
  C10. A model whose importance vector is not empty and holds only zeros, plotted with
  \<open>ignore_zero\<close> set: the unpacking of the empty list of pairs raises, the error is not
  the one for an empty importance vector, and nothing has been drawn.
\<close>

theorem all_zero_importance_unpack_error:
  assumes "as_booster h = Inr b"
      and "feature_importance b it \<noteq> []"
      and "\<forall>v\<in>set (feature_importance b it). v = 0"
  shows "plot_importance True F h opts height it mnf True prec kw =
           ([], Inl (ValueError ''not enough values to unpack (expected 2, got 0)''))
       \<and> ValueError ''not enough values to unpack (expected 2, got 0)'' \<noteq>
           ValueError (''Booster'' @ [CHR 0x27] @ ''s feature_importance is empty.'')"
proof -
  have "\<forall>x\<in>set (sort_key snd (zip (feature_name b) (feature_importance b it))). \<not> snd x > 0"
    using assms(3) by (fastforce dest: set_zip_rightD)
  then have "filter (\<lambda>x. snd x > 0) (sort_key snd (zip (feature_name b) (feature_importance b it))) = []"
    by (simp add: filter_empty_conv)
  then have "importance_tuples (feature_name b) (feature_importance b it) True mnf = []"
    by (simp add: importance_tuples_def Let_def split: option.splits)
  with assms(1,2) show ?thesis
    by (simp add: plot_importance_def unzip_pairs_def Let_def)
qed

theorem all_zero_importance_unpack_error_witness:
  "as_booster (Booster booster_zero) = Inr booster_zero
   \<and> feature_importance booster_zero ''split'' = [0, 0, 0]
   \<and> plot_importance True fmt0 (Booster booster_zero) importance_defaults 0.2 ''split'' None True None [] =
       ([], Inl (ValueError ''not enough values to unpack (expected 2, got 0)''))"
proof -
  have b: "as_booster (Booster booster_zero) = Inr booster_zero"
    by (simp add: as_booster_def)
  have scores: "feature_importance booster_zero ''split'' = [0, 0, 0]"
    by (simp add: booster_zero_def)
  have ne: "feature_importance booster_zero ''split'' \<noteq> []"
    and z: "\<forall>v\<in>set (feature_importance booster_zero ''split''). v = 0"
    by (simp_all add: scores)
  from all_zero_importance_unpack_error [OF b ne z] b scores show ?thesis
    by blast
qed

section \<open>Properties of the graph constructor\<close>
lemma strict_not_local: "locals_get (digraph_locals a) ''strict'' = None"
  by (simp add: locals_get_def digraph_locals_def)

lemma fold_strict_id: "fold_strict (digraph_locals a) st = st"
  by (cases st) (simp add: fold_strict_def strict_not_local)

lemma locals_old_strict:
  "n \<in> set digraph_old_names \<Longrightarrow>
   locals_get (digraph_locals (a\<lparr>old_strict := v\<rparr>)) n = locals_get (digraph_locals a) n"
  by (auto simp: digraph_old_names_def locals_get_def digraph_locals_def)

lemma fold_deprecated_cong:
  "(\<And>n. n \<in> set names \<Longrightarrow> locals_get ls n = locals_get ls' n) \<Longrightarrow>
   fold_deprecated ls names st = fold_deprecated ls' names st"
proof (induction names arbitrary: st)
  case Nil
  then show ?case by simp
next
  case (Cons n names)
  obtain eff kw where st: "st = (eff, kw)" by (cases st)
  have "locals_get ls n = locals_get ls' n"
    using Cons.prems by simp
  moreover have "fold_deprecated ls names s = fold_deprecated ls' names s" for s
    using Cons.IH Cons.prems by simp
  ultimately show ?case
    by (simp add: st split: option.splits)
qed

lemma old_strict_no_effect:
  "create_tree_digraph gv F (a\<lparr>old_strict := v\<rparr>) = create_tree_digraph gv F a"
proof -
  have "fold_deprecated (digraph_locals (a\<lparr>old_strict := v\<rparr>)) digraph_old_names ([], kwargs a) =
        fold_deprecated (digraph_locals a) digraph_old_names ([], kwargs a)"
    by (rule fold_deprecated_cong) (rule locals_old_strict)
  then show ?thesis
    by (simp add: create_tree_digraph_def fold_strict_id Let_def
        split: sum.splits prod.splits option.splits)
qed

lemma fold_none:
  "\<forall>n\<in>set names. locals_get ls n = None \<Longrightarrow> fold_deprecated ls names st = st"
  by (induction names arbitrary: st) (auto split: option.splits)

text \<open>
  C6. The deprecated parameter \<open>old_strict\<close> set to \<open>True\<close>: the lookup at line 468 is
  of the name \<open>strict\<close>, which is no local, so \<open>create_tree_digraph\<close> emits no warning
  and hands no \<open>strict\<close> option to the graph. The claim asks for the warning and the
  option, as the other deprecated parameters get them.
\<close>

theorem old_strict_ignored:
  "create_tree_digraph True fmt0 digraph_strict_args = ([], Inr stump_digraph)
   \<and> \<not> kw_in ''strict'' (options stump_digraph)"
proof -
  have "fold_deprecated (digraph_locals digraph_strict_args) digraph_old_names ([], []) = ([], [])"
    by (rule fold_none)
      (simp add: digraph_old_names_def locals_get_def digraph_locals_def digraph_strict_args_def
        digraph_call_def)
  moreover have "kwargs digraph_strict_args = []" "booster digraph_strict_args = Booster booster_abc"
    "tree_index digraph_strict_args = 0" "show_info digraph_strict_args = None"
    "precision digraph_strict_args = None"
    by (simp_all add: digraph_strict_args_def digraph_call_def)
  ultimately have "create_tree_digraph True fmt0 digraph_strict_args = ([], Inr stump_digraph)"
    using stump_graph
    by (simp add: create_tree_digraph_def fold_strict_id as_booster_def booster_abc_def py_index_def)
  then show ?thesis
    by (simp add: stump_digraph_def kw_in_def)
qed

lemma fold_deprecated_warnings:
  "fst (fold_deprecated ls names (eff, kw)) =
     eff @ map (\<lambda>n. Warn ''LGBMDeprecationWarning'' (deprecation_message n))
             (filter (\<lambda>n. locals_get ls n \<noteq> None) names)"
  by (induction names arbitrary: eff kw) (auto split: option.splits)

lemma kw_in_map_of: "kw_in k kw \<longleftrightarrow> map_of kw k \<noteq> None"
  by (simp add: kw_in_def map_of_eq_None_iff)

lemma fold_deprecated_keeps:
  "kw_in k kw \<Longrightarrow>
   kw_in k (snd (fold_deprecated ls names (eff, kw)))
   \<and> map_of (snd (fold_deprecated ls names (eff, kw))) k = map_of kw k"
proof (induction names arbitrary: eff kw)
  case Nil
  then show ?case by simp
next
  case (Cons n names)
  show ?case
  proof (cases "locals_get ls n")
    case None
    then show ?thesis using Cons by simp
  next
    case (Some v)
    let ?kw = "if kw_in (drop 4 n) kw then kw else kw @ [(drop 4 n, v)]"
    have in': "kw_in k ?kw" and same: "map_of ?kw k = map_of kw k"
      using Cons.prems by (auto simp: kw_in_map_of map_add_def split: option.splits)
    from Cons.IH [OF in'] same Some show ?thesis by simp
  qed
qed

lemma fold_deprecated_folds:
  "n \<in> set names \<Longrightarrow> locals_get ls n = Some v \<Longrightarrow>
   kw_in (drop 4 n) (snd (fold_deprecated ls names (eff, kw)))"
proof (induction names arbitrary: eff kw)
  case Nil
  then show ?case by simp
next
  case (Cons m names)
  show ?case
  proof (cases "m = n")
    case True
    let ?kw = "if kw_in (drop 4 n) kw then kw else kw @ [(drop 4 n, v)]"
    have "kw_in (drop 4 n) ?kw"
      by (simp add: kw_in_def)
    from fold_deprecated_keeps [OF this] True Cons.prems(2) show ?thesis by simp
  next
    case False
    then have "n \<in> set names" using Cons.prems(1) by simp
    from Cons.IH [OF this Cons.prems(2)] show ?thesis
      by (cases "locals_get ls m") simp_all
  qed
qed

lemma fold_deprecated_value:
  "distinct (map (drop 4) names) \<Longrightarrow> n \<in> set names \<Longrightarrow> locals_get ls n = Some v \<Longrightarrow>
   \<not> kw_in (drop 4 n) kw \<Longrightarrow>
   map_of (snd (fold_deprecated ls names (eff, kw))) (drop 4 n) = Some v"
proof (induction names arbitrary: eff kw)
  case Nil
  then show ?case by simp
next
  case (Cons m names)
  show ?case
  proof (cases "m = n")
    case True
    have in': "kw_in (drop 4 n) (kw @ [(drop 4 n, v)])"
      by (simp add: kw_in_def)
    have "map_of (kw @ [(drop 4 n, v)]) (drop 4 n) = Some v"
      using Cons.prems(4) by (simp add: kw_in_map_of map_add_def)
    with fold_deprecated_keeps [OF in'] True Cons.prems(3,4) show ?thesis by simp
  next
    case False
    then have n: "n \<in> set names" using Cons.prems(2) by simp
    then have ne: "drop 4 m \<noteq> drop 4 n" using Cons.prems(1) by auto
    have d: "distinct (map (drop 4) names)" using Cons.prems(1) by simp
    show ?thesis
    proof (cases "locals_get ls m")
      case None
      with Cons.IH [OF d n Cons.prems(3,4)] show ?thesis by simp
    next
      case (Some w)
      let ?kw = "if kw_in (drop 4 m) kw then kw else kw @ [(drop 4 m, w)]"
      have "\<not> kw_in (drop 4 n) ?kw"
        using Cons.prems(4) ne by (auto simp: kw_in_map_of map_add_def)
      from Cons.IH [OF d n Cons.prems(3) this] Some show ?thesis by simp
    qed
  qed
qed

lemma digraph_old_names_distinct: "distinct (map (drop 4) digraph_old_names)"
  by (simp add: digraph_old_names_def)

lemma float2str_error:
  "float2str F v prec = Inl e \<Longrightarrow> walker_error e"
  by (auto simp: float2str_def walker_error_def split: pyval.splits option.splits if_splits)

lemma split_info_error:
  "split_info F prec gain ival icount infos label = Inl e \<Longrightarrow> walker_error e"
  by (induction infos arbitrary: label)
    (auto simp: walker_error_def split: if_splits option.splits sum.splits dest: float2str_error)

lemma split_label_error:
  "split_label F si fn prec feat thr gain ival icount = Inl e \<Longrightarrow> walker_error e"
  by (auto simp: split_label_def py_index_def walker_error_def
      split: option.splits sum.splits if_splits dest: split_info_error float2str_error)

lemma leaf_label_error:
  "leaf_label F si prec idx v cnt = Inl e \<Longrightarrow> walker_error e"
  by (auto simp: leaf_label_def Let_def walker_error_def
      split: if_splits option.splits sum.splits dest: float2str_error)

lemma add_error:
  "add F si fn p t parent dec g = Inl e \<Longrightarrow> walker_error e"
proof (induction t arbitrary: parent dec g)
  case (Leaf idx v cnt)
  then show ?case
    by (auto simp: Let_def split: sum.splits dest: leaf_label_error)
next
  case (Split sidx feat thr dt gain ival icount l r)
  then show ?case
    by (auto simp: Let_def decision_labels_def walker_error_def
        split: sum.splits prod.splits if_splits dest: split_label_error)
qed

lemma to_graphviz_not_out_of_range:
  "to_graphviz gv F ti si fn prec kw \<noteq> Inl (IndexError ''tree_index is out of range.'')"
proof
  assume a: "to_graphviz gv F ti si fn prec kw = Inl (IndexError ''tree_index is out of range.'')"
  then have "walker_error (IndexError ''tree_index is out of range.'')"
    by (auto simp: to_graphviz_def split: if_splits sum.splits dest: add_error)
  then show False by (simp add: walker_error_def)
qed

text \<open>
  C9. For a model of \<open>n\<close> trees and a tree index from \<open>-n\<close> to \<open>-1\<close>, the guard
  \<open>tree_index < n\<close> passes, the tree at position \<open>n + tree_index\<close> is the one handed to
  the walker, and the out-of-range error is not raised.
\<close>

theorem negative_tree_index:
  assumes "as_booster (booster a) = Inr b"
      and "- int (length (model_tree_info (dump_model b))) \<le> tree_index a"
      and "tree_index a \<le> - 1"
  shows "snd (create_tree_digraph gv F a) =
           to_graphviz gv F
             (model_tree_info (dump_model b) !
                nat (int (length (model_tree_info (dump_model b))) + tree_index a))
             (case show_info a of None \<Rightarrow> [] | Some si \<Rightarrow> si)
             (model_feature_names (dump_model b)) (precision a)
             (snd (fold_deprecated (digraph_locals a) digraph_old_names ([], kwargs a)))
       \<and> snd (create_tree_digraph gv F a) \<noteq> Inl (IndexError ''tree_index is out of range.'')"
proof -
  let ?ts = "model_tree_info (dump_model b)"
  have idx: "py_index ?ts (tree_index a) = Inr (?ts ! nat (int (length ?ts) + tree_index a))"
    using assms(2,3) by (simp add: py_index_def)
  have lt: "tree_index a < int (length ?ts)"
    using assms(3) by linarith
  obtain eff kw where f: "fold_deprecated (digraph_locals a) digraph_old_names ([], kwargs a) = (eff, kw)"
    by (cases "fold_deprecated (digraph_locals a) digraph_old_names ([], kwargs a)")
  have "snd (create_tree_digraph gv F a) =
      to_graphviz gv F (?ts ! nat (int (length ?ts) + tree_index a))
        (case show_info a of None \<Rightarrow> [] | Some si \<Rightarrow> si)
        (model_feature_names (dump_model b)) (precision a) kw"
    using assms(1) idx lt f
    by (simp add: create_tree_digraph_def fold_strict_id Let_def)
  then show ?thesis
    using f to_graphviz_not_out_of_range by simp
qed

text \<open>
  C4, as amended. Without matplotlib each of the four plotters raises its import error
  before anything else. The graphviz check is the first statement of the walker's
  wrapper \<open>_to_graphviz\<close>; \<open>create_tree_digraph\<close> reaches it only after the check of the
  booster type, the deprecated parameters and their warnings, the dump of the model and
  the check of the tree index, each of which raises first.
\<close>

theorem backend_checks:
  "plot_importance False F h opts ht it mnf iz prec kw =
     ([], Inl (ImportError ''You must install matplotlib to plot importance.''))
   \<and> plot_split_value_histogram False h feat bins opts wc kw =
     ([], Inl (ImportError ''You must install matplotlib to plot split value histogram.''))
   \<and> plot_metric False h m dn opts =
     ([], Inl (ImportError ''You must install matplotlib to plot metric.''))
   \<and> plot_tree False gv F h axs ti fs oga ona oea si prec kw =
     ([], Inl (ImportError ''You must install matplotlib to plot tree.''))
   \<and> to_graphviz False F tinfo infos fn prec kw =
     Inl (ImportError ''You must install graphviz to plot tree.'')
   \<and> create_tree_digraph False F a =
     (case as_booster (booster a) of
        Inl e \<Rightarrow> ([], Inl e)
      | Inr b \<Rightarrow>
          (fst (fold_deprecated (digraph_locals a) digraph_old_names ([], kwargs a)),
           if tree_index a < int (length (model_tree_info (dump_model b))) then
             (case py_index (model_tree_info (dump_model b)) (tree_index a) of
                Inl e \<Rightarrow> Inl e
              | Inr t \<Rightarrow> Inl (ImportError ''You must install graphviz to plot tree.''))
           else Inl (IndexError ''tree_index is out of range.'')))"
  by (simp add: plot_importance_def plot_split_value_histogram_def plot_metric_def plot_tree_def
      to_graphviz_def create_tree_digraph_def fold_strict_id Let_def
      split: sum.splits prod.splits)

lemma digraph_call_fold:
  "fold_deprecated (digraph_locals (digraph_call h ti si prec kw)) digraph_old_names st = st"
  by (rule fold_none)
    (simp add: digraph_old_names_def locals_get_def digraph_locals_def digraph_call_def)

lemma digraph_call_sel:
  "booster (digraph_call h ti si prec kw) = h"
  "tree_index (digraph_call h ti si prec kw) = ti"
  "show_info (digraph_call h ti si prec kw) = si"
  "precision (digraph_call h ti si prec kw) = prec"
  "kwargs (digraph_call h ti si prec kw) = kw"
  by (simp_all add: digraph_call_def)

text \<open>
  C4, as stated, fails: without graphviz, \<open>create_tree_digraph\<close> on an object that is no
  booster raises the type error, and on a tree index past the end the index error.
\<close>

theorem backend_checks_counterexample:
  "create_tree_digraph False fmt0 (digraph_call Other 0 None None []) =
     ([], Inl (TypeError ''booster must be Booster or LGBMModel.''))
   \<and> create_tree_digraph False fmt0 (digraph_call (Booster booster_abc) 1 None None []) =
     ([], Inl (IndexError ''tree_index is out of range.''))"
  by (simp add: create_tree_digraph_def digraph_call_fold fold_strict_id digraph_call_sel
      as_booster_def booster_abc_def)

theorem negative_tree_index_witness:
  "as_booster (booster (digraph_call (Booster booster_two) (- 1) None None [])) = Inr booster_two
   \<and> length (model_tree_info (dump_model booster_two)) = 2
   \<and> tree_index (digraph_call (Booster booster_two) (- 1) None None []) = - 1
   \<and> snd (create_tree_digraph True fmt0 (digraph_call (Booster booster_two) (- 1) None None [])) =
       Inr stump_digraph"
proof -
  let ?a = "digraph_call (Booster booster_two) (- 1) None None []"
  have b: "as_booster (booster ?a) = Inr booster_two"
    by (simp add: digraph_call_sel as_booster_def)
  have n: "length (model_tree_info (dump_model booster_two)) = 2"
    by (simp add: booster_two_def)
  have lo: "- int (length (model_tree_info (dump_model booster_two))) \<le> tree_index ?a"
    and hi: "tree_index ?a \<le> - 1"
    by (simp_all add: n digraph_call_sel)
  have "snd (create_tree_digraph True fmt0 ?a) = Inr stump_digraph"
    using negative_tree_index [OF b lo hi, of True fmt0] stump_graph
    by (simp add: digraph_call_sel digraph_call_fold booster_two_def)
  with b n show ?thesis
    by (simp add: digraph_call_sel)
qed

section \<open>Properties of the histogram\<close>
lemma centred_bins_length: "length (centred_bins bins) = length bins - 1"
  by (simp add: centred_bins_def)

lemma centred_bins_nth:
  assumes "i < length bins - 1"
  shows "centred_bins bins ! i = (bins ! i + bins ! (i + 1)) / 2"
proof -
  have "i < length (zip (butlast bins) (tl bins))"
    using assms by simp
  then show ?thesis
    using assms by (simp add: centred_bins_def nth_butlast nth_tl)
qed

lemma get_axes_no_bar: "Bar xs hs w kws \<notin> set (fst (get_axes a fs))"
  by (auto simp: get_axes_def split: option.splits sum.splits)

lemma set_labels_no_bar: "Bar xs hs w kws \<notin> set (set_labels t xl yl g)"
  by (auto simp: set_labels_def split: option.splits)

lemma histogram_Bar:
  assumes "Bar xs hs w kws \<in> set (fst (plot_split_value_histogram mpl h feature bins0 opts wc kw))"
      and "as_booster h = Inr b"
      and "get_split_value_histogram b feature bins0 = (hist, e)"
  shows "xs = centred_bins e \<and> hs = hist \<and> w = wc * (e ! 1 - e ! 0) \<and> kws = kw \<and> 2 \<le> length e"
proof -
  have nb: "Bar xs hs w kws \<notin> set eff1" if "get_axes (ax opts) (figsize opts) = (eff1, r)" for eff1 r
    using get_axes_no_bar [of xs hs w kws "ax opts" "figsize opts"] that by simp
  show ?thesis
    using assms nb set_labels_no_bar [of xs hs w kws]
    by (auto simp: plot_split_value_histogram_def Let_def np_index_def
        split: if_splits sum.splits prod.splits)
qed

lemma histogram_draws:
  assumes "as_booster h = Inr b"
      and "get_split_value_histogram b feature bins0 = (hist, e)"
      and "\<exists>c\<in>set hist. c \<noteq> 0"
      and "2 \<le> length e"
      and "get_axes (ax opts) (figsize opts) = (eff1, Inr x)"
  shows "Bar (centred_bins e) hist (wc * (e ! 1 - e ! 0)) kw
           \<in> set (fst (plot_split_value_histogram True h feature bins0 opts wc kw))"
proof -
  have "filter (\<lambda>c. c \<noteq> 0) hist \<noteq> []"
    using assms(3) by (simp add: filter_empty_conv)
  then show ?thesis
    using assms(1,2,4,5)
    by (auto simp: plot_split_value_histogram_def Let_def np_index_def
        split: sum.splits prod.splits)
qed

text \<open>
  C7. Whatever bar call \<open>plot_split_value_histogram\<close> makes for the bin edges \<open>e\<close> of the
  histogram: there is one x position per bin, the position of bin \<open>i\<close> is
  \<open>(e[i] + e[i+1]) / 2\<close>, the width of every bar is \<open>width_coef * (e[1] - e[0])\<close>, and
  the heights are the counts.
\<close>

theorem histogram_bars:
  assumes "as_booster h = Inr b"
      and "get_split_value_histogram b feature bins0 = (hist, e)"
      and "Bar xs hs w kws \<in> set (fst (plot_split_value_histogram mpl h feature bins0 opts width_coef kw))"
  shows "length xs = length e - 1
       \<and> (\<forall>i. i < length e - 1 \<longrightarrow> xs ! i = (e ! i + e ! (i + 1)) / 2)
       \<and> w = width_coef * (e ! 1 - e ! 0)
       \<and> hs = hist"
  using histogram_Bar [OF assms(3,1,2)] centred_bins_length [of e] centred_bins_nth [of _ e]
  by simp

lemma abc_title:
  "replace ''@index/name@'' ''index''
     (replace ''@feature@'' ''0'' ''Split value histogram for feature with @index/name@ @feature@'') =
   ''Split value histogram for feature with index 0''"
  by code_simp

lemma abc_histogram:
  "plot_split_value_histogram True (Booster booster_abc) (FeatureIndex 0) BinsNone histogram_defaults 0.8 [] =
     (abc_histogram_effects, Inr NewAxes)"
  by (simp add: plot_split_value_histogram_def as_booster_def booster_abc_def histogram_defaults_def
      np_index_def centred_bins_def get_axes_def range_or_default_def set_labels_def Let_def
      abc_title str_int_0 abc_histogram_effects_def)


theorem histogram_bars_witness:
  "as_booster (Booster booster_abc) = Inr booster_abc
   \<and> get_split_value_histogram booster_abc (FeatureIndex 0) BinsNone = ([1, 0, 2], [0, 1, 2, 3])
   \<and> plot_split_value_histogram True (Booster booster_abc) (FeatureIndex 0) BinsNone
         histogram_defaults 0.8 [] = (abc_histogram_effects, Inr NewAxes)
   \<and> Bar [1 / 2, 3 / 2, 5 / 2] [1, 0, 2] 0.8 [] \<in> set abc_histogram_effects
   \<and> length [1 / 2, 3 / 2, 5 / 2 :: real] = length [0, 1, 2, 3 :: real] - 1
   \<and> [1 / 2, 3 / 2, 5 / 2 :: real] ! 0 = ([0, 1, 2, 3] ! 0 + [0, 1, 2, 3] ! (0 + 1)) / 2
   \<and> [1 / 2, 3 / 2, 5 / 2 :: real] ! 2 = ([0, 1, 2, 3] ! 2 + [0, 1, 2, 3] ! (2 + 1)) / 2
   \<and> (0.8 :: real) = 0.8 * ([0, 1, 2, 3] ! 1 - [0, 1, 2, 3] ! 0)"
proof -
  have b: "as_booster (Booster booster_abc) = Inr booster_abc"
    by (simp add: as_booster_def)
  have h: "get_split_value_histogram booster_abc (FeatureIndex 0) BinsNone = ([1, 0, 2], [0, 1, 2, 3])"
    by (simp add: booster_abc_def)
  have bar: "Bar [1 / 2, 3 / 2, 5 / 2] [1, 0, 2] 0.8 []
      \<in> set (fst (plot_split_value_histogram True (Booster booster_abc) (FeatureIndex 0) BinsNone
                     histogram_defaults 0.8 []))"
    unfolding abc_histogram by (simp add: abc_histogram_effects_def)
  from histogram_bars [OF b h bar]
  have "length [1 / 2, 3 / 2, 5 / 2 :: real] = length [0, 1, 2, 3 :: real] - 1
      \<and> [1 / 2, 3 / 2, 5 / 2 :: real] ! 0 = ([0, 1, 2, 3] ! 0 + [0, 1, 2, 3] ! (0 + 1)) / 2
      \<and> [1 / 2, 3 / 2, 5 / 2 :: real] ! 2 = ([0, 1, 2, 3] ! 2 + [0, 1, 2, 3] ! (2 + 1)) / 2
      \<and> (0.8 :: real) = 0.8 * ([0, 1, 2, 3] ! 1 - [0, 1, 2, 3] ! 0)"
    by simp
  moreover have "Bar [1 / 2, 3 / 2, 5 / 2] [1, 0, 2] 0.8 [] \<in> set abc_histogram_effects"
    using bar unfolding abc_histogram by (simp only: fst_conv)
  ultimately show ?thesis
    using b h abc_histogram by blast
qed

section \<open>Properties of the metric chart\<close>

lemma plotted_simps:
  "plotted [] = []"
  "plotted (e # es) = plot_values e @ plotted es"
  by (simp_all add: plotted_def)

lemma series_simps:
  "series [] = []"
  "series (Plot xs ys name # es) = ys # series es"
  by (simp_all add: series_def)

lemma plotted_append: "plotted (xs @ ys) = plotted xs @ plotted ys"
  by (simp add: plotted_def)

lemma series_append: "series (xs @ ys) = series xs @ series ys"
  by (simp add: series_def)

lemma plotted_get_axes: "plotted (fst (get_axes a fs)) = []"
  by (auto simp: get_axes_def plotted_def split: option.splits sum.splits)

lemma series_get_axes: "series (fst (get_axes a fs)) = []"
  by (auto simp: get_axes_def series_def split: option.splits sum.splits)

lemma plotted_set_labels: "plotted (set_labels t xl yl g) = []"
  by (auto simp: set_labels_def plotted_def split: option.splits)

lemma plotted_choose_metric: "plotted (fst (choose_metric ev name m metric)) = []"
  by (auto simp: choose_metric_def plotted_def Let_def split: option.splits)

lemma series_choose_metric: "series (fst (choose_metric ev name m metric)) = []"
  by (auto simp: choose_metric_def series_def Let_def split: option.splits)

lemma plot_rest_Inr:
  assumes "plot_rest ev metric xr names (eff0, mx0, mn0) = (eff, Inr (mx, mn))"
      and "plotted eff0 \<noteq> []"
      and "mx0 = Max (set (plotted eff0))"
      and "mn0 = Min (set (plotted eff0))"
  shows "(\<exists>new. eff = eff0 @ new) \<and> mx = Max (set (plotted eff)) \<and> mn = Min (set (plotted eff))"
  using assms
proof (induction names arbitrary: eff0 mx0 mn0)
  case Nil
  then show ?case by auto
next
  case (Cons name names)
  from Cons.prems(1) obtain m results where
    m: "map_of ev name = Some m" and r: "map_of m metric = Some results" and ne: "results \<noteq> []"
    and rest: "plot_rest ev metric xr names
        (eff0 @ [Plot xr results name], max (Max (set results)) mx0, min (Min (set results)) mn0) =
        (eff, Inr (mx, mn))"
    by (auto split: option.splits if_splits)
  let ?eff1 = "eff0 @ [Plot xr results name]"
  have p: "plotted ?eff1 = plotted eff0 @ results"
    by (simp add: plotted_append plotted_simps)
  have 1: "plotted ?eff1 \<noteq> []" using ne p by simp
  have 2: "max (Max (set results)) mx0 = Max (set (plotted ?eff1))"
    using Cons.prems(2,3) ne by (simp add: p Max_Un max.commute)
  have 3: "min (Min (set results)) mn0 = Min (set (plotted ?eff1))"
    using Cons.prems(2,4) ne by (simp add: p Min_Un min.commute)
  from Cons.IH [OF rest 1 2 3] show ?case by auto
qed

lemma plot_labels_simps:
  "plot_labels [] = []"
  "plot_labels (e # es) = plot_label e @ plot_labels es"
  "plot_labels (xs @ ys) = plot_labels xs @ plot_labels ys"
  by (simp_all add: plot_labels_def)

lemma plot_labels_get_axes: "get_axes a fs = (eff, r) \<Longrightarrow> plot_labels eff = []"
  by (auto simp: get_axes_def plot_labels_def split: option.splits sum.splits)

lemma plot_labels_set_labels: "plot_labels (set_labels t xl yl g) = []"
  by (auto simp: set_labels_def plot_labels_def split: option.splits)

lemma plot_labels_choose_metric: "choose_metric ev name m metric = (eff, r) \<Longrightarrow> plot_labels eff = []"
  by (auto simp: choose_metric_def plot_labels_def Let_def split: option.splits if_splits)

lemma plot_rest_labels:
  "plot_rest ev metric xr names (eff0, mx0, mn0) = (eff, Inr r) \<Longrightarrow>
   plot_labels eff = plot_labels eff0 @ names"
proof (induction names arbitrary: eff0 mx0 mn0)
  case Nil
  then show ?case by auto
next
  case (Cons name names)
  from Cons.prems obtain results where
    "plot_rest ev metric xr names
        (eff0 @ [Plot xr results name], max (Max (set results)) mx0, min (Min (set results)) mn0) =
        (eff, Inr r)"
    by (auto split: option.splits if_splits)
  from Cons.IH [OF this] show ?case
    by (simp add: plot_labels_simps)
qed

lemma plot_metric_labels:
  assumes "plot_metric mpl h metric dn opts = (eff, Inr a)"
  shows "plot_labels eff = dataset_selection h dn"
proof -
  from assms obtain eval_results eff1 x names ms eff2 metric' results ev eff3 r rest where
    ax: "get_axes (ax opts) (figsize opts) = (eff1, Inr x)"
    and cm: "choose_metric eval_results (hd names) ms metric = (eff2, Inr (metric', results, ev))"
    and pr: "plot_rest ev metric' [0 ..< length results] (tl names)
               (eff1 @ eff2 @ [Plot [0 ..< length results] results (hd names)],
                Max (set results), Min (set results)) = (eff3, Inr r)"
    and eff: "eff = eff3 @ [Legend] @ rest"
    and rest: "plot_labels rest = []"
    and names: "names = dataset_selection h dn" "names \<noteq> []"
    by (auto simp: plot_metric_def Let_def range_or_default_def dataset_selection_def
        plot_labels_simps plot_labels_set_labels
        split: if_splits sum.splits prod.splits option.splits handle.splits names_arg.splits)
  have "plot_labels eff3 = plot_labels (eff1 @ eff2 @ [Plot [0 ..< length results] results (hd names)]) @ tl names"
    by (rule plot_rest_labels [OF pr])
  also have "\<dots> = hd names # tl names"
    using plot_labels_get_axes [OF ax] plot_labels_choose_metric [OF cm]
    by (simp add: plot_labels_simps)
  finally have "plot_labels eff3 = names"
    using names(2) by simp
  then show ?thesis
    using eff rest names(1) by (simp add: plot_labels_simps)
qed

lemma lines_simps:
  "lines [] = []"
  "lines (Plot xs ys name # es) = Plot xs ys name # lines es"
  "lines (xs' @ ys') = lines xs' @ lines ys'"
  by (simp_all add: lines_def)

lemma lines_get_axes: "get_axes a fs = (eff, r) \<Longrightarrow> lines eff = []"
  by (auto simp: get_axes_def lines_def split: option.splits sum.splits)

lemma lines_set_labels: "lines (set_labels t xl yl g) = []"
  by (auto simp: set_labels_def lines_def split: option.splits)

lemma lines_choose_metric: "choose_metric ev name m metric = (eff, r) \<Longrightarrow> lines eff = []"
  by (auto simp: choose_metric_def lines_def Let_def split: option.splits if_splits)

lemma plotted_lines: "plotted eff = concat (map plot_values (lines eff))"
proof (induction eff)
  case Nil
  show ?case by (simp add: plotted_def lines_def)
next
  case (Cons e eff)
  then show ?case by (cases e) (simp_all add: plotted_def lines_def)
qed

lemma series_lines: "series eff = map plot_values (lines eff)"
proof -
  have "(\<lambda>e. case e of Plot xs ys name \<Rightarrow> True | _ \<Rightarrow> False) = is_plot"
    by (rule ext) (simp split: effect.splits)
  then show ?thesis by (simp add: series_def lines_def)
qed

lemma map_of_butlast:
  "map_of (butlast ms) k = Some v \<Longrightarrow> map_of ms k = Some v"
proof (cases "ms = []")
  case True
  then show "map_of (butlast ms) k = Some v \<Longrightarrow> map_of ms k = Some v" by simp
next
  case False
  assume a: "map_of (butlast ms) k = Some v"
  have "map_of ms k = map_of (butlast ms @ [last ms]) k"
    using False by simp
  also have "\<dots> = Some v"
    using a by (simp only: map_of_append map_add_def) simp
  finally show "map_of ms k = Some v" .
qed

lemma map_of_pop_metric:
  "map_of (pop_metric ev n0) name =
     map_option (\<lambda>ms. if name = n0 then butlast ms else ms) (map_of ev name)"
  by (induction ev) (auto simp: pop_metric_def)

lemma metric_values_pop:
  "metric_values (pop_metric ev n0) name m = Some vs \<Longrightarrow> metric_values ev name m = Some vs"
  by (auto simp: metric_values_def map_of_pop_metric split: option.splits if_splits
      dest: map_of_butlast)

lemma choose_metric_chosen:
  "choose_metric ev name ms metric = (eff, Inr (m, vs, ev')) \<Longrightarrow>
   chosen ms metric = Some (m, vs) \<and> (ev' = ev \<or> ev' = pop_metric ev name)"
  by (cases metric) (auto simp: choose_metric_def Let_def split: if_splits option.splits)

lemma plot_rest_lines:
  "plot_rest ev m xr names (eff0, mx0, mn0) = (eff, Inr r) \<Longrightarrow>
   \<exists>new. eff = eff0 @ new \<and> lines new = new
     \<and> list_all2 (\<lambda>name e. \<exists>vs. e = Plot xr vs name \<and> metric_values ev name m = Some vs) names new"
proof (induction names arbitrary: eff0 mx0 mn0)
  case Nil
  then show ?case by (auto simp: lines_simps)
next
  case (Cons name names)
  from Cons.prems obtain ms results where
    ms: "map_of ev name = Some ms" and res: "map_of ms m = Some results"
    and rest: "plot_rest ev m xr names
        (eff0 @ [Plot xr results name], max (Max (set results)) mx0, min (Min (set results)) mn0) =
        (eff, Inr r)"
    by (auto split: option.splits if_splits)
  from Cons.IH [OF rest] obtain new where
    new: "eff = (eff0 @ [Plot xr results name]) @ new" "lines new = new"
      "list_all2 (\<lambda>name e. \<exists>vs. e = Plot xr vs name \<and> metric_values ev name m = Some vs) names new"
    by blast
  have mv: "metric_values ev name m = Some results"
    using ms res by (simp add: metric_values_def)
  have "eff = eff0 @ (Plot xr results name # new)"
    using new(1) by simp
  moreover have "lines (Plot xr results name # new) = Plot xr results name # new"
    using new(2) by (simp add: lines_simps)
  moreover have "list_all2 (\<lambda>name e. \<exists>vs. e = Plot xr vs name \<and> metric_values ev name m = Some vs)
      (name # names) (Plot xr results name # new)"
    using new(3) mv by simp
  ultimately show ?case by blast
qed

lemma plot_metric_success:
  assumes "plot_metric mpl h metric dn opts = (eff, Inr a)"
  shows "\<exists>eff1 x ms eff2 m results ev' eff3 mx mn xl yl.
      dataset_selection h dn \<noteq> []
    \<and> get_axes (ax opts) (figsize opts) = (eff1, Inr x)
    \<and> map_of (evals_of h) (hd (dataset_selection h dn)) = Some ms
    \<and> choose_metric (evals_of h) (hd (dataset_selection h dn)) ms metric = (eff2, Inr (m, results, ev'))
    \<and> results \<noteq> []
    \<and> plot_rest ev' m [0 ..< length results] (tl (dataset_selection h dn))
          (eff1 @ eff2 @ [Plot [0 ..< length results] results (hd (dataset_selection h dn))],
           Max (set results), Min (set results)) = (eff3, Inr (mx, mn))
    \<and> range_or_default (xlim opts) ''xlim'' [0, real (length results)] = Inr xl
    \<and> range_or_default (ylim opts) ''ylim''
          [mn - (mx - mn) * 0.2, mx + (mx - mn) * 0.2] = Inr yl
    \<and> eff = eff3 @ [Legend, Set_xlim xl, Set_ylim yl] @
            set_labels (title opts) (xlabel opts)
              (if ylabel opts = Some ''auto'' then Some m else ylabel opts) (grid opts)"
  using assms
  by (auto simp: plot_metric_def Let_def dataset_selection_def evals_of_def
      split: if_splits sum.splits prod.splits option.splits handle.splits names_arg.splits)

text \<open>
  C8. When \<open>plot_metric\<close> returns its axes, the lines it has plotted are, in order, one
  for each dataset asked for: the first carries the values of the chosen metric on the
  first dataset, every other the values the record holds for that metric on its dataset,
  all over the iterations \<open>0, ..., N - 1\<close> of the first. With no \<open>ylim\<close> given, and \<open>m\<close>
  and \<open>M\<close> the least and the greatest of all the values plotted, the y range set is
  \<open>(m - 0.2 * (M - m), M + 0.2 * (M - m))\<close>; with no \<open>xlim\<close> given the x range set is
  from \<open>0\<close> to the iteration count \<open>N\<close>.
\<close>

theorem metric_default_ranges:
  assumes "plot_metric mpl h metric dn opts = (eff, Inr a)"
  shows "\<exists>ms0 m vs0 rest.
       dataset_selection h dn \<noteq> []
     \<and> map_of (evals_of h) (hd (dataset_selection h dn)) = Some ms0
     \<and> chosen ms0 metric = Some (m, vs0)
     \<and> lines eff = Plot [0 ..< length vs0] vs0 (hd (dataset_selection h dn)) # rest
     \<and> list_all2 (\<lambda>name e. \<exists>vs. e = Plot [0 ..< length vs0] vs name
                                \<and> metric_values (evals_of h) name m = Some vs)
           (tl (dataset_selection h dn)) rest
     \<and> plot_labels eff = dataset_selection h dn
     \<and> plotted eff = concat (map plot_values (lines eff))
     \<and> plotted eff \<noteq> []
     \<and> (ylim opts = None \<longrightarrow>
           Set_ylim [Min (set (plotted eff)) - 0.2 * (Max (set (plotted eff)) - Min (set (plotted eff))),
                     Max (set (plotted eff)) + 0.2 * (Max (set (plotted eff)) - Min (set (plotted eff)))]
             \<in> set eff)
     \<and> (xlim opts = None \<longrightarrow> Set_xlim [0, real (length vs0)] \<in> set eff)"
proof -
  let ?names = "dataset_selection h dn"
  from plot_metric_success [OF assms] obtain eff1 x ms eff2 m results ev' eff3 mx mn xl yl where
    names: "?names \<noteq> []"
    and ax: "get_axes (ax opts) (figsize opts) = (eff1, Inr x)"
    and ms: "map_of (evals_of h) (hd ?names) = Some ms"
    and cm: "choose_metric (evals_of h) (hd ?names) ms metric = (eff2, Inr (m, results, ev'))"
    and ne: "results \<noteq> []"
    and pr: "plot_rest ev' m [0 ..< length results] (tl ?names)
          (eff1 @ eff2 @ [Plot [0 ..< length results] results (hd ?names)],
           Max (set results), Min (set results)) = (eff3, Inr (mx, mn))"
    and xl: "range_or_default (xlim opts) ''xlim'' [0, real (length results)] = Inr xl"
    and yl: "range_or_default (ylim opts) ''ylim''
          [mn - (mx - mn) * 0.2, mx + (mx - mn) * 0.2] = Inr yl"
    and eff: "eff = eff3 @ [Legend, Set_xlim xl, Set_ylim yl] @
            set_labels (title opts) (xlabel opts)
              (if ylabel opts = Some ''auto'' then Some m else ylabel opts) (grid opts)"
    by blast
  let ?eff0 = "eff1 @ eff2 @ [Plot [0 ..< length results] results (hd ?names)]"
  let ?lbls = "set_labels (title opts) (xlabel opts)
              (if ylabel opts = Some ''auto'' then Some m else ylabel opts) (grid opts)"
  from choose_metric_chosen [OF cm]
  have ch: "chosen ms metric = Some (m, results)"
    and ev': "ev' = evals_of h \<or> ev' = pop_metric (evals_of h) (hd ?names)"
    by simp_all
  from plot_rest_lines [OF pr] obtain new where
    eff3: "eff3 = ?eff0 @ new" and ln: "lines new = new"
    and all: "list_all2 (\<lambda>name e. \<exists>vs. e = Plot [0 ..< length results] vs name
                              \<and> metric_values ev' name m = Some vs) (tl ?names) new"
    by blast
  have mv: "metric_values (evals_of h) name m = Some vs"
    if "metric_values ev' name m = Some vs" for name vs
    using that ev' metric_values_pop by blast
  have all': "list_all2 (\<lambda>name e. \<exists>vs. e = Plot [0 ..< length results] vs name
                              \<and> metric_values (evals_of h) name m = Some vs) (tl ?names) new"
    using all by (rule list_all2_mono) (use mv in blast)
  have l0: "lines ?eff0 = [Plot [0 ..< length results] results (hd ?names)]"
    using lines_get_axes [OF ax] lines_choose_metric [OF cm] by (simp add: lines_simps)
  have l3: "lines eff3 = Plot [0 ..< length results] results (hd ?names) # new"
    unfolding eff3 using l0 ln by (simp only: lines_simps(3)) simp
  have lr: "lines ([Legend, Set_xlim xl, Set_ylim yl] @ ?lbls) = []"
    using lines_set_labels [of "title opts" "xlabel opts" _ "grid opts"]
    by (simp add: lines_def)
  have le: "lines eff = Plot [0 ..< length results] results (hd ?names) # new"
    unfolding eff using l3 lr by (simp only: lines_simps(3)) simp
  have p0: "plotted ?eff0 = results"
    using l0 by (simp add: plotted_lines)
  from plot_rest_Inr [OF pr] p0 ne
  have mx: "mx = Max (set (plotted eff3))" and mn: "mn = Min (set (plotted eff3))"
    by auto
  have pe: "plotted eff = plotted eff3"
    using le l3 by (simp add: plotted_lines)
  have pne: "plotted eff \<noteq> []"
    using le ne by (simp add: plotted_lines)
  have y: "Set_ylim [Min (set (plotted eff)) - 0.2 * (Max (set (plotted eff)) - Min (set (plotted eff))),
                     Max (set (plotted eff)) + 0.2 * (Max (set (plotted eff)) - Min (set (plotted eff)))]
             \<in> set eff" if "ylim opts = None"
  proof -
    from yl that have "yl = [mn - (mx - mn) * 0.2, mx + (mx - mn) * 0.2]"
      by (simp add: range_or_default_def)
    then have "Set_ylim [mn - (mx - mn) * 0.2, mx + (mx - mn) * 0.2] \<in> set eff"
      unfolding eff by simp
    then show ?thesis
      using mx mn pe by (simp add: mult.commute)
  qed
  have xr: "Set_xlim [0, real (length results)] \<in> set eff" if "xlim opts = None"
  proof -
    from xl that have "xl = [0, real (length results)]"
      by (simp add: range_or_default_def)
    then show ?thesis unfolding eff by simp
  qed
  have y': "ylim opts = None \<longrightarrow>
      Set_ylim [Min (set (plotted eff)) - 0.2 * (Max (set (plotted eff)) - Min (set (plotted eff))),
                Max (set (plotted eff)) + 0.2 * (Max (set (plotted eff)) - Min (set (plotted eff)))]
        \<in> set eff"
    using y by blast
  have xr': "xlim opts = None \<longrightarrow> Set_xlim [0, real (length results)] \<in> set eff"
    using xr by blast
  show ?thesis
    apply (rule exI [of _ ms])
    apply (rule exI [of _ m])
    apply (rule exI [of _ results])
    apply (rule exI [of _ new])
    using names ms ch le all' plot_metric_labels [OF assms] plotted_lines [of eff] pne y' xr'
    apply (intro conjI)
             apply assumption+
    done
qed

lemma train_metric:
  "plot_metric True (Dict evals_train) None None metric_defaults =
     ([Subplots None, Plot [0, 1, 2] [0.5, 0.3, 0.2] ''train'', Legend,
       Set_xlim [0, 3], Set_ylim [0.14, 0.56],
       Set_title ''Metric during training'', Set_xlabel ''Iterations'', Set_ylabel ''l2'',
       Grid True], Inr NewAxes)"
  by (simp add: plot_metric_def evals_train_def metric_defaults_def get_axes_def choose_metric_def
      pop_metric_def range_or_default_def set_labels_def Let_def eval_nat_numeral)

lemma two_metric:
  "plot_metric True (Dict evals_two) (Some ''l2'') None metric_defaults =
     (two_metric_effects, Inr NewAxes)"
  by (simp add: plot_metric_def evals_two_def metric_defaults_def get_axes_def choose_metric_def
      pop_metric_def range_or_default_def set_labels_def Let_def eval_nat_numeral
      two_metric_effects_def)


lemma two_metric_lines:
  "lines two_metric_effects =
     [Plot [0, 1, 2] [0.5, 0.3, 0.2] ''train'', Plot [0, 1, 2] [0.9, 0.6, 0.4] ''valid'']"
  by (simp add: lines_def two_metric_effects_def)

theorem metric_default_ranges_witness:
  "plot_metric True (Dict evals_two) (Some ''l2'') None metric_defaults = (two_metric_effects, Inr NewAxes)
   \<and> xlim metric_defaults = None \<and> ylim metric_defaults = None
   \<and> dataset_selection (Dict evals_two) None = [''train'', ''valid'']
   \<and> lines two_metric_effects =
        [Plot [0, 1, 2] [0.5, 0.3, 0.2] ''train'', Plot [0, 1, 2] [0.9, 0.6, 0.4] ''valid'']
   \<and> chosen [(''l2'', [0.5, 0.3, 0.2])] (Some ''l2'') = Some (''l2'', [0.5, 0.3, 0.2])
   \<and> metric_values (evals_of (Dict evals_two)) ''valid'' ''l2'' = Some [0.9, 0.6, 0.4]
   \<and> plotted two_metric_effects = [0.5, 0.3, 0.2, 0.9, 0.6, 0.4]
   \<and> Set_ylim [0.2 - 0.2 * (0.9 - 0.2), 0.9 + 0.2 * (0.9 - 0.2)] \<in> set two_metric_effects
   \<and> Set_xlim [0, 3] \<in> set two_metric_effects"
proof -
  have x: "xlim metric_defaults = None" and y: "ylim metric_defaults = None"
    by (simp_all add: metric_defaults_def)
  have p: "plotted two_metric_effects = [0.5, 0.3, 0.2, 0.9, 0.6, 0.4]"
    by (simp add: plotted_def two_metric_effects_def)
  have l: "dataset_selection (Dict evals_two) None = [''train'', ''valid'']"
    by (simp add: dataset_selection_def evals_two_def)
  have c: "chosen [(''l2'', [0.5, 0.3, 0.2])] (Some ''l2'') = Some (''l2'', [0.5, 0.3, 0.2])"
    by simp
  have v: "metric_values (evals_of (Dict evals_two)) ''valid'' ''l2'' = Some [0.9, 0.6, 0.4]"
    by (simp add: metric_values_def evals_of_def evals_two_def)
  from metric_default_ranges [OF two_metric] x y
  have "Set_ylim [0.2 - 0.2 * (0.9 - 0.2), 0.9 + 0.2 * (0.9 - 0.2)] \<in> set two_metric_effects
      \<and> Set_xlim [0, 3] \<in> set two_metric_effects"
    unfolding two_metric_lines p by auto
  then have sy: "Set_ylim [0.2 - 0.2 * (0.9 - 0.2), 0.9 + 0.2 * (0.9 - 0.2)] \<in> set two_metric_effects"
    and sx: "Set_xlim [0, 3] \<in> set two_metric_effects"
    by simp_all
  from two_metric x y l two_metric_lines c v p sx sy show ?thesis
    by blast
qed

section \<open>The order of validation and drawing\<close>

lemma check_error:
  "check_not_tuple_of_2_elements r nm = Inl e \<Longrightarrow> e = TypeError (nm @ '' must be a tuple of 2 elements.'')"
  by (auto simp: check_not_tuple_of_2_elements_def split: range_arg.splits if_splits)

lemma range_bad:
  "check_not_tuple_of_2_elements r nm = Inl e \<Longrightarrow> range_or_default (Some r) nm d = Inl e"
  by (simp add: range_or_default_def)

lemma range_error:
  "range_or_default g nm d = Inl e \<Longrightarrow> e = TypeError (nm @ '' must be a tuple of 2 elements.'')"
  by (auto simp: range_or_default_def split: option.splits sum.splits dest: check_error)

lemma range_default: "range_or_default None nm d = Inr d"
  by (simp add: range_or_default_def)

lemma get_axes_effects:
  "get_axes a fs = (eff, r) \<Longrightarrow> set eff \<subseteq> {Subplots fs}"
  by (auto simp: get_axes_def split: option.splits sum.splits)

lemma get_axes_bad_figsize:
  "check_not_tuple_of_2_elements fs ''figsize'' = Inl e \<Longrightarrow> get_axes None (Some fs) = ([], Inl e)"
  by (simp add: get_axes_def)

lemma get_axes_error:
  "get_axes a fs = (eff, Inl e) \<Longrightarrow> eff = [] \<and> e = TypeError ''figsize must be a tuple of 2 elements.''"
  by (auto simp: get_axes_def split: option.splits sum.splits dest: check_error)

lemma get_axes_no_ranges: "get_axes a fs = (eff, r) \<Longrightarrow> no_ranges eff"
  by (drule get_axes_effects) auto

lemma get_axes_created:
  "get_axes None fs = (eff, Inr x) \<Longrightarrow> eff = [Subplots fs] \<and> x = NewAxes"
  by (auto simp: get_axes_def split: option.splits sum.splits)

lemma set_labels_no_ranges: "no_ranges (set_labels t xl yl g)"
  by (auto simp: set_labels_def split: option.splits)

lemma importance_texts_effects:
  "importance_texts F it prec zs = (eff, r) \<Longrightarrow>
   no_ranges eff \<and> (\<forall>e. r = Inl e \<longrightarrow> e = ValueError ''Format specifier missing precision'')"
proof (induction zs arbitrary: eff r)
  case Nil
  then show ?case by auto
next
  case (Cons z zs)
  obtain v y where z: "z = (v, y)" by (cases z)
  obtain eff' r' where rec: "importance_texts F it prec zs = (eff', r')"
    by (cases "importance_texts F it prec zs")
  note ih = Cons.IH [OF rec]
  show ?case
  proof (cases "if it = ''gain''
            then (case float2str F (Num v) prec of Inl e \<Rightarrow> Inl e | Inr s \<Rightarrow> Inr (Str s))
            else Inr (Num v)")
    case (Inl e)
    then have "e = ValueError ''Format specifier missing precision''"
      by (auto simp: float2str_def split: if_splits sum.splits option.splits)
    with Inl Cons.prems show ?thesis
      unfolding z by auto
  next
    case (Inr s)
    with Cons.prems rec have "eff = Text (v + 1) y s # eff'" "r = r'"
      unfolding z by auto
    with ih show ?thesis by auto
  qed
qed

text \<open>
  A chart function either fails before it reaches its closing statements, whatever the
  ranges given, or reaches them with a log \<open>drawn\<close>. What follows for a malformed
  \<open>xlim\<close> and for a malformed \<open>ylim\<close>:
\<close>

lemma stage_xlim:
  assumes st: "(\<exists>eff e'. no_ranges eff
          \<and> e' \<noteq> TypeError ''xlim must be a tuple of 2 elements.''
          \<and> e' \<noteq> TypeError ''ylim must be a tuple of 2 elements.''
          \<and> (\<forall>xl yl. P xl yl = (eff, Inl e')))
      \<or> (\<exists>drawn mid lab x d1 d2. no_ranges drawn \<and> no_ranges mid \<and> no_ranges lab
          \<and> D drawn \<and> (\<forall>xr. D (drawn @ Set_xlim xr # mid))
          \<and> (\<forall>xl yl. P xl yl = set_ranges drawn mid lab x xl d1 yl d2))"
    and bad: "check_not_tuple_of_2_elements r ''xlim'' = Inl e"
  shows "(\<exists>e'. snd (P (Some r) yl) = Inl e')
       \<and> no_ranges (fst (P (Some r) yl))
       \<and> (Set_xlim v \<in> set (fst (P None yl)) \<longrightarrow>
            snd (P (Some r) yl) = Inl e
          \<and> (\<exists>rest. fst (P None yl) = fst (P (Some r) yl) @ Set_xlim v # rest))
       \<and> (snd (P (Some r) yl) = Inl e \<longrightarrow> D (fst (P (Some r) yl)))"
  using st
proof (elim disjE exE conjE)
  fix eff e'
  assume "no_ranges eff" "e' \<noteq> TypeError ''xlim must be a tuple of 2 elements.''"
    "\<forall>xl yl. P xl yl = (eff, Inl e')"
  then show ?thesis
    using check_error [OF bad] by simp
next
  fix drawn mid lab x d1 d2
  assume nr: "no_ranges drawn" "no_ranges mid" "no_ranges lab"
    and d: "D drawn"
    and p: "\<forall>xl yl. P xl yl = set_ranges drawn mid lab x xl d1 yl d2"
  have b: "P (Some r) yl = (drawn, Inl e)"
    using p by (simp add: set_ranges_def range_bad [OF bad])
  have g: "Set_xlim v \<in> set (fst (P None yl)) \<Longrightarrow> \<exists>rest. fst (P None yl) = drawn @ Set_xlim v # rest"
    using p nr by (auto simp: set_ranges_def range_default split: sum.splits)
  show ?thesis
    using b nr d g by simp
qed

lemma stage_ylim:
  assumes st: "(\<exists>eff e'. no_ranges eff
          \<and> e' \<noteq> TypeError ''xlim must be a tuple of 2 elements.''
          \<and> e' \<noteq> TypeError ''ylim must be a tuple of 2 elements.''
          \<and> (\<forall>xl yl. P xl yl = (eff, Inl e')))
      \<or> (\<exists>drawn mid lab x d1 d2. no_ranges drawn \<and> no_ranges mid \<and> no_ranges lab
          \<and> D drawn \<and> (\<forall>xr. D (drawn @ Set_xlim xr # mid))
          \<and> (\<forall>xl yl. P xl yl = set_ranges drawn mid lab x xl d1 yl d2))"
    and bad: "check_not_tuple_of_2_elements r ''ylim'' = Inl e"
  shows "(\<exists>e'. snd (P xl (Some r)) = Inl e')
       \<and> (\<forall>v. Set_ylim v \<notin> set (fst (P xl (Some r))))
       \<and> (Set_ylim v \<in> set (fst (P xl None)) \<longrightarrow>
            snd (P xl (Some r)) = Inl e
          \<and> (\<exists>rest. fst (P xl None) = fst (P xl (Some r)) @ Set_ylim v # rest))
       \<and> (snd (P xl (Some r)) = Inl e \<longrightarrow>
            D (fst (P xl (Some r))) \<and> (\<exists>xr. Set_xlim xr \<in> set (fst (P xl (Some r)))))"
  using st
proof (elim disjE exE conjE)
  fix eff e'
  assume "no_ranges eff" "e' \<noteq> TypeError ''ylim must be a tuple of 2 elements.''"
    "\<forall>xl yl. P xl yl = (eff, Inl e')"
  then show ?thesis
    using check_error [OF bad] by simp
next
  fix drawn mid lab x d1 d2
  assume nr: "no_ranges drawn" "no_ranges mid" "no_ranges lab"
    and d: "D drawn" "\<forall>xr. D (drawn @ Set_xlim xr # mid)"
    and p: "\<forall>xl yl. P xl yl = set_ranges drawn mid lab x xl d1 yl d2"
  have e: "e = TypeError ''ylim must be a tuple of 2 elements.''"
    using check_error [OF bad] by simp
  show ?thesis
  proof (cases "range_or_default xl ''xlim'' d1")
    case (Inl ex)
    then have "P xl (Some r) = (drawn, Inl ex)" "P xl None = (drawn, Inl ex)"
      using p by (simp_all add: set_ranges_def)
    moreover have "ex \<noteq> e"
      using range_error [OF Inl] e by simp
    ultimately show ?thesis
      using nr by simp
  next
    case (Inr xr)
    then have "P xl (Some r) = (drawn @ Set_xlim xr # mid, Inl e)"
      "P xl None = (drawn @ Set_xlim xr # mid @ Set_ylim d2 # lab, Inr x)"
      using p by (simp_all add: set_ranges_def range_bad [OF bad] range_default)
    then show ?thesis
      using nr d by auto
  qed
qed

lemma importance_stages:
  "(\<exists>eff e'. no_ranges eff
          \<and> e' \<noteq> TypeError ''xlim must be a tuple of 2 elements.''
          \<and> e' \<noteq> TypeError ''ylim must be a tuple of 2 elements.''
          \<and> (\<forall>xl yl. plot_importance True F h (opts\<lparr>xlim := xl, ylim := yl\<rparr>) ht it mnf iz prec kw
                = (eff, Inl e')))
      \<or> (\<exists>drawn mid lab x d1 d2. no_ranges drawn \<and> no_ranges mid \<and> no_ranges lab
          \<and> (\<exists>ylocs vals. Barh ylocs vals ht kw \<in> set drawn)
          \<and> (\<forall>xr. \<exists>ylocs vals. Barh ylocs vals ht kw \<in> set (drawn @ Set_xlim xr # mid))
          \<and> (\<forall>xl yl. plot_importance True F h (opts\<lparr>xlim := xl, ylim := yl\<rparr>) ht it mnf iz prec kw
                = set_ranges drawn mid lab x xl d1 yl d2))"
  (is "?early \<or> ?late")
proof (cases "as_booster h")
  case (Inl e)
  then have "e = TypeError ''booster must be Booster or LGBMModel.''"
    by (auto simp: as_booster_def split: handle.splits)
  then have ?early
    using Inl by (simp add: plot_importance_def)
  then show ?thesis ..
next
  case b: (Inr b)
  show ?thesis
  proof (cases "feature_importance b it = []")
    case True
    then have ?early
      using b by (simp add: plot_importance_def)
    then show ?thesis ..
  next
    case ne: False
    show ?thesis
    proof (cases "unzip_pairs (importance_tuples (feature_name b) (feature_importance b it) iz mnf)")
      case (Inl e)
      then have "e = ValueError ''not enough values to unpack (expected 2, got 0)''"
        by (auto simp: unzip_pairs_def split: if_splits)
      then have ?early
        using b ne Inl by (simp add: plot_importance_def)
      then show ?thesis ..
    next
      case (Inr lv)
      obtain labels vals where lv: "lv = (labels, vals)" by (cases lv)
      note u = Inr [unfolded lv]
      obtain eff1 r1 where ga: "get_axes (ax opts) (figsize opts) = (eff1, r1)"
        by (cases "get_axes (ax opts) (figsize opts)")
      show ?thesis
      proof (cases r1)
        case (Inl e)
        from get_axes_error [OF ga [unfolded Inl]] have "eff1 = []"
          "e = TypeError ''figsize must be a tuple of 2 elements.''"
          by simp_all
        then have ?early
          using b ne u ga Inl by (simp add: plot_importance_def)
        then show ?thesis ..
      next
        case x: (Inr x)
        obtain eff_texts rt where
          it: "importance_texts F it prec (zip vals [0 ..< length vals]) = (eff_texts, rt)"
          by (cases "importance_texts F it prec (zip vals [0 ..< length vals])")
        note te = importance_texts_effects [OF it]
        note nr1 = get_axes_no_ranges [OF ga]
        show ?thesis
        proof (cases rt)
          case (Inl e)
          with te have "e = ValueError ''Format specifier missing precision''"
            by simp
          then have ?early
            using b ne u ga x it Inl te nr1 by (simp add: plot_importance_def Let_def)
          then show ?thesis ..
        next
          case (Inr u')
          let ?drawn = "eff1 @ [Barh [0 ..< length vals] vals ht kw] @ eff_texts @
                          [Set_yticks [0 ..< length vals], Set_yticklabels labels]"
          have 1: "no_ranges ?drawn"
            using te nr1 by simp
          have 2: "\<forall>xl yl. plot_importance True F h (opts\<lparr>xlim := xl, ylim := yl\<rparr>) ht it mnf iz prec kw
                = set_ranges ?drawn [] (set_labels (title opts) (xlabel opts) (ylabel opts) (grid opts))
                    x xl [0, Max (set vals) * 1.1] yl [- 1, real (length vals)]"
            using b ne u ga x it Inr
            by (simp add: plot_importance_def Let_def set_ranges_def split: sum.splits)
          have ?late
            apply (rule exI [of _ ?drawn])
            apply (rule exI [of _ "[]"])
            apply (rule exI [of _ "set_labels (title opts) (xlabel opts) (ylabel opts) (grid opts)"])
            apply (rule exI [of _ x])
            apply (rule exI [of _ "[0, Max (set vals) * 1.1]"])
            apply (rule exI [of _ "[- 1, real (length vals)]"])
            using 1 2 set_labels_no_ranges [of "title opts" "xlabel opts" "ylabel opts" "grid opts"]
            apply simp
            apply blast
            done
          then show ?thesis ..
        qed
      qed
    qed
  qed
qed


lemma histogram_stages:
  "(\<exists>eff e'. no_ranges eff
          \<and> e' \<noteq> TypeError ''xlim must be a tuple of 2 elements.''
          \<and> e' \<noteq> TypeError ''ylim must be a tuple of 2 elements.''
          \<and> (\<forall>xl yl. plot_split_value_histogram True h feat bins0 (opts\<lparr>xlim := xl, ylim := yl\<rparr>) wc kw
                = (eff, Inl e')))
      \<or> (\<exists>drawn mid lab x d1 d2. no_ranges drawn \<and> no_ranges mid \<and> no_ranges lab
          \<and> (\<exists>centres counts w. Bar centres counts w kw \<in> set drawn)
          \<and> (\<forall>xr. \<exists>centres counts w. Bar centres counts w kw \<in> set (drawn @ Set_xlim xr # mid))
          \<and> (\<forall>xl yl. plot_split_value_histogram True h feat bins0 (opts\<lparr>xlim := xl, ylim := yl\<rparr>) wc kw
                = set_ranges drawn mid lab x xl d1 yl d2))"
  (is "?early \<or> ?late")
proof (cases "as_booster h")
  case (Inl e)
  then have "e = TypeError ''booster must be Booster or LGBMModel.''"
    by (auto simp: as_booster_def split: handle.splits)
  then have ?early
    using Inl by (simp add: plot_split_value_histogram_def)
  then show ?thesis ..
next
  case b: (Inr b)
  obtain hist bins where hb: "get_split_value_histogram b feat bins0 = (hist, bins)"
    by (cases "get_split_value_histogram b feat bins0")
  show ?thesis
  proof (cases "length (filter (\<lambda>c. c \<noteq> 0) hist) = 0")
    case True
    then have ?early
      using b hb by (simp add: plot_split_value_histogram_def)
    then show ?thesis ..
  next
    case nz: False
    show ?thesis
    proof (cases "np_index bins 1")
      case (Inl e)
      then have "\<exists>s. e = IndexError s"
        by (auto simp: np_index_def split: if_splits)
      then have ?early
        using b hb nz Inl by (auto simp: plot_split_value_histogram_def)
      then show ?thesis ..
    next
      case b1: (Inr b1)
      show ?thesis
      proof (cases "np_index bins 0")
        case (Inl e)
        then have "\<exists>s. e = IndexError s"
          by (auto simp: np_index_def split: if_splits)
        then have ?early
          using b hb nz b1 Inl by (auto simp: plot_split_value_histogram_def)
        then show ?thesis ..
      next
        case b0: (Inr b0)
        obtain eff1 r1 where ga: "get_axes (ax opts) (figsize opts) = (eff1, r1)"
          by (cases "get_axes (ax opts) (figsize opts)")
        show ?thesis
        proof (cases r1)
          case (Inl e)
          from get_axes_error [OF ga [unfolded Inl]] have "eff1 = []"
            "e = TypeError ''figsize must be a tuple of 2 elements.''"
            by simp_all
          then have ?early
            using b hb nz b1 b0 ga Inl by (simp add: plot_split_value_histogram_def Let_def)
          then show ?thesis ..
        next
          case x: (Inr x)
          note nr1 = get_axes_no_ranges [OF ga]
          let ?drawn = "eff1 @ [Bar (centred_bins bins) hist (wc * (b1 - b0)) kw]"
          let ?lab = "set_labels
                        (map_option
                           (\<lambda>t. replace ''@index/name@'' (feature_kind feat)
                                  (replace ''@feature@'' (str_feature feat) t))
                           (title opts))
                        (xlabel opts) (ylabel opts) (grid opts)"
          have 1: "no_ranges ?drawn"
            using nr1 by simp
          have 2: "\<forall>xl yl. plot_split_value_histogram True h feat bins0 (opts\<lparr>xlim := xl, ylim := yl\<rparr>) wc kw
                = set_ranges ?drawn [Set_major_locator] ?lab x xl
                    [b0 - (last bins - b0) * 0.2, last bins + (last bins - b0) * 0.2]
                    yl [0, real_of_int (Max (set hist)) * 1.1]"
            using b hb nz b1 b0 ga x
            by (simp add: plot_split_value_histogram_def Let_def set_ranges_def split: sum.splits)
          have ?late
            apply (rule exI [of _ ?drawn])
            apply (rule exI [of _ "[Set_major_locator]"])
            apply (rule exI [of _ ?lab])
            apply (rule exI [of _ x])
            apply (rule exI [of _ "[b0 - (last bins - b0) * 0.2, last bins + (last bins - b0) * 0.2]"])
            apply (rule exI [of _ "[0, real_of_int (Max (set hist)) * 1.1]"])
            using 1 2 set_labels_no_ranges [of _ "xlabel opts" "ylabel opts" "grid opts"]
            apply simp
            apply blast
            done
          then show ?thesis ..
        qed
      qed
    qed
  qed
qed

lemma plot_rest_effects:
  "plot_rest ev metric xr names (eff0, mx0, mn0) = (eff, res) \<Longrightarrow>
   \<exists>new. eff = eff0 @ new \<and> (\<forall>x\<in>set new. \<exists>xs ys nm. x = Plot xs ys nm)"
proof (induction names arbitrary: eff0 mx0 mn0)
  case Nil
  then show ?case by auto
next
  case (Cons name names)
  show ?case
  proof (cases "\<exists>m results. map_of ev name = Some m \<and> map_of m metric = Some results \<and> results \<noteq> []")
    case True
    then obtain m results where
      "map_of ev name = Some m" "map_of m metric = Some results" "results \<noteq> []"
      by blast
    with Cons.prems have "plot_rest ev metric xr names
        (eff0 @ [Plot xr results name], max (Max (set results)) mx0, min (Min (set results)) mn0) =
        (eff, res)"
      by simp
    from Cons.IH [OF this] obtain new where
      "eff = (eff0 @ [Plot xr results name]) @ new" "\<forall>x\<in>set new. \<exists>xs ys nm. x = Plot xs ys nm"
      by blast
    then have "eff = eff0 @ (Plot xr results name # new)
        \<and> (\<forall>x\<in>set (Plot xr results name # new). \<exists>xs ys nm. x = Plot xs ys nm)"
      by simp
    then show ?thesis by blast
  next
    case False
    with Cons.prems have "eff = eff0"
      by (auto split: option.splits if_splits)
    then show ?thesis by simp
  qed
qed

lemma plot_rest_no_ranges:
  "plot_rest ev metric xr names (eff0, mx0, mn0) = (eff, res) \<Longrightarrow> no_ranges eff0 \<Longrightarrow> no_ranges eff"
  by (drule plot_rest_effects) fastforce

lemma plot_rest_error:
  "plot_rest ev metric xr names (eff0, mx0, mn0) = (eff, Inl e) \<Longrightarrow>
   (\<exists>s. e = KeyError s) \<or> (\<exists>s. e = ValueError s)"
  by (induction names arbitrary: eff0 mx0 mn0) (auto split: option.splits if_splits)

lemma choose_metric_no_ranges:
  "choose_metric ev name ms metric = (eff, res) \<Longrightarrow> no_ranges eff"
  by (auto simp: choose_metric_def Let_def split: option.splits if_splits)

lemma choose_metric_error:
  "choose_metric ev name ms metric = (eff, Inl e) \<Longrightarrow> \<exists>s. e = KeyError s"
  by (auto simp: choose_metric_def Let_def split: option.splits if_splits)

lemma metric_stages:
  "(\<exists>eff e'. no_ranges eff
          \<and> e' \<noteq> TypeError ''xlim must be a tuple of 2 elements.''
          \<and> e' \<noteq> TypeError ''ylim must be a tuple of 2 elements.''
          \<and> (\<forall>xl yl. plot_metric True h m dn (opts\<lparr>xlim := xl, ylim := yl\<rparr>) = (eff, Inl e')))
      \<or> (\<exists>drawn mid lab x d1 d2. no_ranges drawn \<and> no_ranges mid \<and> no_ranges lab
          \<and> (Legend \<in> set drawn \<and> plot_labels drawn = dataset_selection h dn)
          \<and> (\<forall>xr. Legend \<in> set (drawn @ Set_xlim xr # mid)
                 \<and> plot_labels (drawn @ Set_xlim xr # mid) = dataset_selection h dn)
          \<and> (\<forall>xl yl. plot_metric True h m dn (opts\<lparr>xlim := xl, ylim := yl\<rparr>)
                = set_ranges drawn mid lab x xl d1 yl d2))"
  (is "?early \<or> ?late")
proof (cases "case h of LGBMModel b ev \<Rightarrow> Inr ev | Dict ev \<Rightarrow> Inr ev
                | _ \<Rightarrow> Inl (TypeError ''booster must be dict or LGBMModel.'')")
  case (Inl e)
  then have "e = TypeError ''booster must be dict or LGBMModel.''"
    by (auto split: handle.splits)
  then have ?early
    using Inl by (simp add: plot_metric_def)
  then show ?thesis ..
next
  case ev: (Inr ev)
  show ?thesis
  proof (cases "ev = []")
    case True
    then have ?early
      using ev by (simp add: plot_metric_def)
    then show ?thesis ..
  next
    case ne: False
    obtain eff1 r1 where ga: "get_axes (ax opts) (figsize opts) = (eff1, r1)"
      by (cases "get_axes (ax opts) (figsize opts)")
    note nr1 = get_axes_no_ranges [OF ga]
    show ?thesis
    proof (cases r1)
      case (Inl e)
      from get_axes_error [OF ga [unfolded Inl]] have "eff1 = []"
        "e = TypeError ''figsize must be a tuple of 2 elements.''"
        by simp_all
      then have ?early
        using ev ne ga Inl by (simp add: plot_metric_def)
      then show ?thesis ..
    next
      case x: (Inr x)
      show ?thesis
      proof (cases "case dn of
                             None \<Rightarrow> Inr (map fst ev)
                           | Some NotNames \<Rightarrow>
                               Inl (ValueError ''dataset_names should be iterable and cannot be empty'')
                           | Some (Names ns) \<Rightarrow>
                               if ns = [] then
                                 Inl (ValueError ''dataset_names should be iterable and cannot be empty'')
                               else Inr ns")
        case (Inl e)
        then have "e = ValueError ''dataset_names should be iterable and cannot be empty''"
          by (auto split: option.splits names_arg.splits if_splits)
        then have ?early
          using ev ne ga x Inl nr1 by (simp add: plot_metric_def)
        then show ?thesis ..
      next
        case names: (Inr names)
        have sel: "names = dataset_selection h dn" and nn: "names \<noteq> []"
          using names ev ne
          by (auto simp: dataset_selection_def
              split: option.splits names_arg.splits if_splits handle.splits)
        show ?thesis
        proof (cases "map_of ev (hd names)")
          case None
          then have ?early
            using ev ne ga x names nr1 by (simp add: plot_metric_def Let_def)
          then show ?thesis ..
        next
          case ms: (Some ms)
          obtain eff2 r2 where cm: "choose_metric ev (hd names) ms m = (eff2, r2)"
            by (cases "choose_metric ev (hd names) ms m")
          note nr2 = choose_metric_no_ranges [OF cm]
          show ?thesis
          proof (cases r2)
            case (Inl e)
            from choose_metric_error [OF cm [unfolded Inl]] have "\<exists>s. e = KeyError s" .
            then have ?early
              using ev ne ga x names ms cm Inl nr1 nr2 by (auto simp: plot_metric_def Let_def)
            then show ?thesis ..
          next
            case (Inr triple)
            obtain metric results ev' where t: "triple = (metric, results, ev')"
              by (cases triple)
            note cm' = cm [unfolded Inr t]
            show ?thesis
            proof (cases "results = []")
              case True
              then have ?early
                using ev ne ga x names ms cm' nr1 nr2 by (simp add: plot_metric_def Let_def)
              then show ?thesis ..
            next
              case rne: False
              let ?eff0 = "eff1 @ eff2 @ [Plot [0 ..< length results] results (hd names)]"
              obtain eff3 r3 where pr: "plot_rest ev' metric [0 ..< length results] (tl names)
                    (?eff0, Max (set results), Min (set results)) = (eff3, r3)"
                by (cases "plot_rest ev' metric [0 ..< length results] (tl names)
                    (?eff0, Max (set results), Min (set results))")
              have nr0: "no_ranges ?eff0"
                using nr1 nr2 by simp
              note nr3 = plot_rest_no_ranges [OF pr nr0]
              show ?thesis
              proof (cases r3)
                case (Inl e)
                from plot_rest_error [OF pr [unfolded Inl]]
                have "(\<exists>s. e = KeyError s) \<or> (\<exists>s. e = ValueError s)" .
                then have ?early
                  using ev ne ga x names ms cm' rne pr Inl nr3
                  by (auto simp: plot_metric_def Let_def)
                then show ?thesis ..
              next
                case (Inr mm)
                obtain mx mn where mm: "mm = (mx, mn)" by (cases mm)
                note pr' = pr [unfolded Inr mm]
                let ?drawn = "eff3 @ [Legend]"
                let ?lab = "set_labels (title opts) (xlabel opts)
                              (if ylabel opts = Some ''auto'' then Some metric else ylabel opts)
                              (grid opts)"
                have "plot_labels eff3 = plot_labels ?eff0 @ tl names"
                  by (rule plot_rest_labels [OF pr'])
                also have "\<dots> = hd names # tl names"
                  using plot_labels_get_axes [OF ga] plot_labels_choose_metric [OF cm]
                  by (simp add: plot_labels_simps)
                finally have l3: "plot_labels eff3 = dataset_selection h dn"
                  using nn sel by simp
                have 1: "no_ranges ?drawn"
                  using nr3 by simp
                have 2: "\<forall>xl yl. plot_metric True h m dn (opts\<lparr>xlim := xl, ylim := yl\<rparr>)
                    = set_ranges ?drawn [] ?lab x xl [0, real (length results)]
                        yl [mn - (mx - mn) * 0.2, mx + (mx - mn) * 0.2]"
                  using ev ne ga x names ms cm' rne pr'
                  by (simp add: plot_metric_def Let_def set_ranges_def split: sum.splits)
                have 3: "plot_labels ?drawn = dataset_selection h dn"
                  "\<forall>xr. plot_labels (?drawn @ [Set_xlim xr]) = dataset_selection h dn"
                  using l3 by (simp_all add: plot_labels_simps)
                have ?late
                  apply (rule exI [of _ ?drawn])
                  apply (rule exI [of _ "[]"])
                  apply (rule exI [of _ ?lab])
                  apply (rule exI [of _ x])
                  apply (rule exI [of _ "[0, real (length results)]"])
                  apply (rule exI [of _ "[mn - (mx - mn) * 0.2, mx + (mx - mn) * 0.2]"])
                  using 1 2 3 set_labels_no_ranges [of "title opts" "xlabel opts" _ "grid opts"]
                  apply simp
                  done
                then show ?thesis ..
              qed
            qed
          qed
        qed
      qed
    qed
  qed
qed

lemma opts_own_xlim: "xlim opts = Some r \<Longrightarrow> opts\<lparr>xlim := Some r, ylim := ylim opts\<rparr> = opts"
  by (cases opts) simp

lemma opts_own_ylim: "ylim opts = Some r \<Longrightarrow> opts\<lparr>xlim := xlim opts, ylim := Some r\<rparr> = opts"
  by (cases opts) simp

lemma opts_no_xlim: "opts\<lparr>xlim := None, ylim := ylim opts\<rparr> = opts\<lparr>xlim := None\<rparr>"
  by (cases opts) simp

lemma opts_no_ylim: "opts\<lparr>xlim := xlim opts, ylim := None\<rparr> = opts\<lparr>ylim := None\<rparr>"
  by (cases opts) simp

lemma importance_handle:
  "as_booster h = Inl e \<Longrightarrow> plot_importance True F h opts ht it mnf iz prec kw = ([], Inl e)"
  by (simp add: plot_importance_def)

lemma histogram_handle:
  "as_booster h = Inl e \<Longrightarrow> plot_split_value_histogram True h feat bins opts wc kw = ([], Inl e)"
  by (simp add: plot_split_value_histogram_def)

lemma digraph_handle:
  "as_booster (booster a) = Inl e \<Longrightarrow> create_tree_digraph gv F a = ([], Inl e)"
  by (simp add: create_tree_digraph_def)

lemma metric_handle:
  "plot_metric True (Booster b) m dn opts = ([], Inl (TypeError ''booster must be dict or LGBMModel.''))"
  "plot_metric True Other m dn opts = ([], Inl (TypeError ''booster must be dict or LGBMModel.''))"
  by (simp_all add: plot_metric_def)

lemma forward_kwargs_booster: "forward_kwargs h ti si prec kw = Inr args \<Longrightarrow> booster args = h"
  by (auto simp: forward_kwargs_def split: if_splits)

lemma tree_handle:
  assumes "as_booster h = Inl e"
    and "forward_kwargs h ti si prec
           (snd (fold_deprecated (tree_locals oga ona oea)
                   [''old_graph_attr'', ''old_node_attr'', ''old_edge_attr''] ([], kw0))) = Inr args"
  shows "plot_tree True gv F h None ti None oga ona oea si prec kw0 =
           (fst (fold_deprecated (tree_locals oga ona oea)
                   [''old_graph_attr'', ''old_node_attr'', ''old_edge_attr''] ([], kw0)) @ [Subplots None],
            Inl e)"
proof -
  obtain eff1 kw where fd: "fold_deprecated (tree_locals oga ona oea)
      [''old_graph_attr'', ''old_node_attr'', ''old_edge_attr''] ([], kw0) = (eff1, kw)"
    by (cases "fold_deprecated (tree_locals oga ona oea)
      [''old_graph_attr'', ''old_node_attr'', ''old_edge_attr''] ([], kw0)")
  from assms(2) [unfolded fd] have fk: "forward_kwargs h ti si prec kw = Inr args"
    by simp
  have "create_tree_digraph gv F args = ([], Inl e)"
    using digraph_handle [of args e gv F] assms(1) forward_kwargs_booster [OF fk] by simp
  then show ?thesis
    by (simp add: plot_tree_def fd fk get_axes_def del: fold_deprecated.simps)
qed

lemma tree_figsize:
  assumes "check_not_tuple_of_2_elements fs ''figsize'' = Inl e"
  shows "plot_tree True gv F h None ti (Some fs) oga ona oea si prec kw0 =
           (fst (fold_deprecated (tree_locals oga ona oea)
                   [''old_graph_attr'', ''old_node_attr'', ''old_edge_attr''] ([], kw0)),
            Inl e)
       \<and> (\<forall>f. Subplots f \<notin> set (fst (fold_deprecated (tree_locals oga ona oea)
                   [''old_graph_attr'', ''old_node_attr'', ''old_edge_attr''] ([], kw0))))"
proof -
  obtain eff1 kw where fd: "fold_deprecated (tree_locals oga ona oea)
      [''old_graph_attr'', ''old_node_attr'', ''old_edge_attr''] ([], kw0) = (eff1, kw)"
    by (cases "fold_deprecated (tree_locals oga ona oea)
      [''old_graph_attr'', ''old_node_attr'', ''old_edge_attr''] ([], kw0)")
  have 1: "plot_tree True gv F h None ti (Some fs) oga ona oea si prec kw0 = (eff1, Inl e)"
    by (simp add: plot_tree_def fd get_axes_bad_figsize [OF assms] del: fold_deprecated.simps)
  have "\<forall>f. Subplots f \<notin> set (fst (fold_deprecated (tree_locals oga ona oea)
                   [''old_graph_attr'', ''old_node_attr'', ''old_edge_attr''] ([], kw0)))"
    unfolding fold_deprecated_warnings by auto
  with 1 fd show ?thesis by simp
qed

lemma importance_pre:
  "(\<exists>e'. \<forall>opts. plot_importance True F h opts ht it mnf iz prec kw = ([], Inl e'))
   \<or> (\<forall>opts eff e. get_axes (ax opts) (figsize opts) = (eff, Inl e) \<longrightarrow>
         plot_importance True F h opts ht it mnf iz prec kw = (eff, Inl e))"
  by (auto simp: plot_importance_def Let_def split: sum.splits)

lemma histogram_pre:
  "(\<exists>e'. \<forall>opts. plot_split_value_histogram True h feat bins opts wc kw = ([], Inl e'))
   \<or> (\<forall>opts eff e. get_axes (ax opts) (figsize opts) = (eff, Inl e) \<longrightarrow>
         plot_split_value_histogram True h feat bins opts wc kw = (eff, Inl e))"
  by (auto simp: plot_split_value_histogram_def Let_def split: sum.splits prod.splits)

lemma metric_pre:
  "(\<exists>e'. \<forall>opts. plot_metric True h m dn opts = ([], Inl e'))
   \<or> (\<forall>opts eff e. get_axes (ax opts) (figsize opts) = (eff, Inl e) \<longrightarrow>
         plot_metric True h m dn opts = (eff, Inl e))"
  by (auto simp: plot_metric_def Let_def split: sum.splits handle.splits)

lemma pre_figsize:
  assumes pre: "(\<exists>e'. \<forall>opts. P opts = ([], Inl e'))
      \<or> (\<forall>opts eff e. get_axes (ax opts) (figsize opts) = (eff, Inl e) \<longrightarrow> P opts = (eff, Inl e))"
    and "ax opts = None" "figsize opts = Some fs"
    and bad: "check_not_tuple_of_2_elements fs ''figsize'' = Inl e"
  shows "fst (P opts) = [] \<and> (\<exists>e'. snd (P opts) = Inl e')
       \<and> (Subplots None \<in> set (fst (P (opts\<lparr>figsize := None\<rparr>))) \<longrightarrow> P opts = ([], Inl e))"
proof -
  have ga: "get_axes (ax opts) (figsize opts) = ([], Inl e)"
    using assms(2,3) get_axes_bad_figsize [OF bad] by simp
  from pre show ?thesis
  proof
    assume "\<exists>e'. \<forall>opts. P opts = ([], Inl e')"
    then show ?thesis by auto
  next
    assume "\<forall>opts eff e. get_axes (ax opts) (figsize opts) = (eff, Inl e) \<longrightarrow> P opts = (eff, Inl e)"
    with ga have "P opts = ([], Inl e)" by blast
    then show ?thesis by simp
  qed
qed

lemma metric_bad_names:
  assumes "dn = Some NotNames \<or> dn = Some (Names [])"
  shows "(\<exists>e'. snd (plot_metric True h m dn opts) = Inl e')
       \<and> set (fst (plot_metric True h m dn opts)) \<subseteq> {Subplots (figsize opts)}
       \<and> (evals_of h \<noteq> [] \<and> get_axes (ax opts) (figsize opts) = (eff1, Inr x) \<longrightarrow>
            plot_metric True h m dn opts =
              (eff1, Inl (ValueError ''dataset_names should be iterable and cannot be empty''))
          \<and> (ax opts = None \<longrightarrow> eff1 = [Subplots (figsize opts)]))"
  using assms
  by (auto simp: plot_metric_def Let_def evals_of_def
      split: if_splits sum.splits prod.splits handle.splits
      dest: get_axes_effects get_axes_created)

lemma importance_xlim:
  assumes "xlim opts = Some r" "check_not_tuple_of_2_elements r ''xlim'' = Inl e"
  shows "(\<exists>e'. snd (plot_importance True F h opts ht it mnf iz prec kw) = Inl e')
       \<and> (\<forall>v. Set_xlim v \<notin> set (fst (plot_importance True F h opts ht it mnf iz prec kw))
              \<and> Set_ylim v \<notin> set (fst (plot_importance True F h opts ht it mnf iz prec kw)))
       \<and> (Set_xlim v \<in> set (fst (plot_importance True F h (opts\<lparr>xlim := None\<rparr>) ht it mnf iz prec kw)) \<longrightarrow>
            snd (plot_importance True F h opts ht it mnf iz prec kw) = Inl e
          \<and> (\<exists>rest. fst (plot_importance True F h (opts\<lparr>xlim := None\<rparr>) ht it mnf iz prec kw) =
                 fst (plot_importance True F h opts ht it mnf iz prec kw) @ Set_xlim v # rest))
       \<and> (snd (plot_importance True F h opts ht it mnf iz prec kw) = Inl e \<longrightarrow>
            (\<exists>ylocs vals. Barh ylocs vals ht kw \<in> set (fst (plot_importance True F h opts ht it mnf iz prec kw))))"
  using stage_xlim [where P = "\<lambda>xl yl. plot_importance True F h (opts\<lparr>xlim := xl, ylim := yl\<rparr>) ht it mnf iz prec kw"
      and D = "\<lambda>eff. \<exists>ylocs vals. Barh ylocs vals ht kw \<in> set eff",
      OF importance_stages assms(2), of "ylim opts" v]
  unfolding opts_own_xlim [OF assms(1)] opts_no_xlim .

lemma importance_ylim:
  assumes "ylim opts = Some r" "check_not_tuple_of_2_elements r ''ylim'' = Inl e"
  shows "(\<exists>e'. snd (plot_importance True F h opts ht it mnf iz prec kw) = Inl e')
       \<and> (\<forall>v. Set_ylim v \<notin> set (fst (plot_importance True F h opts ht it mnf iz prec kw)))
       \<and> (Set_ylim v \<in> set (fst (plot_importance True F h (opts\<lparr>ylim := None\<rparr>) ht it mnf iz prec kw)) \<longrightarrow>
            snd (plot_importance True F h opts ht it mnf iz prec kw) = Inl e
          \<and> (\<exists>rest. fst (plot_importance True F h (opts\<lparr>ylim := None\<rparr>) ht it mnf iz prec kw) =
                 fst (plot_importance True F h opts ht it mnf iz prec kw) @ Set_ylim v # rest))
       \<and> (snd (plot_importance True F h opts ht it mnf iz prec kw) = Inl e \<longrightarrow>
            (\<exists>ylocs vals. Barh ylocs vals ht kw \<in> set (fst (plot_importance True F h opts ht it mnf iz prec kw)))
          \<and> (\<exists>xr. Set_xlim xr \<in> set (fst (plot_importance True F h opts ht it mnf iz prec kw))))"
  using stage_ylim [where P = "\<lambda>xl yl. plot_importance True F h (opts\<lparr>xlim := xl, ylim := yl\<rparr>) ht it mnf iz prec kw"
      and D = "\<lambda>eff. \<exists>ylocs vals. Barh ylocs vals ht kw \<in> set eff",
      OF importance_stages assms(2), of "xlim opts" v]
  unfolding opts_own_ylim [OF assms(1)] opts_no_ylim .

lemma histogram_xlim:
  assumes "xlim opts = Some r" "check_not_tuple_of_2_elements r ''xlim'' = Inl e"
  shows "(\<exists>e'. snd (plot_split_value_histogram True h feat bins opts wc kw) = Inl e')
       \<and> (\<forall>v. Set_xlim v \<notin> set (fst (plot_split_value_histogram True h feat bins opts wc kw))
              \<and> Set_ylim v \<notin> set (fst (plot_split_value_histogram True h feat bins opts wc kw)))
       \<and> (Set_xlim v \<in> set (fst (plot_split_value_histogram True h feat bins (opts\<lparr>xlim := None\<rparr>) wc kw)) \<longrightarrow>
            snd (plot_split_value_histogram True h feat bins opts wc kw) = Inl e
          \<and> (\<exists>rest. fst (plot_split_value_histogram True h feat bins (opts\<lparr>xlim := None\<rparr>) wc kw) =
                 fst (plot_split_value_histogram True h feat bins opts wc kw) @ Set_xlim v # rest))
       \<and> (snd (plot_split_value_histogram True h feat bins opts wc kw) = Inl e \<longrightarrow>
            (\<exists>centres counts w. Bar centres counts w kw
                \<in> set (fst (plot_split_value_histogram True h feat bins opts wc kw))))"
  using stage_xlim [where P = "\<lambda>xl yl. plot_split_value_histogram True h feat bins (opts\<lparr>xlim := xl, ylim := yl\<rparr>) wc kw"
      and D = "\<lambda>eff. \<exists>centres counts w. Bar centres counts w kw \<in> set eff",
      OF histogram_stages assms(2), of "ylim opts" v]
  unfolding opts_own_xlim [OF assms(1)] opts_no_xlim .

lemma histogram_ylim:
  assumes "ylim opts = Some r" "check_not_tuple_of_2_elements r ''ylim'' = Inl e"
  shows "(\<exists>e'. snd (plot_split_value_histogram True h feat bins opts wc kw) = Inl e')
       \<and> (\<forall>v. Set_ylim v \<notin> set (fst (plot_split_value_histogram True h feat bins opts wc kw)))
       \<and> (Set_ylim v \<in> set (fst (plot_split_value_histogram True h feat bins (opts\<lparr>ylim := None\<rparr>) wc kw)) \<longrightarrow>
            snd (plot_split_value_histogram True h feat bins opts wc kw) = Inl e
          \<and> (\<exists>rest. fst (plot_split_value_histogram True h feat bins (opts\<lparr>ylim := None\<rparr>) wc kw) =
                 fst (plot_split_value_histogram True h feat bins opts wc kw) @ Set_ylim v # rest))
       \<and> (snd (plot_split_value_histogram True h feat bins opts wc kw) = Inl e \<longrightarrow>
            (\<exists>centres counts w. Bar centres counts w kw
                \<in> set (fst (plot_split_value_histogram True h feat bins opts wc kw)))
          \<and> (\<exists>xr. Set_xlim xr \<in> set (fst (plot_split_value_histogram True h feat bins opts wc kw))))"
  using stage_ylim [where P = "\<lambda>xl yl. plot_split_value_histogram True h feat bins (opts\<lparr>xlim := xl, ylim := yl\<rparr>) wc kw"
      and D = "\<lambda>eff. \<exists>centres counts w. Bar centres counts w kw \<in> set eff",
      OF histogram_stages assms(2), of "xlim opts" v]
  unfolding opts_own_ylim [OF assms(1)] opts_no_ylim .

lemma metric_xlim:
  assumes "xlim opts = Some r" "check_not_tuple_of_2_elements r ''xlim'' = Inl e"
  shows "(\<exists>e'. snd (plot_metric True h m dn opts) = Inl e')
       \<and> (\<forall>v. Set_xlim v \<notin> set (fst (plot_metric True h m dn opts))
              \<and> Set_ylim v \<notin> set (fst (plot_metric True h m dn opts)))
       \<and> (Set_xlim v \<in> set (fst (plot_metric True h m dn (opts\<lparr>xlim := None\<rparr>))) \<longrightarrow>
            snd (plot_metric True h m dn opts) = Inl e
          \<and> (\<exists>rest. fst (plot_metric True h m dn (opts\<lparr>xlim := None\<rparr>)) =
                 fst (plot_metric True h m dn opts) @ Set_xlim v # rest))
       \<and> (snd (plot_metric True h m dn opts) = Inl e \<longrightarrow>
            Legend \<in> set (fst (plot_metric True h m dn opts))
          \<and> plot_labels (fst (plot_metric True h m dn opts)) = dataset_selection h dn)"
  using stage_xlim [where P = "\<lambda>xl yl. plot_metric True h m dn (opts\<lparr>xlim := xl, ylim := yl\<rparr>)"
      and D = "\<lambda>eff. Legend \<in> set eff \<and> plot_labels eff = dataset_selection h dn",
      OF metric_stages assms(2), of "ylim opts" v]
  unfolding opts_own_xlim [OF assms(1)] opts_no_xlim .

lemma metric_ylim:
  assumes "ylim opts = Some r" "check_not_tuple_of_2_elements r ''ylim'' = Inl e"
  shows "(\<exists>e'. snd (plot_metric True h m dn opts) = Inl e')
       \<and> (\<forall>v. Set_ylim v \<notin> set (fst (plot_metric True h m dn opts)))
       \<and> (Set_ylim v \<in> set (fst (plot_metric True h m dn (opts\<lparr>ylim := None\<rparr>))) \<longrightarrow>
            snd (plot_metric True h m dn opts) = Inl e
          \<and> (\<exists>rest. fst (plot_metric True h m dn (opts\<lparr>ylim := None\<rparr>)) =
                 fst (plot_metric True h m dn opts) @ Set_ylim v # rest))
       \<and> (snd (plot_metric True h m dn opts) = Inl e \<longrightarrow>
            (Legend \<in> set (fst (plot_metric True h m dn opts))
             \<and> plot_labels (fst (plot_metric True h m dn opts)) = dataset_selection h dn)
          \<and> (\<exists>xr. Set_xlim xr \<in> set (fst (plot_metric True h m dn opts))))"
  using stage_ylim [where P = "\<lambda>xl yl. plot_metric True h m dn (opts\<lparr>xlim := xl, ylim := yl\<rparr>)"
      and D = "\<lambda>eff. Legend \<in> set eff \<and> plot_labels eff = dataset_selection h dn",
      OF metric_stages assms(2), of "xlim opts" v]
  unfolding opts_own_ylim [OF assms(1)] opts_no_ylim .

lemma importance_figsize:
  assumes "ax opts = None" "figsize opts = Some fs" "check_not_tuple_of_2_elements fs ''figsize'' = Inl e"
  shows "fst (plot_importance True F h opts ht it mnf iz prec kw) = []
       \<and> (\<exists>e'. snd (plot_importance True F h opts ht it mnf iz prec kw) = Inl e')
       \<and> (Subplots None \<in> set (fst (plot_importance True F h (opts\<lparr>figsize := None\<rparr>) ht it mnf iz prec kw)) \<longrightarrow>
            plot_importance True F h opts ht it mnf iz prec kw = ([], Inl e))"
  by (rule pre_figsize [where P = "\<lambda>opts. plot_importance True F h opts ht it mnf iz prec kw",
        OF importance_pre assms])

lemma histogram_figsize:
  assumes "ax opts = None" "figsize opts = Some fs" "check_not_tuple_of_2_elements fs ''figsize'' = Inl e"
  shows "fst (plot_split_value_histogram True h feat bins opts wc kw) = []
       \<and> (\<exists>e'. snd (plot_split_value_histogram True h feat bins opts wc kw) = Inl e')
       \<and> (Subplots None \<in> set (fst (plot_split_value_histogram True h feat bins (opts\<lparr>figsize := None\<rparr>) wc kw)) \<longrightarrow>
            plot_split_value_histogram True h feat bins opts wc kw = ([], Inl e))"
  by (rule pre_figsize [where P = "\<lambda>opts. plot_split_value_histogram True h feat bins opts wc kw",
        OF histogram_pre assms])

lemma metric_figsize:
  assumes "ax opts = None" "figsize opts = Some fs" "check_not_tuple_of_2_elements fs ''figsize'' = Inl e"
  shows "fst (plot_metric True h m dn opts) = []
       \<and> (\<exists>e'. snd (plot_metric True h m dn opts) = Inl e')
       \<and> (Subplots None \<in> set (fst (plot_metric True h m dn (opts\<lparr>figsize := None\<rparr>))) \<longrightarrow>
            plot_metric True h m dn opts = ([], Inl e))"
  by (rule pre_figsize [where P = "\<lambda>opts. plot_metric True h m dn opts", OF metric_pre assms])

text \<open>
  C5, as amended. A validation error is raised before the argument it validates is used,
  not before every rendering effect.

  \<^item> An object of an unsupported type is rejected with no effect at all by
    \<open>plot_importance\<close>, \<open>plot_split_value_histogram\<close>, \<open>plot_metric\<close> and
    \<open>create_tree_digraph\<close>; \<open>plot_tree\<close> with no axes and no \<open>figsize\<close> rejects it
    through \<open>create_tree_digraph\<close>, after its deprecation warnings and after the plot
    surface has been created.
  \<^item> A malformed \<open>figsize\<close> with no axes given: each of the three chart functions fails
    with an empty log, and raises the \<open>figsize\<close> error itself whenever the same call with
    the default \<open>figsize\<close> creates a surface; \<open>plot_tree\<close> raises it after its deprecation
    warnings only, with no surface created.
  \<^item> A malformed \<open>xlim\<close>: each of the three chart functions fails and sets neither range.
    Whenever the same call with the default \<open>xlim\<close> sets the x range, the call raises the
    \<open>xlim\<close> error and its log is the log of that call up to, and without, the setting of
    the x range. When the \<open>xlim\<close> error is raised the bars have been drawn
    (\<open>plot_importance\<close>, \<open>plot_split_value_histogram\<close>), or one line for each dataset asked
    for and the legend (\<open>plot_metric\<close>).
  \<^item> A malformed \<open>ylim\<close>: the same with the y range, which is never set; when the \<open>ylim\<close>
    error is raised the x range has been set as well.
  \<^item> A \<open>dataset_names\<close> that is empty or not a list, tuple or set: \<open>plot_metric\<close> fails
    having done at most the creation of the surface; with a non-empty evaluation record
    and the axes obtained it raises the \<open>dataset_names\<close> error after exactly the effects
    of obtaining the axes, which with no axes given is the creation of the surface.
\<close>

theorem validation_order:
  "(as_booster h = Inl e \<longrightarrow>
       plot_importance True F h opts ht it mnf iz prec kw = ([], Inl e)
     \<and> plot_split_value_histogram True h feat bins opts wc kw = ([], Inl e)
     \<and> create_tree_digraph gv F (a\<lparr>booster := h\<rparr>) = ([], Inl e)
     \<and> (forward_kwargs h ti si prec
           (snd (fold_deprecated (tree_locals oga ona oea)
                   [''old_graph_attr'', ''old_node_attr'', ''old_edge_attr''] ([], kw0))) = Inr args \<longrightarrow>
         plot_tree True gv F h None ti None oga ona oea si prec kw0 =
           (fst (fold_deprecated (tree_locals oga ona oea)
                   [''old_graph_attr'', ''old_node_attr'', ''old_edge_attr''] ([], kw0)) @ [Subplots None],
            Inl e)))
   \<and> plot_metric True (Booster b) m dn opts = ([], Inl (TypeError ''booster must be dict or LGBMModel.''))
   \<and> plot_metric True Other m dn opts = ([], Inl (TypeError ''booster must be dict or LGBMModel.''))
   \<and> (ax opts = None \<and> figsize opts = Some fs \<and> check_not_tuple_of_2_elements fs ''figsize'' = Inl e \<longrightarrow>
         (fst (plot_importance True F h opts ht it mnf iz prec kw) = []
          \<and> (\<exists>e'. snd (plot_importance True F h opts ht it mnf iz prec kw) = Inl e')
          \<and> (Subplots None \<in> set (fst (plot_importance True F h (opts\<lparr>figsize := None\<rparr>) ht it mnf iz prec kw)) \<longrightarrow>
               plot_importance True F h opts ht it mnf iz prec kw = ([], Inl e)))
       \<and> (fst (plot_split_value_histogram True h feat bins opts wc kw) = []
          \<and> (\<exists>e'. snd (plot_split_value_histogram True h feat bins opts wc kw) = Inl e')
          \<and> (Subplots None \<in> set (fst (plot_split_value_histogram True h feat bins (opts\<lparr>figsize := None\<rparr>) wc kw)) \<longrightarrow>
               plot_split_value_histogram True h feat bins opts wc kw = ([], Inl e)))
       \<and> (fst (plot_metric True h m dn opts) = []
          \<and> (\<exists>e'. snd (plot_metric True h m dn opts) = Inl e')
          \<and> (Subplots None \<in> set (fst (plot_metric True h m dn (opts\<lparr>figsize := None\<rparr>))) \<longrightarrow>
               plot_metric True h m dn opts = ([], Inl e)))
       \<and> (plot_tree True gv F h None ti (Some fs) oga ona oea si prec kw0 =
            (fst (fold_deprecated (tree_locals oga ona oea)
                    [''old_graph_attr'', ''old_node_attr'', ''old_edge_attr''] ([], kw0)),
             Inl e)
          \<and> (\<forall>f. Subplots f \<notin> set (fst (fold_deprecated (tree_locals oga ona oea)
                    [''old_graph_attr'', ''old_node_attr'', ''old_edge_attr''] ([], kw0))))))
   \<and> (xlim opts = Some r \<and> check_not_tuple_of_2_elements r ''xlim'' = Inl e \<longrightarrow>
         ((\<exists>e'. snd (plot_importance True F h opts ht it mnf iz prec kw) = Inl e')
          \<and> (\<forall>v. Set_xlim v \<notin> set (fst (plot_importance True F h opts ht it mnf iz prec kw))
                 \<and> Set_ylim v \<notin> set (fst (plot_importance True F h opts ht it mnf iz prec kw)))
          \<and> (Set_xlim v \<in> set (fst (plot_importance True F h (opts\<lparr>xlim := None\<rparr>) ht it mnf iz prec kw)) \<longrightarrow>
               snd (plot_importance True F h opts ht it mnf iz prec kw) = Inl e
             \<and> (\<exists>rest. fst (plot_importance True F h (opts\<lparr>xlim := None\<rparr>) ht it mnf iz prec kw) =
                    fst (plot_importance True F h opts ht it mnf iz prec kw) @ Set_xlim v # rest))
          \<and> (snd (plot_importance True F h opts ht it mnf iz prec kw) = Inl e \<longrightarrow>
               (\<exists>ylocs vals. Barh ylocs vals ht kw \<in> set (fst (plot_importance True F h opts ht it mnf iz prec kw)))))
       \<and> ((\<exists>e'. snd (plot_split_value_histogram True h feat bins opts wc kw) = Inl e')
          \<and> (\<forall>v. Set_xlim v \<notin> set (fst (plot_split_value_histogram True h feat bins opts wc kw))
                 \<and> Set_ylim v \<notin> set (fst (plot_split_value_histogram True h feat bins opts wc kw)))
          \<and> (Set_xlim v \<in> set (fst (plot_split_value_histogram True h feat bins (opts\<lparr>xlim := None\<rparr>) wc kw)) \<longrightarrow>
               snd (plot_split_value_histogram True h feat bins opts wc kw) = Inl e
             \<and> (\<exists>rest. fst (plot_split_value_histogram True h feat bins (opts\<lparr>xlim := None\<rparr>) wc kw) =
                    fst (plot_split_value_histogram True h feat bins opts wc kw) @ Set_xlim v # rest))
          \<and> (snd (plot_split_value_histogram True h feat bins opts wc kw) = Inl e \<longrightarrow>
               (\<exists>centres counts w. Bar centres counts w kw
                   \<in> set (fst (plot_split_value_histogram True h feat bins opts wc kw)))))
       \<and> ((\<exists>e'. snd (plot_metric True h m dn opts) = Inl e')
          \<and> (\<forall>v. Set_xlim v \<notin> set (fst (plot_metric True h m dn opts))
                 \<and> Set_ylim v \<notin> set (fst (plot_metric True h m dn opts)))
          \<and> (Set_xlim v \<in> set (fst (plot_metric True h m dn (opts\<lparr>xlim := None\<rparr>))) \<longrightarrow>
               snd (plot_metric True h m dn opts) = Inl e
             \<and> (\<exists>rest. fst (plot_metric True h m dn (opts\<lparr>xlim := None\<rparr>)) =
                    fst (plot_metric True h m dn opts) @ Set_xlim v # rest))
          \<and> (snd (plot_metric True h m dn opts) = Inl e \<longrightarrow>
               Legend \<in> set (fst (plot_metric True h m dn opts))
             \<and> plot_labels (fst (plot_metric True h m dn opts)) = dataset_selection h dn)))
   \<and> (ylim opts = Some r \<and> check_not_tuple_of_2_elements r ''ylim'' = Inl e \<longrightarrow>
         ((\<exists>e'. snd (plot_importance True F h opts ht it mnf iz prec kw) = Inl e')
          \<and> (\<forall>v. Set_ylim v \<notin> set (fst (plot_importance True F h opts ht it mnf iz prec kw)))
          \<and> (Set_ylim v \<in> set (fst (plot_importance True F h (opts\<lparr>ylim := None\<rparr>) ht it mnf iz prec kw)) \<longrightarrow>
               snd (plot_importance True F h opts ht it mnf iz prec kw) = Inl e
             \<and> (\<exists>rest. fst (plot_importance True F h (opts\<lparr>ylim := None\<rparr>) ht it mnf iz prec kw) =
                    fst (plot_importance True F h opts ht it mnf iz prec kw) @ Set_ylim v # rest))
          \<and> (snd (plot_importance True F h opts ht it mnf iz prec kw) = Inl e \<longrightarrow>
               (\<exists>ylocs vals. Barh ylocs vals ht kw \<in> set (fst (plot_importance True F h opts ht it mnf iz prec kw)))
             \<and> (\<exists>xr. Set_xlim xr \<in> set (fst (plot_importance True F h opts ht it mnf iz prec kw)))))
       \<and> ((\<exists>e'. snd (plot_split_value_histogram True h feat bins opts wc kw) = Inl e')
          \<and> (\<forall>v. Set_ylim v \<notin> set (fst (plot_split_value_histogram True h feat bins opts wc kw)))
          \<and> (Set_ylim v \<in> set (fst (plot_split_value_histogram True h feat bins (opts\<lparr>ylim := None\<rparr>) wc kw)) \<longrightarrow>
               snd (plot_split_value_histogram True h feat bins opts wc kw) = Inl e
             \<and> (\<exists>rest. fst (plot_split_value_histogram True h feat bins (opts\<lparr>ylim := None\<rparr>) wc kw) =
                    fst (plot_split_value_histogram True h feat bins opts wc kw) @ Set_ylim v # rest))
          \<and> (snd (plot_split_value_histogram True h feat bins opts wc kw) = Inl e \<longrightarrow>
               (\<exists>centres counts w. Bar centres counts w kw
                   \<in> set (fst (plot_split_value_histogram True h feat bins opts wc kw)))
             \<and> (\<exists>xr. Set_xlim xr \<in> set (fst (plot_split_value_histogram True h feat bins opts wc kw)))))
       \<and> ((\<exists>e'. snd (plot_metric True h m dn opts) = Inl e')
          \<and> (\<forall>v. Set_ylim v \<notin> set (fst (plot_metric True h m dn opts)))
          \<and> (Set_ylim v \<in> set (fst (plot_metric True h m dn (opts\<lparr>ylim := None\<rparr>))) \<longrightarrow>
               snd (plot_metric True h m dn opts) = Inl e
             \<and> (\<exists>rest. fst (plot_metric True h m dn (opts\<lparr>ylim := None\<rparr>)) =
                    fst (plot_metric True h m dn opts) @ Set_ylim v # rest))
          \<and> (snd (plot_metric True h m dn opts) = Inl e \<longrightarrow>
               (Legend \<in> set (fst (plot_metric True h m dn opts))
                \<and> plot_labels (fst (plot_metric True h m dn opts)) = dataset_selection h dn)
             \<and> (\<exists>xr. Set_xlim xr \<in> set (fst (plot_metric True h m dn opts))))))
   \<and> (dn = Some NotNames \<or> dn = Some (Names []) \<longrightarrow>
         (\<exists>e'. snd (plot_metric True h m dn opts) = Inl e')
       \<and> set (fst (plot_metric True h m dn opts)) \<subseteq> {Subplots (figsize opts)}
       \<and> (evals_of h \<noteq> [] \<and> get_axes (ax opts) (figsize opts) = (eff1, Inr x) \<longrightarrow>
            plot_metric True h m dn opts =
              (eff1, Inl (ValueError ''dataset_names should be iterable and cannot be empty''))
          \<and> (ax opts = None \<longrightarrow> eff1 = [Subplots (figsize opts)])))"
proof -
  have handle: "as_booster h = Inl e \<longrightarrow>
       plot_importance True F h opts ht it mnf iz prec kw = ([], Inl e)
     \<and> plot_split_value_histogram True h feat bins opts wc kw = ([], Inl e)
     \<and> create_tree_digraph gv F (a\<lparr>booster := h\<rparr>) = ([], Inl e)
     \<and> (forward_kwargs h ti si prec
           (snd (fold_deprecated (tree_locals oga ona oea)
                   [''old_graph_attr'', ''old_node_attr'', ''old_edge_attr''] ([], kw0))) = Inr args \<longrightarrow>
         plot_tree True gv F h None ti None oga ona oea si prec kw0 =
           (fst (fold_deprecated (tree_locals oga ona oea)
                   [''old_graph_attr'', ''old_node_attr'', ''old_edge_attr''] ([], kw0)) @ [Subplots None],
            Inl e))"
  proof (intro impI conjI)
    assume hb: "as_booster h = Inl e"
    show "plot_importance True F h opts ht it mnf iz prec kw = ([], Inl e)"
      by (rule importance_handle [OF hb])
    show "plot_split_value_histogram True h feat bins opts wc kw = ([], Inl e)"
      by (rule histogram_handle [OF hb])
    show "create_tree_digraph gv F (a\<lparr>booster := h\<rparr>) = ([], Inl e)"
      by (rule digraph_handle) (simp add: hb)
    assume fk: "forward_kwargs h ti si prec
           (snd (fold_deprecated (tree_locals oga ona oea)
                   [''old_graph_attr'', ''old_node_attr'', ''old_edge_attr''] ([], kw0))) = Inr args"
    show "plot_tree True gv F h None ti None oga ona oea si prec kw0 =
           (fst (fold_deprecated (tree_locals oga ona oea)
                   [''old_graph_attr'', ''old_node_attr'', ''old_edge_attr''] ([], kw0)) @ [Subplots None],
            Inl e)"
      by (rule tree_handle [OF hb fk])
  qed
  show ?thesis
    apply (rule conjI, rule handle)
    apply (rule conjI, rule metric_handle(1))
    apply (rule conjI, rule metric_handle(2))
    apply (rule conjI)
     apply (rule impI, elim conjE)
     apply (rule conjI, erule (2) importance_figsize)
     apply (rule conjI, erule (2) histogram_figsize)
     apply (rule conjI, erule (2) metric_figsize)
     apply (erule tree_figsize)
    apply (rule conjI)
     apply (rule impI, elim conjE)
     apply (rule conjI, erule (1) importance_xlim)
     apply (rule conjI, erule (1) histogram_xlim)
     apply (erule (1) metric_xlim)
    apply (rule conjI)
     apply (rule impI, elim conjE)
     apply (rule conjI, erule (1) importance_ylim)
     apply (rule conjI, erule (1) histogram_ylim)
     apply (erule (1) metric_ylim)
    apply (rule impI)
    apply (erule metric_bad_names)
    done
qed

text \<open>
  C5, as stated, fails: \<open>plot_importance\<close> has drawn the bar and its text when it rejects
  a malformed \<open>xlim\<close>, and \<open>plot_metric\<close> with no axes has created the plot surface when it
  rejects an empty \<open>dataset_names\<close>.
\<close>

theorem validation_order_counterexample:
  "plot_importance True fmt0 (Booster booster_abc) (importance_defaults\<lparr>xlim := Some NonTuple\<rparr>)
       0.2 ''split'' (Some 1) True None [] =
     ([Subplots None, Barh [0] [10] 0.2 [], Text 11 0 (Num 10), Set_yticks [0],
       Set_yticklabels [''C'']],
      Inl (TypeError ''xlim must be a tuple of 2 elements.''))
   \<and> plot_metric True (Dict evals_train) None (Some (Names [])) metric_defaults =
     ([Subplots None], Inl (ValueError ''dataset_names should be iterable and cannot be empty''))"
  by (simp add: plot_importance_def as_booster_def booster_abc_def importance_defaults_def
      importance_tuples_def unzip_pairs_def get_axes_def range_or_default_def
      check_not_tuple_of_2_elements_def Let_def
      plot_metric_def evals_train_def metric_defaults_def)

lemma abc_no_xlim:
  "(importance_defaults\<lparr>xlim := Some NonTuple\<rparr>)\<lparr>xlim := None\<rparr> = importance_defaults"
  "(importance_defaults\<lparr>figsize := Some NonTuple\<rparr>)\<lparr>figsize := None\<rparr> = importance_defaults"
  "(histogram_defaults\<lparr>xlim := Some NonTuple\<rparr>)\<lparr>xlim := None\<rparr> = histogram_defaults"
  "(metric_defaults\<lparr>ylim := Some (Tuple [0, 1, 2])\<rparr>)\<lparr>ylim := None\<rparr> = metric_defaults"
  by (simp_all add: importance_defaults_def histogram_defaults_def metric_defaults_def)

theorem validation_order_witness:
  "as_booster Other = Inl (TypeError ''booster must be Booster or LGBMModel.'')
   \<and> plot_importance True fmt0 Other importance_defaults 0.2 ''split'' None True None [] =
       ([], Inl (TypeError ''booster must be Booster or LGBMModel.''))
   \<and> plot_tree True True fmt0 Other None 0 None None None None None None [] =
       ([Subplots None], Inl (TypeError ''booster must be Booster or LGBMModel.''))
   \<and> check_not_tuple_of_2_elements NonTuple ''figsize'' =
       Inl (TypeError ''figsize must be a tuple of 2 elements.'')
   \<and> Subplots None \<in> set (fst (plot_importance True fmt0 (Booster booster_abc)
              importance_defaults 0.2 ''split'' (Some 1) True None []))
   \<and> plot_importance True fmt0 (Booster booster_abc)
         (importance_defaults\<lparr>figsize := Some NonTuple\<rparr>) 0.2 ''split'' (Some 1) True None [] =
       ([], Inl (TypeError ''figsize must be a tuple of 2 elements.''))
   \<and> plot_tree True True fmt0 (Booster booster_abc) None 0 (Some NonTuple) None None None None None [] =
       ([], Inl (TypeError ''figsize must be a tuple of 2 elements.''))
   \<and> check_not_tuple_of_2_elements NonTuple ''xlim'' =
       Inl (TypeError ''xlim must be a tuple of 2 elements.'')
   \<and> Set_xlim [0, 11] \<in> set (fst (plot_importance True fmt0 (Booster booster_abc)
              importance_defaults 0.2 ''split'' (Some 1) True None []))
   \<and> snd (plot_importance True fmt0 (Booster booster_abc)
              (importance_defaults\<lparr>xlim := Some NonTuple\<rparr>) 0.2 ''split'' (Some 1) True None []) =
       Inl (TypeError ''xlim must be a tuple of 2 elements.'')
   \<and> (\<exists>ylocs vals. Barh ylocs vals 0.2 [] \<in> set (fst (plot_importance True fmt0 (Booster booster_abc)
              (importance_defaults\<lparr>xlim := Some NonTuple\<rparr>) 0.2 ''split'' (Some 1) True None [])))
   \<and> Set_xlim [0, 11] \<notin> set (fst (plot_importance True fmt0 (Booster booster_abc)
              (importance_defaults\<lparr>xlim := Some NonTuple\<rparr>) 0.2 ''split'' (Some 1) True None []))
   \<and> Set_xlim [- 0.6, 3.6] \<in> set (fst (plot_split_value_histogram True (Booster booster_abc)
              (FeatureIndex 0) BinsNone histogram_defaults 0.8 []))
   \<and> snd (plot_split_value_histogram True (Booster booster_abc) (FeatureIndex 0) BinsNone
              (histogram_defaults\<lparr>xlim := Some NonTuple\<rparr>) 0.8 []) =
       Inl (TypeError ''xlim must be a tuple of 2 elements.'')
   \<and> (\<exists>centres counts w. Bar centres counts w [] \<in> set (fst (plot_split_value_histogram True
              (Booster booster_abc) (FeatureIndex 0) BinsNone
              (histogram_defaults\<lparr>xlim := Some NonTuple\<rparr>) 0.8 [])))
   \<and> check_not_tuple_of_2_elements (Tuple [0, 1, 2]) ''ylim'' =
       Inl (TypeError ''ylim must be a tuple of 2 elements.'')
   \<and> Set_ylim [0.06, 1.04] \<in> set (fst (plot_metric True (Dict evals_two) (Some ''l2'') None
              metric_defaults))
   \<and> snd (plot_metric True (Dict evals_two) (Some ''l2'') None
              (metric_defaults\<lparr>ylim := Some (Tuple [0, 1, 2])\<rparr>)) =
       Inl (TypeError ''ylim must be a tuple of 2 elements.'')
   \<and> plot_labels (fst (plot_metric True (Dict evals_two) (Some ''l2'') None
              (metric_defaults\<lparr>ylim := Some (Tuple [0, 1, 2])\<rparr>))) = [''train'', ''valid'']
   \<and> (\<exists>xr. Set_xlim xr \<in> set (fst (plot_metric True (Dict evals_two) (Some ''l2'') None
              (metric_defaults\<lparr>ylim := Some (Tuple [0, 1, 2])\<rparr>))))
   \<and> evals_of (Dict evals_train) \<noteq> []
   \<and> get_axes (ax metric_defaults) (figsize metric_defaults) = ([Subplots None], Inr NewAxes)
   \<and> plot_metric True (Dict evals_train) None (Some (Names [])) metric_defaults =
       ([Subplots None], Inl (ValueError ''dataset_names should be iterable and cannot be empty''))"
proof -
  have t: "as_booster Other = Inl (TypeError ''booster must be Booster or LGBMModel.'')"
    by (simp add: as_booster_def)
  have f: "check_not_tuple_of_2_elements NonTuple ''figsize'' =
      Inl (TypeError ''figsize must be a tuple of 2 elements.'')"
    and x: "check_not_tuple_of_2_elements NonTuple ''xlim'' =
      Inl (TypeError ''xlim must be a tuple of 2 elements.'')"
    and y: "check_not_tuple_of_2_elements (Tuple [0, 1, 2]) ''ylim'' =
      Inl (TypeError ''ylim must be a tuple of 2 elements.'')"
    by (simp_all add: check_not_tuple_of_2_elements_def)
  have fk: "forward_kwargs Other 0 None None
      (snd (fold_deprecated (tree_locals None None None)
              [''old_graph_attr'', ''old_node_attr'', ''old_edge_attr''] ([], []))) =
      Inr (digraph_call Other 0 None None [])"
    by (simp add: forward_kwargs_def digraph_call_def tree_locals_def locals_get_def kw_in_def)
  have fd: "fst (fold_deprecated (tree_locals None None None)
              [''old_graph_attr'', ''old_node_attr'', ''old_edge_attr''] ([], [])) = []"
    by (simp add: tree_locals_def locals_get_def)
  have si: "Subplots None \<in> set (fst (plot_importance True fmt0 (Booster booster_abc)
              importance_defaults 0.2 ''split'' (Some 1) True None []))"
    and xi: "Set_xlim [0, 11] \<in> set (fst (plot_importance True fmt0 (Booster booster_abc)
              importance_defaults 0.2 ''split'' (Some 1) True None []))"
    unfolding abc_plot by (simp_all add: abc_top1_effects_def)
  have xh: "Set_xlim [- 0.6, 3.6] \<in> set (fst (plot_split_value_histogram True (Booster booster_abc)
              (FeatureIndex 0) BinsNone histogram_defaults 0.8 []))"
    unfolding abc_histogram by (simp add: abc_histogram_effects_def)
  have ym: "Set_ylim [0.06, 1.04] \<in> set (fst (plot_metric True (Dict evals_two) (Some ''l2'') None
              metric_defaults))"
    unfolding two_metric by (simp add: two_metric_effects_def)
  have sel: "dataset_selection (Dict evals_two) None = [''train'', ''valid'']"
    by (simp add: dataset_selection_def evals_two_def)
  have ev: "evals_of (Dict evals_train) \<noteq> []"
    by (simp add: evals_of_def evals_train_def)
  have ga: "get_axes (ax metric_defaults) (figsize metric_defaults) = ([Subplots None], Inr NewAxes)"
    by (simp add: get_axes_def metric_defaults_def)
  have 1: "plot_importance True fmt0 Other importance_defaults 0.2 ''split'' None True None [] =
       ([], Inl (TypeError ''booster must be Booster or LGBMModel.''))"
    and 2: "plot_tree True True fmt0 Other None 0 None None None None None None [] =
       ([Subplots None], Inl (TypeError ''booster must be Booster or LGBMModel.''))"
    using validation_order [where h = Other and e = "TypeError ''booster must be Booster or LGBMModel.''"
        and F = fmt0 and opts = importance_defaults and ht = "0.2" and it = "''split''"
        and mnf = None and iz = True and prec = None and kw = "[]" and gv = True and ti = 0
        and si = None and oga = None and ona = None and oea = None and ?kw0.0 = "[]"
        and args = "digraph_call Other 0 None None []"] t fk fd
    by simp_all
  have 3: "plot_importance True fmt0 (Booster booster_abc)
         (importance_defaults\<lparr>figsize := Some NonTuple\<rparr>) 0.2 ''split'' (Some 1) True None [] =
       ([], Inl (TypeError ''figsize must be a tuple of 2 elements.''))"
    and 4: "plot_tree True True fmt0 (Booster booster_abc) None 0 (Some NonTuple) None None None None None [] =
       ([], Inl (TypeError ''figsize must be a tuple of 2 elements.''))"
    using validation_order [where h = "Booster booster_abc"
        and e = "TypeError ''figsize must be a tuple of 2 elements.''" and fs = NonTuple
        and F = fmt0 and opts = "importance_defaults\<lparr>figsize := Some NonTuple\<rparr>" and ht = "0.2"
        and it = "''split''" and mnf = "Some 1" and iz = True and prec = None and kw = "[]"
        and gv = True and ti = 0 and si = None and oga = None and ona = None and oea = None
        and ?kw0.0 = "[]"] f si fd
    unfolding abc_no_xlim
    by (simp_all add: importance_defaults_def)
  have 5: "snd (plot_importance True fmt0 (Booster booster_abc)
              (importance_defaults\<lparr>xlim := Some NonTuple\<rparr>) 0.2 ''split'' (Some 1) True None []) =
       Inl (TypeError ''xlim must be a tuple of 2 elements.'')"
    using validation_order [where h = "Booster booster_abc"
        and e = "TypeError ''xlim must be a tuple of 2 elements.''" and r = NonTuple
        and F = fmt0 and opts = "importance_defaults\<lparr>xlim := Some NonTuple\<rparr>" and ht = "0.2"
        and it = "''split''" and mnf = "Some 1" and iz = True and prec = None and kw = "[]"
        and v = "[0, 11]"] x xi
    unfolding abc_no_xlim
    by (simp add: importance_defaults_def)
  have 6: "\<exists>ylocs vals. Barh ylocs vals 0.2 [] \<in> set (fst (plot_importance True fmt0 (Booster booster_abc)
              (importance_defaults\<lparr>xlim := Some NonTuple\<rparr>) 0.2 ''split'' (Some 1) True None []))"
    and 7: "Set_xlim [0, 11] \<notin> set (fst (plot_importance True fmt0 (Booster booster_abc)
              (importance_defaults\<lparr>xlim := Some NonTuple\<rparr>) 0.2 ''split'' (Some 1) True None []))"
    using validation_order [where h = "Booster booster_abc"
        and e = "TypeError ''xlim must be a tuple of 2 elements.''" and r = NonTuple
        and F = fmt0 and opts = "importance_defaults\<lparr>xlim := Some NonTuple\<rparr>" and ht = "0.2"
        and it = "''split''" and mnf = "Some 1" and iz = True and prec = None and kw = "[]"
        and v = "[0, 11]"] x 5
    by (simp_all add: importance_defaults_def)
  have 8: "snd (plot_split_value_histogram True (Booster booster_abc) (FeatureIndex 0) BinsNone
              (histogram_defaults\<lparr>xlim := Some NonTuple\<rparr>) 0.8 []) =
       Inl (TypeError ''xlim must be a tuple of 2 elements.'')"
    using validation_order [where h = "Booster booster_abc"
        and e = "TypeError ''xlim must be a tuple of 2 elements.''" and r = NonTuple
        and opts = "histogram_defaults\<lparr>xlim := Some NonTuple\<rparr>" and feat = "FeatureIndex 0"
        and bins = BinsNone and wc = "0.8" and kw = "[]" and v = "[- 0.6, 3.6]"] x xh
    unfolding abc_no_xlim
    by (simp add: histogram_defaults_def)
  have 9: "\<exists>centres counts w. Bar centres counts w [] \<in> set (fst (plot_split_value_histogram True
              (Booster booster_abc) (FeatureIndex 0) BinsNone
              (histogram_defaults\<lparr>xlim := Some NonTuple\<rparr>) 0.8 []))"
    using validation_order [where h = "Booster booster_abc"
        and e = "TypeError ''xlim must be a tuple of 2 elements.''" and r = NonTuple
        and opts = "histogram_defaults\<lparr>xlim := Some NonTuple\<rparr>" and feat = "FeatureIndex 0"
        and bins = BinsNone and wc = "0.8" and kw = "[]"] x 8
    by (simp add: histogram_defaults_def)
  have 10: "snd (plot_metric True (Dict evals_two) (Some ''l2'') None
              (metric_defaults\<lparr>ylim := Some (Tuple [0, 1, 2])\<rparr>)) =
       Inl (TypeError ''ylim must be a tuple of 2 elements.'')"
    using validation_order [where h = "Dict evals_two"
        and e = "TypeError ''ylim must be a tuple of 2 elements.''" and r = "Tuple [0, 1, 2]"
        and opts = "metric_defaults\<lparr>ylim := Some (Tuple [0, 1, 2])\<rparr>" and m = "Some ''l2''"
        and dn = None and v = "[0.06, 1.04]"] y ym
    unfolding abc_no_xlim
    by (simp add: metric_defaults_def)
  have 11: "plot_labels (fst (plot_metric True (Dict evals_two) (Some ''l2'') None
              (metric_defaults\<lparr>ylim := Some (Tuple [0, 1, 2])\<rparr>))) = [''train'', ''valid'']"
    and 12: "\<exists>xr. Set_xlim xr \<in> set (fst (plot_metric True (Dict evals_two) (Some ''l2'') None
              (metric_defaults\<lparr>ylim := Some (Tuple [0, 1, 2])\<rparr>)))"
    using validation_order [where h = "Dict evals_two"
        and e = "TypeError ''ylim must be a tuple of 2 elements.''" and r = "Tuple [0, 1, 2]"
        and opts = "metric_defaults\<lparr>ylim := Some (Tuple [0, 1, 2])\<rparr>" and m = "Some ''l2''"
        and dn = None] y 10 sel
    by (simp_all add: metric_defaults_def)
  have 13: "plot_metric True (Dict evals_train) None (Some (Names [])) metric_defaults =
       ([Subplots None], Inl (ValueError ''dataset_names should be iterable and cannot be empty''))"
    using validation_order [where h = "Dict evals_train" and opts = metric_defaults and m = None
        and dn = "Some (Names [])" and ?eff1.0 = "[Subplots None]" and x = NewAxes] ev ga
    by simp
  from t f x y si xi xh ym ev ga 1 2 3 4 5 6 7 8 9 10 11 12 13 show ?thesis
    by (intro conjI)
qed

end
